theory Spec2Isabelle
  imports Complex_Main "HOL-Library.Word" "HOL-Library.Multiset"
begin

section \<open>JavaScript values used by script.js\<close>

text \<open>
  A JavaScript string is a sequence of 16-bit code units. \<open>js\<close> embeds an ASCII literal
  of the source text.
\<close>

type_synonym jsstring = "16 word list"

definition js :: "string \<Rightarrow> jsstring" where
  "js s = map (\<lambda>c. of_char c) s"

text \<open>
  \<open>Number.prototype.toString\<close> on the integers the script prints (scores, indices,
  category ids): decimal digits, with a leading minus sign for a negative number.
\<close>

definition digit :: "nat \<Rightarrow> 16 word" where
  "digit d = of_nat (48 + d)"

fun digits :: "nat \<Rightarrow> jsstring" where
  "digits n = (if n < 10 then [digit n] else digits (n div 10) @ [digit (n mod 10)])"

declare digits.simps [simp del]

definition toString :: "int \<Rightarrow> jsstring" where
  "toString n = (if n < 0 then js ''-'' @ digits (nat (- n)) else digits (nat n))"

section \<open>The browser's HTML parsing and serialisation\<close>

text \<open>
  script.js decodes API text by assigning it to the \<open>innerHTML\<close> of a detached textarea
  and reading \<open>value\<close> back, and it fills buttons by assigning to their \<open>innerHTML\<close>.
  Both run the HTML fragment parser. The definitions below follow the tokenizer of the HTML
  standard for text: newline normalisation of the input stream, character references
  (numeric ones, and named ones with the standard's table of 2231 names), and the
  treatment of U+0000. In a textarea no tag is recognised (no end tag is appropriate in the
  fragment case), so this is all of \<open>decodeHTML\<close>. In a button or div a \<open><\<close> followed by a
  letter, \<open>/\<close>, \<open>!\<close> or \<open>?\<close> opens a tag, comment or declaration; what the tree
  construction of the standard makes of such a fragment is not defined here but taken as
  a parameter (see \<open>setInnerHTML\<close>).
\<close>

fun normalizeNewlines :: "jsstring \<Rightarrow> jsstring" where
  "normalizeNewlines [] = []"
| "normalizeNewlines (c # cs) =
     (if c = 0x0D then
        (case cs of
           [] \<Rightarrow> [0x0A]
         | d # ds \<Rightarrow> if d = 0x0A then 0x0A # normalizeNewlines ds
                     else 0x0A # normalizeNewlines cs)
      else c # normalizeNewlines cs)"

definition isDigit :: "16 word \<Rightarrow> bool" where
  "isDigit c = (0x30 \<le> c \<and> c \<le> 0x39)"

definition isUpperHex :: "16 word \<Rightarrow> bool" where
  "isUpperHex c = (0x41 \<le> c \<and> c \<le> 0x46)"

definition isLowerHex :: "16 word \<Rightarrow> bool" where
  "isLowerHex c = (0x61 \<le> c \<and> c \<le> 0x66)"

definition isHexDigit :: "16 word \<Rightarrow> bool" where
  "isHexDigit c = (isDigit c \<or> isUpperHex c \<or> isLowerHex c)"

definition isAlpha :: "16 word \<Rightarrow> bool" where
  "isAlpha c = ((0x41 \<le> c \<and> c \<le> 0x5A) \<or> (0x61 \<le> c \<and> c \<le> 0x7A))"

definition isAlphanumeric :: "16 word \<Rightarrow> bool" where
  "isAlphanumeric c = (isDigit c \<or> isAlpha c)"

definition digitValue :: "16 word \<Rightarrow> nat" where
  "digitValue c = (if isDigit c then unat c - 0x30
                   else if isUpperHex c then unat c - 0x37
                   else unat c - 0x57)"

definition characterReferenceCode :: "nat \<Rightarrow> jsstring \<Rightarrow> nat" where
  "characterReferenceCode base ds = foldl (\<lambda>v d. v * base + digitValue d) 0 ds"

text \<open>The replacements of the numeric character reference end state for C1 controls.\<close>

definition c1Replacements :: "(nat \<times> 16 word) list" where
  "c1Replacements =
     [(0x80, 0x20AC), (0x82, 0x201A), (0x83, 0x0192), (0x84, 0x201E), (0x85, 0x2026),
      (0x86, 0x2020), (0x87, 0x2021), (0x88, 0x02C6), (0x89, 0x2030), (0x8A, 0x0160),
      (0x8B, 0x2039), (0x8C, 0x0152), (0x8E, 0x017D), (0x91, 0x2018), (0x92, 0x2019),
      (0x93, 0x201C), (0x94, 0x201D), (0x95, 0x2022), (0x96, 0x2013), (0x97, 0x2014),
      (0x98, 0x02DC), (0x99, 0x2122), (0x9A, 0x0161), (0x9B, 0x203A), (0x9C, 0x0153),
      (0x9E, 0x017E), (0x9F, 0x0178)]"

text \<open>
  The numeric character reference end state: zero, values beyond U+10FFFF and surrogates
  become U+FFFD; a code point above the basic plane is a surrogate pair of code units.
\<close>

definition codeUnits :: "nat \<Rightarrow> jsstring" where
  "codeUnits n =
     (if n = 0 \<or> 0x10FFFF < n \<or> (0xD800 \<le> n \<and> n \<le> 0xDFFF) then [0xFFFD]
      else case map_of c1Replacements n of
             Some u \<Rightarrow> [u]
           | None \<Rightarrow>
               if n < 0x10000 then [of_nat n]
               else [of_nat (0xD800 + (n - 0x10000) div 0x400),
                     of_nat (0xDC00 + (n - 0x10000) mod 0x400)])"

text \<open>
  A numeric reference: the text after \<open>&#\<close>. The result is the replacement and the number
  of code units consumed after the \<open>#\<close>; a missing semicolon is a parse error only.
\<close>

definition semicolonAt :: "nat \<Rightarrow> jsstring \<Rightarrow> nat" where
  "semicolonAt n cs = (case drop n cs of [] \<Rightarrow> 0 | c # _ \<Rightarrow> if c = 0x3B then 1 else 0)"

definition numericCharacterReference :: "jsstring \<Rightarrow> (jsstring \<times> nat) option" where
  "numericCharacterReference cs =
     (case cs of
        [] \<Rightarrow> None
      | c # rest \<Rightarrow>
          if c = 0x78 \<or> c = 0x58 then
            (let ds = takeWhile isHexDigit rest in
             if ds = [] then None
             else Some (codeUnits (characterReferenceCode 16 ds),
                        1 + length ds + semicolonAt (length ds) rest))
          else
            (let ds = takeWhile isDigit cs in
             if ds = [] then None
             else Some (codeUnits (characterReferenceCode 10 ds),
                        length ds + semicolonAt (length ds) cs)))"

text \<open>
  The named character references of the HTML standard, grouped by the first letter of
  the name: each entry is a name (the historical names are listed with and without their
  semicolon) and the code units that replace it.
\<close>

definition names_A :: "(string \<times> jsstring) list" where
  "names_A =
     [(''AElig'', [0x00C6]), (''AElig;'', [0x00C6]), (''AMP'', [0x0026]), (''AMP;'', [0x0026]),
      (''Aacute'', [0x00C1]), (''Aacute;'', [0x00C1]), (''Abreve;'', [0x0102]),
      (''Acirc'', [0x00C2]), (''Acirc;'', [0x00C2]), (''Acy;'', [0x0410]),
      (''Afr;'', [0xD835, 0xDD04]), (''Agrave'', [0x00C0]), (''Agrave;'', [0x00C0]),
      (''Alpha;'', [0x0391]), (''Amacr;'', [0x0100]), (''And;'', [0x2A53]),
      (''Aogon;'', [0x0104]), (''Aopf;'', [0xD835, 0xDD38]), (''ApplyFunction;'', [0x2061]),
      (''Aring'', [0x00C5]), (''Aring;'', [0x00C5]), (''Ascr;'', [0xD835, 0xDC9C]),
      (''Assign;'', [0x2254]), (''Atilde'', [0x00C3]), (''Atilde;'', [0x00C3]),
      (''Auml'', [0x00C4]), (''Auml;'', [0x00C4])]"

definition names_a :: "(string \<times> jsstring) list" where
  "names_a =
     [(''aacute'', [0x00E1]), (''aacute;'', [0x00E1]), (''abreve;'', [0x0103]),
      (''ac;'', [0x223E]), (''acE;'', [0x223E, 0x0333]), (''acd;'', [0x223F]),
      (''acirc'', [0x00E2]), (''acirc;'', [0x00E2]), (''acute'', [0x00B4]),
      (''acute;'', [0x00B4]), (''acy;'', [0x0430]), (''aelig'', [0x00E6]),
      (''aelig;'', [0x00E6]), (''af;'', [0x2061]), (''afr;'', [0xD835, 0xDD1E]),
      (''agrave'', [0x00E0]), (''agrave;'', [0x00E0]), (''alefsym;'', [0x2135]),
      (''aleph;'', [0x2135]), (''alpha;'', [0x03B1]), (''amacr;'', [0x0101]),
      (''amalg;'', [0x2A3F]), (''amp'', [0x0026]), (''amp;'', [0x0026]), (''and;'', [0x2227]),
      (''andand;'', [0x2A55]), (''andd;'', [0x2A5C]), (''andslope;'', [0x2A58]),
      (''andv;'', [0x2A5A]), (''ang;'', [0x2220]), (''ange;'', [0x29A4]),
      (''angle;'', [0x2220]), (''angmsd;'', [0x2221]), (''angmsdaa;'', [0x29A8]),
      (''angmsdab;'', [0x29A9]), (''angmsdac;'', [0x29AA]), (''angmsdad;'', [0x29AB]),
      (''angmsdae;'', [0x29AC]), (''angmsdaf;'', [0x29AD]), (''angmsdag;'', [0x29AE]),
      (''angmsdah;'', [0x29AF]), (''angrt;'', [0x221F]), (''angrtvb;'', [0x22BE]),
      (''angrtvbd;'', [0x299D]), (''angsph;'', [0x2222]), (''angst;'', [0x00C5]),
      (''angzarr;'', [0x237C]), (''aogon;'', [0x0105]), (''aopf;'', [0xD835, 0xDD52]),
      (''ap;'', [0x2248]), (''apE;'', [0x2A70]), (''apacir;'', [0x2A6F]), (''ape;'', [0x224A]),
      (''apid;'', [0x224B]), (''apos;'', [0x0027]), (''approx;'', [0x2248]),
      (''approxeq;'', [0x224A]), (''aring'', [0x00E5]), (''aring;'', [0x00E5]),
      (''ascr;'', [0xD835, 0xDCB6]), (''ast;'', [0x002A]), (''asymp;'', [0x2248]),
      (''asympeq;'', [0x224D]), (''atilde'', [0x00E3]), (''atilde;'', [0x00E3]),
      (''auml'', [0x00E4]), (''auml;'', [0x00E4]), (''awconint;'', [0x2233]),
      (''awint;'', [0x2A11])]"

definition names_B :: "(string \<times> jsstring) list" where
  "names_B =
     [(''Backslash;'', [0x2216]), (''Barv;'', [0x2AE7]), (''Barwed;'', [0x2306]),
      (''Bcy;'', [0x0411]), (''Because;'', [0x2235]), (''Bernoullis;'', [0x212C]),
      (''Beta;'', [0x0392]), (''Bfr;'', [0xD835, 0xDD05]), (''Bopf;'', [0xD835, 0xDD39]),
      (''Breve;'', [0x02D8]), (''Bscr;'', [0x212C]), (''Bumpeq;'', [0x224E])]"

definition names_b :: "(string \<times> jsstring) list" where
  "names_b =
     [(''bNot;'', [0x2AED]), (''backcong;'', [0x224C]), (''backepsilon;'', [0x03F6]),
      (''backprime;'', [0x2035]), (''backsim;'', [0x223D]), (''backsimeq;'', [0x22CD]),
      (''barvee;'', [0x22BD]), (''barwed;'', [0x2305]), (''barwedge;'', [0x2305]),
      (''bbrk;'', [0x23B5]), (''bbrktbrk;'', [0x23B6]), (''bcong;'', [0x224C]),
      (''bcy;'', [0x0431]), (''bdquo;'', [0x201E]), (''becaus;'', [0x2235]),
      (''because;'', [0x2235]), (''bemptyv;'', [0x29B0]), (''bepsi;'', [0x03F6]),
      (''bernou;'', [0x212C]), (''beta;'', [0x03B2]), (''beth;'', [0x2136]),
      (''between;'', [0x226C]), (''bfr;'', [0xD835, 0xDD1F]), (''bigcap;'', [0x22C2]),
      (''bigcirc;'', [0x25EF]), (''bigcup;'', [0x22C3]), (''bigodot;'', [0x2A00]),
      (''bigoplus;'', [0x2A01]), (''bigotimes;'', [0x2A02]), (''bigsqcup;'', [0x2A06]),
      (''bigstar;'', [0x2605]), (''bigtriangledown;'', [0x25BD]),
      (''bigtriangleup;'', [0x25B3]), (''biguplus;'', [0x2A04]), (''bigvee;'', [0x22C1]),
      (''bigwedge;'', [0x22C0]), (''bkarow;'', [0x290D]), (''blacklozenge;'', [0x29EB]),
      (''blacksquare;'', [0x25AA]), (''blacktriangle;'', [0x25B4]),
      (''blacktriangledown;'', [0x25BE]), (''blacktriangleleft;'', [0x25C2]),
      (''blacktriangleright;'', [0x25B8]), (''blank;'', [0x2423]), (''blk12;'', [0x2592]),
      (''blk14;'', [0x2591]), (''blk34;'', [0x2593]), (''block;'', [0x2588]),
      (''bne;'', [0x003D, 0x20E5]), (''bnequiv;'', [0x2261, 0x20E5]), (''bnot;'', [0x2310]),
      (''bopf;'', [0xD835, 0xDD53]), (''bot;'', [0x22A5]), (''bottom;'', [0x22A5]),
      (''bowtie;'', [0x22C8]), (''boxDL;'', [0x2557]), (''boxDR;'', [0x2554]),
      (''boxDl;'', [0x2556]), (''boxDr;'', [0x2553]), (''boxH;'', [0x2550]),
      (''boxHD;'', [0x2566]), (''boxHU;'', [0x2569]), (''boxHd;'', [0x2564]),
      (''boxHu;'', [0x2567]), (''boxUL;'', [0x255D]), (''boxUR;'', [0x255A]),
      (''boxUl;'', [0x255C]), (''boxUr;'', [0x2559]), (''boxV;'', [0x2551]),
      (''boxVH;'', [0x256C]), (''boxVL;'', [0x2563]), (''boxVR;'', [0x2560]),
      (''boxVh;'', [0x256B]), (''boxVl;'', [0x2562]), (''boxVr;'', [0x255F]),
      (''boxbox;'', [0x29C9]), (''boxdL;'', [0x2555]), (''boxdR;'', [0x2552]),
      (''boxdl;'', [0x2510]), (''boxdr;'', [0x250C]), (''boxh;'', [0x2500]),
      (''boxhD;'', [0x2565]), (''boxhU;'', [0x2568]), (''boxhd;'', [0x252C]),
      (''boxhu;'', [0x2534]), (''boxminus;'', [0x229F]), (''boxplus;'', [0x229E]),
      (''boxtimes;'', [0x22A0]), (''boxuL;'', [0x255B]), (''boxuR;'', [0x2558]),
      (''boxul;'', [0x2518]), (''boxur;'', [0x2514]), (''boxv;'', [0x2502]),
      (''boxvH;'', [0x256A]), (''boxvL;'', [0x2561]), (''boxvR;'', [0x255E]),
      (''boxvh;'', [0x253C]), (''boxvl;'', [0x2524]), (''boxvr;'', [0x251C]),
      (''bprime;'', [0x2035]), (''breve;'', [0x02D8]), (''brvbar'', [0x00A6]),
      (''brvbar;'', [0x00A6]), (''bscr;'', [0xD835, 0xDCB7]), (''bsemi;'', [0x204F]),
      (''bsim;'', [0x223D]), (''bsime;'', [0x22CD]), (''bsol;'', [0x005C]),
      (''bsolb;'', [0x29C5]), (''bsolhsub;'', [0x27C8]), (''bull;'', [0x2022]),
      (''bullet;'', [0x2022]), (''bump;'', [0x224E]), (''bumpE;'', [0x2AAE]),
      (''bumpe;'', [0x224F]), (''bumpeq;'', [0x224F])]"

definition names_C :: "(string \<times> jsstring) list" where
  "names_C =
     [(''CHcy;'', [0x0427]), (''COPY'', [0x00A9]), (''COPY;'', [0x00A9]),
      (''Cacute;'', [0x0106]), (''Cap;'', [0x22D2]), (''CapitalDifferentialD;'', [0x2145]),
      (''Cayleys;'', [0x212D]), (''Ccaron;'', [0x010C]), (''Ccedil'', [0x00C7]),
      (''Ccedil;'', [0x00C7]), (''Ccirc;'', [0x0108]), (''Cconint;'', [0x2230]),
      (''Cdot;'', [0x010A]), (''Cedilla;'', [0x00B8]), (''CenterDot;'', [0x00B7]),
      (''Cfr;'', [0x212D]), (''Chi;'', [0x03A7]), (''CircleDot;'', [0x2299]),
      (''CircleMinus;'', [0x2296]), (''CirclePlus;'', [0x2295]), (''CircleTimes;'', [0x2297]),
      (''ClockwiseContourIntegral;'', [0x2232]), (''CloseCurlyDoubleQuote;'', [0x201D]),
      (''CloseCurlyQuote;'', [0x2019]), (''Colon;'', [0x2237]), (''Colone;'', [0x2A74]),
      (''Congruent;'', [0x2261]), (''Conint;'', [0x222F]), (''ContourIntegral;'', [0x222E]),
      (''Copf;'', [0x2102]), (''Coproduct;'', [0x2210]),
      (''CounterClockwiseContourIntegral;'', [0x2233]), (''Cross;'', [0x2A2F]),
      (''Cscr;'', [0xD835, 0xDC9E]), (''Cup;'', [0x22D3]), (''CupCap;'', [0x224D])]"

definition names_c :: "(string \<times> jsstring) list" where
  "names_c =
     [(''cacute;'', [0x0107]), (''cap;'', [0x2229]), (''capand;'', [0x2A44]),
      (''capbrcup;'', [0x2A49]), (''capcap;'', [0x2A4B]), (''capcup;'', [0x2A47]),
      (''capdot;'', [0x2A40]), (''caps;'', [0x2229, 0xFE00]), (''caret;'', [0x2041]),
      (''caron;'', [0x02C7]), (''ccaps;'', [0x2A4D]), (''ccaron;'', [0x010D]),
      (''ccedil'', [0x00E7]), (''ccedil;'', [0x00E7]), (''ccirc;'', [0x0109]),
      (''ccups;'', [0x2A4C]), (''ccupssm;'', [0x2A50]), (''cdot;'', [0x010B]),
      (''cedil'', [0x00B8]), (''cedil;'', [0x00B8]), (''cemptyv;'', [0x29B2]),
      (''cent'', [0x00A2]), (''cent;'', [0x00A2]), (''centerdot;'', [0x00B7]),
      (''cfr;'', [0xD835, 0xDD20]), (''chcy;'', [0x0447]), (''check;'', [0x2713]),
      (''checkmark;'', [0x2713]), (''chi;'', [0x03C7]), (''cir;'', [0x25CB]),
      (''cirE;'', [0x29C3]), (''circ;'', [0x02C6]), (''circeq;'', [0x2257]),
      (''circlearrowleft;'', [0x21BA]), (''circlearrowright;'', [0x21BB]),
      (''circledR;'', [0x00AE]), (''circledS;'', [0x24C8]), (''circledast;'', [0x229B]),
      (''circledcirc;'', [0x229A]), (''circleddash;'', [0x229D]), (''cire;'', [0x2257]),
      (''cirfnint;'', [0x2A10]), (''cirmid;'', [0x2AEF]), (''cirscir;'', [0x29C2]),
      (''clubs;'', [0x2663]), (''clubsuit;'', [0x2663]), (''colon;'', [0x003A]),
      (''colone;'', [0x2254]), (''coloneq;'', [0x2254]), (''comma;'', [0x002C]),
      (''commat;'', [0x0040]), (''comp;'', [0x2201]), (''compfn;'', [0x2218]),
      (''complement;'', [0x2201]), (''complexes;'', [0x2102]), (''cong;'', [0x2245]),
      (''congdot;'', [0x2A6D]), (''conint;'', [0x222E]), (''copf;'', [0xD835, 0xDD54]),
      (''coprod;'', [0x2210]), (''copy'', [0x00A9]), (''copy;'', [0x00A9]),
      (''copysr;'', [0x2117]), (''crarr;'', [0x21B5]), (''cross;'', [0x2717]),
      (''cscr;'', [0xD835, 0xDCB8]), (''csub;'', [0x2ACF]), (''csube;'', [0x2AD1]),
      (''csup;'', [0x2AD0]), (''csupe;'', [0x2AD2]), (''ctdot;'', [0x22EF]),
      (''cudarrl;'', [0x2938]), (''cudarrr;'', [0x2935]), (''cuepr;'', [0x22DE]),
      (''cuesc;'', [0x22DF]), (''cularr;'', [0x21B6]), (''cularrp;'', [0x293D]),
      (''cup;'', [0x222A]), (''cupbrcap;'', [0x2A48]), (''cupcap;'', [0x2A46]),
      (''cupcup;'', [0x2A4A]), (''cupdot;'', [0x228D]), (''cupor;'', [0x2A45]),
      (''cups;'', [0x222A, 0xFE00]), (''curarr;'', [0x21B7]), (''curarrm;'', [0x293C]),
      (''curlyeqprec;'', [0x22DE]), (''curlyeqsucc;'', [0x22DF]), (''curlyvee;'', [0x22CE]),
      (''curlywedge;'', [0x22CF]), (''curren'', [0x00A4]), (''curren;'', [0x00A4]),
      (''curvearrowleft;'', [0x21B6]), (''curvearrowright;'', [0x21B7]),
      (''cuvee;'', [0x22CE]), (''cuwed;'', [0x22CF]), (''cwconint;'', [0x2232]),
      (''cwint;'', [0x2231]), (''cylcty;'', [0x232D])]"

definition names_D :: "(string \<times> jsstring) list" where
  "names_D =
     [(''DD;'', [0x2145]), (''DDotrahd;'', [0x2911]), (''DJcy;'', [0x0402]),
      (''DScy;'', [0x0405]), (''DZcy;'', [0x040F]), (''Dagger;'', [0x2021]),
      (''Darr;'', [0x21A1]), (''Dashv;'', [0x2AE4]), (''Dcaron;'', [0x010E]),
      (''Dcy;'', [0x0414]), (''Del;'', [0x2207]), (''Delta;'', [0x0394]),
      (''Dfr;'', [0xD835, 0xDD07]), (''DiacriticalAcute;'', [0x00B4]),
      (''DiacriticalDot;'', [0x02D9]), (''DiacriticalDoubleAcute;'', [0x02DD]),
      (''DiacriticalGrave;'', [0x0060]), (''DiacriticalTilde;'', [0x02DC]),
      (''Diamond;'', [0x22C4]), (''DifferentialD;'', [0x2146]), (''Dopf;'', [0xD835, 0xDD3B]),
      (''Dot;'', [0x00A8]), (''DotDot;'', [0x20DC]), (''DotEqual;'', [0x2250]),
      (''DoubleContourIntegral;'', [0x222F]), (''DoubleDot;'', [0x00A8]),
      (''DoubleDownArrow;'', [0x21D3]), (''DoubleLeftArrow;'', [0x21D0]),
      (''DoubleLeftRightArrow;'', [0x21D4]), (''DoubleLeftTee;'', [0x2AE4]),
      (''DoubleLongLeftArrow;'', [0x27F8]), (''DoubleLongLeftRightArrow;'', [0x27FA]),
      (''DoubleLongRightArrow;'', [0x27F9]), (''DoubleRightArrow;'', [0x21D2]),
      (''DoubleRightTee;'', [0x22A8]), (''DoubleUpArrow;'', [0x21D1]),
      (''DoubleUpDownArrow;'', [0x21D5]), (''DoubleVerticalBar;'', [0x2225]),
      (''DownArrow;'', [0x2193]), (''DownArrowBar;'', [0x2913]),
      (''DownArrowUpArrow;'', [0x21F5]), (''DownBreve;'', [0x0311]),
      (''DownLeftRightVector;'', [0x2950]), (''DownLeftTeeVector;'', [0x295E]),
      (''DownLeftVector;'', [0x21BD]), (''DownLeftVectorBar;'', [0x2956]),
      (''DownRightTeeVector;'', [0x295F]), (''DownRightVector;'', [0x21C1]),
      (''DownRightVectorBar;'', [0x2957]), (''DownTee;'', [0x22A4]),
      (''DownTeeArrow;'', [0x21A7]), (''Downarrow;'', [0x21D3]), (''Dscr;'', [0xD835, 0xDC9F]),
      (''Dstrok;'', [0x0110])]"

definition names_d :: "(string \<times> jsstring) list" where
  "names_d =
     [(''dArr;'', [0x21D3]), (''dHar;'', [0x2965]), (''dagger;'', [0x2020]),
      (''daleth;'', [0x2138]), (''darr;'', [0x2193]), (''dash;'', [0x2010]),
      (''dashv;'', [0x22A3]), (''dbkarow;'', [0x290F]), (''dblac;'', [0x02DD]),
      (''dcaron;'', [0x010F]), (''dcy;'', [0x0434]), (''dd;'', [0x2146]),
      (''ddagger;'', [0x2021]), (''ddarr;'', [0x21CA]), (''ddotseq;'', [0x2A77]),
      (''deg'', [0x00B0]), (''deg;'', [0x00B0]), (''delta;'', [0x03B4]),
      (''demptyv;'', [0x29B1]), (''dfisht;'', [0x297F]), (''dfr;'', [0xD835, 0xDD21]),
      (''dharl;'', [0x21C3]), (''dharr;'', [0x21C2]), (''diam;'', [0x22C4]),
      (''diamond;'', [0x22C4]), (''diamondsuit;'', [0x2666]), (''diams;'', [0x2666]),
      (''die;'', [0x00A8]), (''digamma;'', [0x03DD]), (''disin;'', [0x22F2]),
      (''div;'', [0x00F7]), (''divide'', [0x00F7]), (''divide;'', [0x00F7]),
      (''divideontimes;'', [0x22C7]), (''divonx;'', [0x22C7]), (''djcy;'', [0x0452]),
      (''dlcorn;'', [0x231E]), (''dlcrop;'', [0x230D]), (''dollar;'', [0x0024]),
      (''dopf;'', [0xD835, 0xDD55]), (''dot;'', [0x02D9]), (''doteq;'', [0x2250]),
      (''doteqdot;'', [0x2251]), (''dotminus;'', [0x2238]), (''dotplus;'', [0x2214]),
      (''dotsquare;'', [0x22A1]), (''doublebarwedge;'', [0x2306]), (''downarrow;'', [0x2193]),
      (''downdownarrows;'', [0x21CA]), (''downharpoonleft;'', [0x21C3]),
      (''downharpoonright;'', [0x21C2]), (''drbkarow;'', [0x2910]), (''drcorn;'', [0x231F]),
      (''drcrop;'', [0x230C]), (''dscr;'', [0xD835, 0xDCB9]), (''dscy;'', [0x0455]),
      (''dsol;'', [0x29F6]), (''dstrok;'', [0x0111]), (''dtdot;'', [0x22F1]),
      (''dtri;'', [0x25BF]), (''dtrif;'', [0x25BE]), (''duarr;'', [0x21F5]),
      (''duhar;'', [0x296F]), (''dwangle;'', [0x29A6]), (''dzcy;'', [0x045F]),
      (''dzigrarr;'', [0x27FF])]"

definition names_E :: "(string \<times> jsstring) list" where
  "names_E =
     [(''ENG;'', [0x014A]), (''ETH'', [0x00D0]), (''ETH;'', [0x00D0]), (''Eacute'', [0x00C9]),
      (''Eacute;'', [0x00C9]), (''Ecaron;'', [0x011A]), (''Ecirc'', [0x00CA]),
      (''Ecirc;'', [0x00CA]), (''Ecy;'', [0x042D]), (''Edot;'', [0x0116]),
      (''Efr;'', [0xD835, 0xDD08]), (''Egrave'', [0x00C8]), (''Egrave;'', [0x00C8]),
      (''Element;'', [0x2208]), (''Emacr;'', [0x0112]), (''EmptySmallSquare;'', [0x25FB]),
      (''EmptyVerySmallSquare;'', [0x25AB]), (''Eogon;'', [0x0118]),
      (''Eopf;'', [0xD835, 0xDD3C]), (''Epsilon;'', [0x0395]), (''Equal;'', [0x2A75]),
      (''EqualTilde;'', [0x2242]), (''Equilibrium;'', [0x21CC]), (''Escr;'', [0x2130]),
      (''Esim;'', [0x2A73]), (''Eta;'', [0x0397]), (''Euml'', [0x00CB]), (''Euml;'', [0x00CB]),
      (''Exists;'', [0x2203]), (''ExponentialE;'', [0x2147])]"

definition names_e :: "(string \<times> jsstring) list" where
  "names_e =
     [(''eDDot;'', [0x2A77]), (''eDot;'', [0x2251]), (''eacute'', [0x00E9]),
      (''eacute;'', [0x00E9]), (''easter;'', [0x2A6E]), (''ecaron;'', [0x011B]),
      (''ecir;'', [0x2256]), (''ecirc'', [0x00EA]), (''ecirc;'', [0x00EA]),
      (''ecolon;'', [0x2255]), (''ecy;'', [0x044D]), (''edot;'', [0x0117]),
      (''ee;'', [0x2147]), (''efDot;'', [0x2252]), (''efr;'', [0xD835, 0xDD22]),
      (''eg;'', [0x2A9A]), (''egrave'', [0x00E8]), (''egrave;'', [0x00E8]),
      (''egs;'', [0x2A96]), (''egsdot;'', [0x2A98]), (''el;'', [0x2A99]),
      (''elinters;'', [0x23E7]), (''ell;'', [0x2113]), (''els;'', [0x2A95]),
      (''elsdot;'', [0x2A97]), (''emacr;'', [0x0113]), (''empty;'', [0x2205]),
      (''emptyset;'', [0x2205]), (''emptyv;'', [0x2205]), (''emsp13;'', [0x2004]),
      (''emsp14;'', [0x2005]), (''emsp;'', [0x2003]), (''eng;'', [0x014B]),
      (''ensp;'', [0x2002]), (''eogon;'', [0x0119]), (''eopf;'', [0xD835, 0xDD56]),
      (''epar;'', [0x22D5]), (''eparsl;'', [0x29E3]), (''eplus;'', [0x2A71]),
      (''epsi;'', [0x03B5]), (''epsilon;'', [0x03B5]), (''epsiv;'', [0x03F5]),
      (''eqcirc;'', [0x2256]), (''eqcolon;'', [0x2255]), (''eqsim;'', [0x2242]),
      (''eqslantgtr;'', [0x2A96]), (''eqslantless;'', [0x2A95]), (''equals;'', [0x003D]),
      (''equest;'', [0x225F]), (''equiv;'', [0x2261]), (''equivDD;'', [0x2A78]),
      (''eqvparsl;'', [0x29E5]), (''erDot;'', [0x2253]), (''erarr;'', [0x2971]),
      (''escr;'', [0x212F]), (''esdot;'', [0x2250]), (''esim;'', [0x2242]),
      (''eta;'', [0x03B7]), (''eth'', [0x00F0]), (''eth;'', [0x00F0]), (''euml'', [0x00EB]),
      (''euml;'', [0x00EB]), (''euro;'', [0x20AC]), (''excl;'', [0x0021]),
      (''exist;'', [0x2203]), (''expectation;'', [0x2130]), (''exponentiale;'', [0x2147])]"

definition names_F :: "(string \<times> jsstring) list" where
  "names_F =
     [(''Fcy;'', [0x0424]), (''Ffr;'', [0xD835, 0xDD09]), (''FilledSmallSquare;'', [0x25FC]),
      (''FilledVerySmallSquare;'', [0x25AA]), (''Fopf;'', [0xD835, 0xDD3D]),
      (''ForAll;'', [0x2200]), (''Fouriertrf;'', [0x2131]), (''Fscr;'', [0x2131])]"

definition names_f :: "(string \<times> jsstring) list" where
  "names_f =
     [(''fallingdotseq;'', [0x2252]), (''fcy;'', [0x0444]), (''female;'', [0x2640]),
      (''ffilig;'', [0xFB03]), (''fflig;'', [0xFB00]), (''ffllig;'', [0xFB04]),
      (''ffr;'', [0xD835, 0xDD23]), (''filig;'', [0xFB01]), (''fjlig;'', [0x0066, 0x006A]),
      (''flat;'', [0x266D]), (''fllig;'', [0xFB02]), (''fltns;'', [0x25B1]),
      (''fnof;'', [0x0192]), (''fopf;'', [0xD835, 0xDD57]), (''forall;'', [0x2200]),
      (''fork;'', [0x22D4]), (''forkv;'', [0x2AD9]), (''fpartint;'', [0x2A0D]),
      (''frac12'', [0x00BD]), (''frac12;'', [0x00BD]), (''frac13;'', [0x2153]),
      (''frac14'', [0x00BC]), (''frac14;'', [0x00BC]), (''frac15;'', [0x2155]),
      (''frac16;'', [0x2159]), (''frac18;'', [0x215B]), (''frac23;'', [0x2154]),
      (''frac25;'', [0x2156]), (''frac34'', [0x00BE]), (''frac34;'', [0x00BE]),
      (''frac35;'', [0x2157]), (''frac38;'', [0x215C]), (''frac45;'', [0x2158]),
      (''frac56;'', [0x215A]), (''frac58;'', [0x215D]), (''frac78;'', [0x215E]),
      (''frasl;'', [0x2044]), (''frown;'', [0x2322]), (''fscr;'', [0xD835, 0xDCBB])]"

definition names_G :: "(string \<times> jsstring) list" where
  "names_G =
     [(''GJcy;'', [0x0403]), (''GT'', [0x003E]), (''GT;'', [0x003E]), (''Gamma;'', [0x0393]),
      (''Gammad;'', [0x03DC]), (''Gbreve;'', [0x011E]), (''Gcedil;'', [0x0122]),
      (''Gcirc;'', [0x011C]), (''Gcy;'', [0x0413]), (''Gdot;'', [0x0120]),
      (''Gfr;'', [0xD835, 0xDD0A]), (''Gg;'', [0x22D9]), (''Gopf;'', [0xD835, 0xDD3E]),
      (''GreaterEqual;'', [0x2265]), (''GreaterEqualLess;'', [0x22DB]),
      (''GreaterFullEqual;'', [0x2267]), (''GreaterGreater;'', [0x2AA2]),
      (''GreaterLess;'', [0x2277]), (''GreaterSlantEqual;'', [0x2A7E]),
      (''GreaterTilde;'', [0x2273]), (''Gscr;'', [0xD835, 0xDCA2]), (''Gt;'', [0x226B])]"

definition names_g :: "(string \<times> jsstring) list" where
  "names_g =
     [(''gE;'', [0x2267]), (''gEl;'', [0x2A8C]), (''gacute;'', [0x01F5]),
      (''gamma;'', [0x03B3]), (''gammad;'', [0x03DD]), (''gap;'', [0x2A86]),
      (''gbreve;'', [0x011F]), (''gcirc;'', [0x011D]), (''gcy;'', [0x0433]),
      (''gdot;'', [0x0121]), (''ge;'', [0x2265]), (''gel;'', [0x22DB]), (''geq;'', [0x2265]),
      (''geqq;'', [0x2267]), (''geqslant;'', [0x2A7E]), (''ges;'', [0x2A7E]),
      (''gescc;'', [0x2AA9]), (''gesdot;'', [0x2A80]), (''gesdoto;'', [0x2A82]),
      (''gesdotol;'', [0x2A84]), (''gesl;'', [0x22DB, 0xFE00]), (''gesles;'', [0x2A94]),
      (''gfr;'', [0xD835, 0xDD24]), (''gg;'', [0x226B]), (''ggg;'', [0x22D9]),
      (''gimel;'', [0x2137]), (''gjcy;'', [0x0453]), (''gl;'', [0x2277]), (''glE;'', [0x2A92]),
      (''gla;'', [0x2AA5]), (''glj;'', [0x2AA4]), (''gnE;'', [0x2269]), (''gnap;'', [0x2A8A]),
      (''gnapprox;'', [0x2A8A]), (''gne;'', [0x2A88]), (''gneq;'', [0x2A88]),
      (''gneqq;'', [0x2269]), (''gnsim;'', [0x22E7]), (''gopf;'', [0xD835, 0xDD58]),
      (''grave;'', [0x0060]), (''gscr;'', [0x210A]), (''gsim;'', [0x2273]),
      (''gsime;'', [0x2A8E]), (''gsiml;'', [0x2A90]), (''gt'', [0x003E]), (''gt;'', [0x003E]),
      (''gtcc;'', [0x2AA7]), (''gtcir;'', [0x2A7A]), (''gtdot;'', [0x22D7]),
      (''gtlPar;'', [0x2995]), (''gtquest;'', [0x2A7C]), (''gtrapprox;'', [0x2A86]),
      (''gtrarr;'', [0x2978]), (''gtrdot;'', [0x22D7]), (''gtreqless;'', [0x22DB]),
      (''gtreqqless;'', [0x2A8C]), (''gtrless;'', [0x2277]), (''gtrsim;'', [0x2273]),
      (''gvertneqq;'', [0x2269, 0xFE00]), (''gvnE;'', [0x2269, 0xFE00])]"

definition names_H :: "(string \<times> jsstring) list" where
  "names_H =
     [(''HARDcy;'', [0x042A]), (''Hacek;'', [0x02C7]), (''Hat;'', [0x005E]),
      (''Hcirc;'', [0x0124]), (''Hfr;'', [0x210C]), (''HilbertSpace;'', [0x210B]),
      (''Hopf;'', [0x210D]), (''HorizontalLine;'', [0x2500]), (''Hscr;'', [0x210B]),
      (''Hstrok;'', [0x0126]), (''HumpDownHump;'', [0x224E]), (''HumpEqual;'', [0x224F])]"

definition names_h :: "(string \<times> jsstring) list" where
  "names_h =
     [(''hArr;'', [0x21D4]), (''hairsp;'', [0x200A]), (''half;'', [0x00BD]),
      (''hamilt;'', [0x210B]), (''hardcy;'', [0x044A]), (''harr;'', [0x2194]),
      (''harrcir;'', [0x2948]), (''harrw;'', [0x21AD]), (''hbar;'', [0x210F]),
      (''hcirc;'', [0x0125]), (''hearts;'', [0x2665]), (''heartsuit;'', [0x2665]),
      (''hellip;'', [0x2026]), (''hercon;'', [0x22B9]), (''hfr;'', [0xD835, 0xDD25]),
      (''hksearow;'', [0x2925]), (''hkswarow;'', [0x2926]), (''hoarr;'', [0x21FF]),
      (''homtht;'', [0x223B]), (''hookleftarrow;'', [0x21A9]), (''hookrightarrow;'', [0x21AA]),
      (''hopf;'', [0xD835, 0xDD59]), (''horbar;'', [0x2015]), (''hscr;'', [0xD835, 0xDCBD]),
      (''hslash;'', [0x210F]), (''hstrok;'', [0x0127]), (''hybull;'', [0x2043]),
      (''hyphen;'', [0x2010])]"

definition names_I :: "(string \<times> jsstring) list" where
  "names_I =
     [(''IEcy;'', [0x0415]), (''IJlig;'', [0x0132]), (''IOcy;'', [0x0401]),
      (''Iacute'', [0x00CD]), (''Iacute;'', [0x00CD]), (''Icirc'', [0x00CE]),
      (''Icirc;'', [0x00CE]), (''Icy;'', [0x0418]), (''Idot;'', [0x0130]),
      (''Ifr;'', [0x2111]), (''Igrave'', [0x00CC]), (''Igrave;'', [0x00CC]),
      (''Im;'', [0x2111]), (''Imacr;'', [0x012A]), (''ImaginaryI;'', [0x2148]),
      (''Implies;'', [0x21D2]), (''Int;'', [0x222C]), (''Integral;'', [0x222B]),
      (''Intersection;'', [0x22C2]), (''InvisibleComma;'', [0x2063]),
      (''InvisibleTimes;'', [0x2062]), (''Iogon;'', [0x012E]), (''Iopf;'', [0xD835, 0xDD40]),
      (''Iota;'', [0x0399]), (''Iscr;'', [0x2110]), (''Itilde;'', [0x0128]),
      (''Iukcy;'', [0x0406]), (''Iuml'', [0x00CF]), (''Iuml;'', [0x00CF])]"

definition names_i :: "(string \<times> jsstring) list" where
  "names_i =
     [(''iacute'', [0x00ED]), (''iacute;'', [0x00ED]), (''ic;'', [0x2063]),
      (''icirc'', [0x00EE]), (''icirc;'', [0x00EE]), (''icy;'', [0x0438]),
      (''iecy;'', [0x0435]), (''iexcl'', [0x00A1]), (''iexcl;'', [0x00A1]),
      (''iff;'', [0x21D4]), (''ifr;'', [0xD835, 0xDD26]), (''igrave'', [0x00EC]),
      (''igrave;'', [0x00EC]), (''ii;'', [0x2148]), (''iiiint;'', [0x2A0C]),
      (''iiint;'', [0x222D]), (''iinfin;'', [0x29DC]), (''iiota;'', [0x2129]),
      (''ijlig;'', [0x0133]), (''imacr;'', [0x012B]), (''image;'', [0x2111]),
      (''imagline;'', [0x2110]), (''imagpart;'', [0x2111]), (''imath;'', [0x0131]),
      (''imof;'', [0x22B7]), (''imped;'', [0x01B5]), (''in;'', [0x2208]),
      (''incare;'', [0x2105]), (''infin;'', [0x221E]), (''infintie;'', [0x29DD]),
      (''inodot;'', [0x0131]), (''int;'', [0x222B]), (''intcal;'', [0x22BA]),
      (''integers;'', [0x2124]), (''intercal;'', [0x22BA]), (''intlarhk;'', [0x2A17]),
      (''intprod;'', [0x2A3C]), (''iocy;'', [0x0451]), (''iogon;'', [0x012F]),
      (''iopf;'', [0xD835, 0xDD5A]), (''iota;'', [0x03B9]), (''iprod;'', [0x2A3C]),
      (''iquest'', [0x00BF]), (''iquest;'', [0x00BF]), (''iscr;'', [0xD835, 0xDCBE]),
      (''isin;'', [0x2208]), (''isinE;'', [0x22F9]), (''isindot;'', [0x22F5]),
      (''isins;'', [0x22F4]), (''isinsv;'', [0x22F3]), (''isinv;'', [0x2208]),
      (''it;'', [0x2062]), (''itilde;'', [0x0129]), (''iukcy;'', [0x0456]),
      (''iuml'', [0x00EF]), (''iuml;'', [0x00EF])]"

definition names_J :: "(string \<times> jsstring) list" where
  "names_J =
     [(''Jcirc;'', [0x0134]), (''Jcy;'', [0x0419]), (''Jfr;'', [0xD835, 0xDD0D]),
      (''Jopf;'', [0xD835, 0xDD41]), (''Jscr;'', [0xD835, 0xDCA5]), (''Jsercy;'', [0x0408]),
      (''Jukcy;'', [0x0404])]"

definition names_j :: "(string \<times> jsstring) list" where
  "names_j =
     [(''jcirc;'', [0x0135]), (''jcy;'', [0x0439]), (''jfr;'', [0xD835, 0xDD27]),
      (''jmath;'', [0x0237]), (''jopf;'', [0xD835, 0xDD5B]), (''jscr;'', [0xD835, 0xDCBF]),
      (''jsercy;'', [0x0458]), (''jukcy;'', [0x0454])]"

definition names_K :: "(string \<times> jsstring) list" where
  "names_K =
     [(''KHcy;'', [0x0425]), (''KJcy;'', [0x040C]), (''Kappa;'', [0x039A]),
      (''Kcedil;'', [0x0136]), (''Kcy;'', [0x041A]), (''Kfr;'', [0xD835, 0xDD0E]),
      (''Kopf;'', [0xD835, 0xDD42]), (''Kscr;'', [0xD835, 0xDCA6])]"

definition names_k :: "(string \<times> jsstring) list" where
  "names_k =
     [(''kappa;'', [0x03BA]), (''kappav;'', [0x03F0]), (''kcedil;'', [0x0137]),
      (''kcy;'', [0x043A]), (''kfr;'', [0xD835, 0xDD28]), (''kgreen;'', [0x0138]),
      (''khcy;'', [0x0445]), (''kjcy;'', [0x045C]), (''kopf;'', [0xD835, 0xDD5C]),
      (''kscr;'', [0xD835, 0xDCC0])]"

definition names_L :: "(string \<times> jsstring) list" where
  "names_L =
     [(''LJcy;'', [0x0409]), (''LT'', [0x003C]), (''LT;'', [0x003C]), (''Lacute;'', [0x0139]),
      (''Lambda;'', [0x039B]), (''Lang;'', [0x27EA]), (''Laplacetrf;'', [0x2112]),
      (''Larr;'', [0x219E]), (''Lcaron;'', [0x013D]), (''Lcedil;'', [0x013B]),
      (''Lcy;'', [0x041B]), (''LeftAngleBracket;'', [0x27E8]), (''LeftArrow;'', [0x2190]),
      (''LeftArrowBar;'', [0x21E4]), (''LeftArrowRightArrow;'', [0x21C6]),
      (''LeftCeiling;'', [0x2308]), (''LeftDoubleBracket;'', [0x27E6]),
      (''LeftDownTeeVector;'', [0x2961]), (''LeftDownVector;'', [0x21C3]),
      (''LeftDownVectorBar;'', [0x2959]), (''LeftFloor;'', [0x230A]),
      (''LeftRightArrow;'', [0x2194]), (''LeftRightVector;'', [0x294E]),
      (''LeftTee;'', [0x22A3]), (''LeftTeeArrow;'', [0x21A4]), (''LeftTeeVector;'', [0x295A]),
      (''LeftTriangle;'', [0x22B2]), (''LeftTriangleBar;'', [0x29CF]),
      (''LeftTriangleEqual;'', [0x22B4]), (''LeftUpDownVector;'', [0x2951]),
      (''LeftUpTeeVector;'', [0x2960]), (''LeftUpVector;'', [0x21BF]),
      (''LeftUpVectorBar;'', [0x2958]), (''LeftVector;'', [0x21BC]),
      (''LeftVectorBar;'', [0x2952]), (''Leftarrow;'', [0x21D0]),
      (''Leftrightarrow;'', [0x21D4]), (''LessEqualGreater;'', [0x22DA]),
      (''LessFullEqual;'', [0x2266]), (''LessGreater;'', [0x2276]), (''LessLess;'', [0x2AA1]),
      (''LessSlantEqual;'', [0x2A7D]), (''LessTilde;'', [0x2272]),
      (''Lfr;'', [0xD835, 0xDD0F]), (''Ll;'', [0x22D8]), (''Lleftarrow;'', [0x21DA]),
      (''Lmidot;'', [0x013F]), (''LongLeftArrow;'', [0x27F5]),
      (''LongLeftRightArrow;'', [0x27F7]), (''LongRightArrow;'', [0x27F6]),
      (''Longleftarrow;'', [0x27F8]), (''Longleftrightarrow;'', [0x27FA]),
      (''Longrightarrow;'', [0x27F9]), (''Lopf;'', [0xD835, 0xDD43]),
      (''LowerLeftArrow;'', [0x2199]), (''LowerRightArrow;'', [0x2198]), (''Lscr;'', [0x2112]),
      (''Lsh;'', [0x21B0]), (''Lstrok;'', [0x0141]), (''Lt;'', [0x226A])]"

definition names_l :: "(string \<times> jsstring) list" where
  "names_l =
     [(''lAarr;'', [0x21DA]), (''lArr;'', [0x21D0]), (''lAtail;'', [0x291B]),
      (''lBarr;'', [0x290E]), (''lE;'', [0x2266]), (''lEg;'', [0x2A8B]), (''lHar;'', [0x2962]),
      (''lacute;'', [0x013A]), (''laemptyv;'', [0x29B4]), (''lagran;'', [0x2112]),
      (''lambda;'', [0x03BB]), (''lang;'', [0x27E8]), (''langd;'', [0x2991]),
      (''langle;'', [0x27E8]), (''lap;'', [0x2A85]), (''laquo'', [0x00AB]),
      (''laquo;'', [0x00AB]), (''larr;'', [0x2190]), (''larrb;'', [0x21E4]),
      (''larrbfs;'', [0x291F]), (''larrfs;'', [0x291D]), (''larrhk;'', [0x21A9]),
      (''larrlp;'', [0x21AB]), (''larrpl;'', [0x2939]), (''larrsim;'', [0x2973]),
      (''larrtl;'', [0x21A2]), (''lat;'', [0x2AAB]), (''latail;'', [0x2919]),
      (''late;'', [0x2AAD]), (''lates;'', [0x2AAD, 0xFE00]), (''lbarr;'', [0x290C]),
      (''lbbrk;'', [0x2772]), (''lbrace;'', [0x007B]), (''lbrack;'', [0x005B]),
      (''lbrke;'', [0x298B]), (''lbrksld;'', [0x298F]), (''lbrkslu;'', [0x298D]),
      (''lcaron;'', [0x013E]), (''lcedil;'', [0x013C]), (''lceil;'', [0x2308]),
      (''lcub;'', [0x007B]), (''lcy;'', [0x043B]), (''ldca;'', [0x2936]),
      (''ldquo;'', [0x201C]), (''ldquor;'', [0x201E]), (''ldrdhar;'', [0x2967]),
      (''ldrushar;'', [0x294B]), (''ldsh;'', [0x21B2]), (''le;'', [0x2264]),
      (''leftarrow;'', [0x2190]), (''leftarrowtail;'', [0x21A2]),
      (''leftharpoondown;'', [0x21BD]), (''leftharpoonup;'', [0x21BC]),
      (''leftleftarrows;'', [0x21C7]), (''leftrightarrow;'', [0x2194]),
      (''leftrightarrows;'', [0x21C6]), (''leftrightharpoons;'', [0x21CB]),
      (''leftrightsquigarrow;'', [0x21AD]), (''leftthreetimes;'', [0x22CB]),
      (''leg;'', [0x22DA]), (''leq;'', [0x2264]), (''leqq;'', [0x2266]),
      (''leqslant;'', [0x2A7D]), (''les;'', [0x2A7D]), (''lescc;'', [0x2AA8]),
      (''lesdot;'', [0x2A7F]), (''lesdoto;'', [0x2A81]), (''lesdotor;'', [0x2A83]),
      (''lesg;'', [0x22DA, 0xFE00]), (''lesges;'', [0x2A93]), (''lessapprox;'', [0x2A85]),
      (''lessdot;'', [0x22D6]), (''lesseqgtr;'', [0x22DA]), (''lesseqqgtr;'', [0x2A8B]),
      (''lessgtr;'', [0x2276]), (''lesssim;'', [0x2272]), (''lfisht;'', [0x297C]),
      (''lfloor;'', [0x230A]), (''lfr;'', [0xD835, 0xDD29]), (''lg;'', [0x2276]),
      (''lgE;'', [0x2A91]), (''lhard;'', [0x21BD]), (''lharu;'', [0x21BC]),
      (''lharul;'', [0x296A]), (''lhblk;'', [0x2584]), (''ljcy;'', [0x0459]),
      (''ll;'', [0x226A]), (''llarr;'', [0x21C7]), (''llcorner;'', [0x231E]),
      (''llhard;'', [0x296B]), (''lltri;'', [0x25FA]), (''lmidot;'', [0x0140]),
      (''lmoust;'', [0x23B0]), (''lmoustache;'', [0x23B0]), (''lnE;'', [0x2268]),
      (''lnap;'', [0x2A89]), (''lnapprox;'', [0x2A89]), (''lne;'', [0x2A87]),
      (''lneq;'', [0x2A87]), (''lneqq;'', [0x2268]), (''lnsim;'', [0x22E6]),
      (''loang;'', [0x27EC]), (''loarr;'', [0x21FD]), (''lobrk;'', [0x27E6]),
      (''longleftarrow;'', [0x27F5]), (''longleftrightarrow;'', [0x27F7]),
      (''longmapsto;'', [0x27FC]), (''longrightarrow;'', [0x27F6]),
      (''looparrowleft;'', [0x21AB]), (''looparrowright;'', [0x21AC]), (''lopar;'', [0x2985]),
      (''lopf;'', [0xD835, 0xDD5D]), (''loplus;'', [0x2A2D]), (''lotimes;'', [0x2A34]),
      (''lowast;'', [0x2217]), (''lowbar;'', [0x005F]), (''loz;'', [0x25CA]),
      (''lozenge;'', [0x25CA]), (''lozf;'', [0x29EB]), (''lpar;'', [0x0028]),
      (''lparlt;'', [0x2993]), (''lrarr;'', [0x21C6]), (''lrcorner;'', [0x231F]),
      (''lrhar;'', [0x21CB]), (''lrhard;'', [0x296D]), (''lrm;'', [0x200E]),
      (''lrtri;'', [0x22BF]), (''lsaquo;'', [0x2039]), (''lscr;'', [0xD835, 0xDCC1]),
      (''lsh;'', [0x21B0]), (''lsim;'', [0x2272]), (''lsime;'', [0x2A8D]),
      (''lsimg;'', [0x2A8F]), (''lsqb;'', [0x005B]), (''lsquo;'', [0x2018]),
      (''lsquor;'', [0x201A]), (''lstrok;'', [0x0142]), (''lt'', [0x003C]),
      (''lt;'', [0x003C]), (''ltcc;'', [0x2AA6]), (''ltcir;'', [0x2A79]),
      (''ltdot;'', [0x22D6]), (''lthree;'', [0x22CB]), (''ltimes;'', [0x22C9]),
      (''ltlarr;'', [0x2976]), (''ltquest;'', [0x2A7B]), (''ltrPar;'', [0x2996]),
      (''ltri;'', [0x25C3]), (''ltrie;'', [0x22B4]), (''ltrif;'', [0x25C2]),
      (''lurdshar;'', [0x294A]), (''luruhar;'', [0x2966]), (''lvertneqq;'', [0x2268, 0xFE00]),
      (''lvnE;'', [0x2268, 0xFE00])]"

definition names_M :: "(string \<times> jsstring) list" where
  "names_M =
     [(''Map;'', [0x2905]), (''Mcy;'', [0x041C]), (''MediumSpace;'', [0x205F]),
      (''Mellintrf;'', [0x2133]), (''Mfr;'', [0xD835, 0xDD10]), (''MinusPlus;'', [0x2213]),
      (''Mopf;'', [0xD835, 0xDD44]), (''Mscr;'', [0x2133]), (''Mu;'', [0x039C])]"

definition names_m :: "(string \<times> jsstring) list" where
  "names_m =
     [(''mDDot;'', [0x223A]), (''macr'', [0x00AF]), (''macr;'', [0x00AF]),
      (''male;'', [0x2642]), (''malt;'', [0x2720]), (''maltese;'', [0x2720]),
      (''map;'', [0x21A6]), (''mapsto;'', [0x21A6]), (''mapstodown;'', [0x21A7]),
      (''mapstoleft;'', [0x21A4]), (''mapstoup;'', [0x21A5]), (''marker;'', [0x25AE]),
      (''mcomma;'', [0x2A29]), (''mcy;'', [0x043C]), (''mdash;'', [0x2014]),
      (''measuredangle;'', [0x2221]), (''mfr;'', [0xD835, 0xDD2A]), (''mho;'', [0x2127]),
      (''micro'', [0x00B5]), (''micro;'', [0x00B5]), (''mid;'', [0x2223]),
      (''midast;'', [0x002A]), (''midcir;'', [0x2AF0]), (''middot'', [0x00B7]),
      (''middot;'', [0x00B7]), (''minus;'', [0x2212]), (''minusb;'', [0x229F]),
      (''minusd;'', [0x2238]), (''minusdu;'', [0x2A2A]), (''mlcp;'', [0x2ADB]),
      (''mldr;'', [0x2026]), (''mnplus;'', [0x2213]), (''models;'', [0x22A7]),
      (''mopf;'', [0xD835, 0xDD5E]), (''mp;'', [0x2213]), (''mscr;'', [0xD835, 0xDCC2]),
      (''mstpos;'', [0x223E]), (''mu;'', [0x03BC]), (''multimap;'', [0x22B8]),
      (''mumap;'', [0x22B8])]"

definition names_N :: "(string \<times> jsstring) list" where
  "names_N =
     [(''NJcy;'', [0x040A]), (''Nacute;'', [0x0143]), (''Ncaron;'', [0x0147]),
      (''Ncedil;'', [0x0145]), (''Ncy;'', [0x041D]), (''NegativeMediumSpace;'', [0x200B]),
      (''NegativeThickSpace;'', [0x200B]), (''NegativeThinSpace;'', [0x200B]),
      (''NegativeVeryThinSpace;'', [0x200B]), (''NestedGreaterGreater;'', [0x226B]),
      (''NestedLessLess;'', [0x226A]), (''NewLine;'', [0x000A]), (''Nfr;'', [0xD835, 0xDD11]),
      (''NoBreak;'', [0x2060]), (''NonBreakingSpace;'', [0x00A0]), (''Nopf;'', [0x2115]),
      (''Not;'', [0x2AEC]), (''NotCongruent;'', [0x2262]), (''NotCupCap;'', [0x226D]),
      (''NotDoubleVerticalBar;'', [0x2226]), (''NotElement;'', [0x2209]),
      (''NotEqual;'', [0x2260]), (''NotEqualTilde;'', [0x2242, 0x0338]),
      (''NotExists;'', [0x2204]), (''NotGreater;'', [0x226F]),
      (''NotGreaterEqual;'', [0x2271]), (''NotGreaterFullEqual;'', [0x2267, 0x0338]),
      (''NotGreaterGreater;'', [0x226B, 0x0338]), (''NotGreaterLess;'', [0x2279]),
      (''NotGreaterSlantEqual;'', [0x2A7E, 0x0338]), (''NotGreaterTilde;'', [0x2275]),
      (''NotHumpDownHump;'', [0x224E, 0x0338]), (''NotHumpEqual;'', [0x224F, 0x0338]),
      (''NotLeftTriangle;'', [0x22EA]), (''NotLeftTriangleBar;'', [0x29CF, 0x0338]),
      (''NotLeftTriangleEqual;'', [0x22EC]), (''NotLess;'', [0x226E]),
      (''NotLessEqual;'', [0x2270]), (''NotLessGreater;'', [0x2278]),
      (''NotLessLess;'', [0x226A, 0x0338]), (''NotLessSlantEqual;'', [0x2A7D, 0x0338]),
      (''NotLessTilde;'', [0x2274]), (''NotNestedGreaterGreater;'', [0x2AA2, 0x0338]),
      (''NotNestedLessLess;'', [0x2AA1, 0x0338]), (''NotPrecedes;'', [0x2280]),
      (''NotPrecedesEqual;'', [0x2AAF, 0x0338]), (''NotPrecedesSlantEqual;'', [0x22E0]),
      (''NotReverseElement;'', [0x220C]), (''NotRightTriangle;'', [0x22EB]),
      (''NotRightTriangleBar;'', [0x29D0, 0x0338]), (''NotRightTriangleEqual;'', [0x22ED]),
      (''NotSquareSubset;'', [0x228F, 0x0338]), (''NotSquareSubsetEqual;'', [0x22E2]),
      (''NotSquareSuperset;'', [0x2290, 0x0338]), (''NotSquareSupersetEqual;'', [0x22E3]),
      (''NotSubset;'', [0x2282, 0x20D2]), (''NotSubsetEqual;'', [0x2288]),
      (''NotSucceeds;'', [0x2281]), (''NotSucceedsEqual;'', [0x2AB0, 0x0338]),
      (''NotSucceedsSlantEqual;'', [0x22E1]), (''NotSucceedsTilde;'', [0x227F, 0x0338]),
      (''NotSuperset;'', [0x2283, 0x20D2]), (''NotSupersetEqual;'', [0x2289]),
      (''NotTilde;'', [0x2241]), (''NotTildeEqual;'', [0x2244]),
      (''NotTildeFullEqual;'', [0x2247]), (''NotTildeTilde;'', [0x2249]),
      (''NotVerticalBar;'', [0x2224]), (''Nscr;'', [0xD835, 0xDCA9]), (''Ntilde'', [0x00D1]),
      (''Ntilde;'', [0x00D1]), (''Nu;'', [0x039D])]"

definition names_n :: "(string \<times> jsstring) list" where
  "names_n =
     [(''nGg;'', [0x22D9, 0x0338]), (''nGt;'', [0x226B, 0x20D2]),
      (''nGtv;'', [0x226B, 0x0338]), (''nLeftarrow;'', [0x21CD]),
      (''nLeftrightarrow;'', [0x21CE]), (''nLl;'', [0x22D8, 0x0338]),
      (''nLt;'', [0x226A, 0x20D2]), (''nLtv;'', [0x226A, 0x0338]),
      (''nRightarrow;'', [0x21CF]), (''nVDash;'', [0x22AF]), (''nVdash;'', [0x22AE]),
      (''nabla;'', [0x2207]), (''nacute;'', [0x0144]), (''nang;'', [0x2220, 0x20D2]),
      (''nap;'', [0x2249]), (''napE;'', [0x2A70, 0x0338]), (''napid;'', [0x224B, 0x0338]),
      (''napos;'', [0x0149]), (''napprox;'', [0x2249]), (''natur;'', [0x266E]),
      (''natural;'', [0x266E]), (''naturals;'', [0x2115]), (''nbsp'', [0x00A0]),
      (''nbsp;'', [0x00A0]), (''nbump;'', [0x224E, 0x0338]), (''nbumpe;'', [0x224F, 0x0338]),
      (''ncap;'', [0x2A43]), (''ncaron;'', [0x0148]), (''ncedil;'', [0x0146]),
      (''ncong;'', [0x2247]), (''ncongdot;'', [0x2A6D, 0x0338]), (''ncup;'', [0x2A42]),
      (''ncy;'', [0x043D]), (''ndash;'', [0x2013]), (''ne;'', [0x2260]),
      (''neArr;'', [0x21D7]), (''nearhk;'', [0x2924]), (''nearr;'', [0x2197]),
      (''nearrow;'', [0x2197]), (''nedot;'', [0x2250, 0x0338]), (''nequiv;'', [0x2262]),
      (''nesear;'', [0x2928]), (''nesim;'', [0x2242, 0x0338]), (''nexist;'', [0x2204]),
      (''nexists;'', [0x2204]), (''nfr;'', [0xD835, 0xDD2B]), (''ngE;'', [0x2267, 0x0338]),
      (''nge;'', [0x2271]), (''ngeq;'', [0x2271]), (''ngeqq;'', [0x2267, 0x0338]),
      (''ngeqslant;'', [0x2A7E, 0x0338]), (''nges;'', [0x2A7E, 0x0338]),
      (''ngsim;'', [0x2275]), (''ngt;'', [0x226F]), (''ngtr;'', [0x226F]),
      (''nhArr;'', [0x21CE]), (''nharr;'', [0x21AE]), (''nhpar;'', [0x2AF2]),
      (''ni;'', [0x220B]), (''nis;'', [0x22FC]), (''nisd;'', [0x22FA]), (''niv;'', [0x220B]),
      (''njcy;'', [0x045A]), (''nlArr;'', [0x21CD]), (''nlE;'', [0x2266, 0x0338]),
      (''nlarr;'', [0x219A]), (''nldr;'', [0x2025]), (''nle;'', [0x2270]),
      (''nleftarrow;'', [0x219A]), (''nleftrightarrow;'', [0x21AE]), (''nleq;'', [0x2270]),
      (''nleqq;'', [0x2266, 0x0338]), (''nleqslant;'', [0x2A7D, 0x0338]),
      (''nles;'', [0x2A7D, 0x0338]), (''nless;'', [0x226E]), (''nlsim;'', [0x2274]),
      (''nlt;'', [0x226E]), (''nltri;'', [0x22EA]), (''nltrie;'', [0x22EC]),
      (''nmid;'', [0x2224]), (''nopf;'', [0xD835, 0xDD5F]), (''not'', [0x00AC]),
      (''not;'', [0x00AC]), (''notin;'', [0x2209]), (''notinE;'', [0x22F9, 0x0338]),
      (''notindot;'', [0x22F5, 0x0338]), (''notinva;'', [0x2209]), (''notinvb;'', [0x22F7]),
      (''notinvc;'', [0x22F6]), (''notni;'', [0x220C]), (''notniva;'', [0x220C]),
      (''notnivb;'', [0x22FE]), (''notnivc;'', [0x22FD]), (''npar;'', [0x2226]),
      (''nparallel;'', [0x2226]), (''nparsl;'', [0x2AFD, 0x20E5]),
      (''npart;'', [0x2202, 0x0338]), (''npolint;'', [0x2A14]), (''npr;'', [0x2280]),
      (''nprcue;'', [0x22E0]), (''npre;'', [0x2AAF, 0x0338]), (''nprec;'', [0x2280]),
      (''npreceq;'', [0x2AAF, 0x0338]), (''nrArr;'', [0x21CF]), (''nrarr;'', [0x219B]),
      (''nrarrc;'', [0x2933, 0x0338]), (''nrarrw;'', [0x219D, 0x0338]),
      (''nrightarrow;'', [0x219B]), (''nrtri;'', [0x22EB]), (''nrtrie;'', [0x22ED]),
      (''nsc;'', [0x2281]), (''nsccue;'', [0x22E1]), (''nsce;'', [0x2AB0, 0x0338]),
      (''nscr;'', [0xD835, 0xDCC3]), (''nshortmid;'', [0x2224]),
      (''nshortparallel;'', [0x2226]), (''nsim;'', [0x2241]), (''nsime;'', [0x2244]),
      (''nsimeq;'', [0x2244]), (''nsmid;'', [0x2224]), (''nspar;'', [0x2226]),
      (''nsqsube;'', [0x22E2]), (''nsqsupe;'', [0x22E3]), (''nsub;'', [0x2284]),
      (''nsubE;'', [0x2AC5, 0x0338]), (''nsube;'', [0x2288]), (''nsubset;'', [0x2282, 0x20D2]),
      (''nsubseteq;'', [0x2288]), (''nsubseteqq;'', [0x2AC5, 0x0338]), (''nsucc;'', [0x2281]),
      (''nsucceq;'', [0x2AB0, 0x0338]), (''nsup;'', [0x2285]), (''nsupE;'', [0x2AC6, 0x0338]),
      (''nsupe;'', [0x2289]), (''nsupset;'', [0x2283, 0x20D2]), (''nsupseteq;'', [0x2289]),
      (''nsupseteqq;'', [0x2AC6, 0x0338]), (''ntgl;'', [0x2279]), (''ntilde'', [0x00F1]),
      (''ntilde;'', [0x00F1]), (''ntlg;'', [0x2278]), (''ntriangleleft;'', [0x22EA]),
      (''ntrianglelefteq;'', [0x22EC]), (''ntriangleright;'', [0x22EB]),
      (''ntrianglerighteq;'', [0x22ED]), (''nu;'', [0x03BD]), (''num;'', [0x0023]),
      (''numero;'', [0x2116]), (''numsp;'', [0x2007]), (''nvDash;'', [0x22AD]),
      (''nvHarr;'', [0x2904]), (''nvap;'', [0x224D, 0x20D2]), (''nvdash;'', [0x22AC]),
      (''nvge;'', [0x2265, 0x20D2]), (''nvgt;'', [0x003E, 0x20D2]), (''nvinfin;'', [0x29DE]),
      (''nvlArr;'', [0x2902]), (''nvle;'', [0x2264, 0x20D2]), (''nvlt;'', [0x003C, 0x20D2]),
      (''nvltrie;'', [0x22B4, 0x20D2]), (''nvrArr;'', [0x2903]),
      (''nvrtrie;'', [0x22B5, 0x20D2]), (''nvsim;'', [0x223C, 0x20D2]), (''nwArr;'', [0x21D6]),
      (''nwarhk;'', [0x2923]), (''nwarr;'', [0x2196]), (''nwarrow;'', [0x2196]),
      (''nwnear;'', [0x2927])]"

definition names_O :: "(string \<times> jsstring) list" where
  "names_O =
     [(''OElig;'', [0x0152]), (''Oacute'', [0x00D3]), (''Oacute;'', [0x00D3]),
      (''Ocirc'', [0x00D4]), (''Ocirc;'', [0x00D4]), (''Ocy;'', [0x041E]),
      (''Odblac;'', [0x0150]), (''Ofr;'', [0xD835, 0xDD12]), (''Ograve'', [0x00D2]),
      (''Ograve;'', [0x00D2]), (''Omacr;'', [0x014C]), (''Omega;'', [0x03A9]),
      (''Omicron;'', [0x039F]), (''Oopf;'', [0xD835, 0xDD46]),
      (''OpenCurlyDoubleQuote;'', [0x201C]), (''OpenCurlyQuote;'', [0x2018]),
      (''Or;'', [0x2A54]), (''Oscr;'', [0xD835, 0xDCAA]), (''Oslash'', [0x00D8]),
      (''Oslash;'', [0x00D8]), (''Otilde'', [0x00D5]), (''Otilde;'', [0x00D5]),
      (''Otimes;'', [0x2A37]), (''Ouml'', [0x00D6]), (''Ouml;'', [0x00D6]),
      (''OverBar;'', [0x203E]), (''OverBrace;'', [0x23DE]), (''OverBracket;'', [0x23B4]),
      (''OverParenthesis;'', [0x23DC])]"

definition names_o :: "(string \<times> jsstring) list" where
  "names_o =
     [(''oS;'', [0x24C8]), (''oacute'', [0x00F3]), (''oacute;'', [0x00F3]),
      (''oast;'', [0x229B]), (''ocir;'', [0x229A]), (''ocirc'', [0x00F4]),
      (''ocirc;'', [0x00F4]), (''ocy;'', [0x043E]), (''odash;'', [0x229D]),
      (''odblac;'', [0x0151]), (''odiv;'', [0x2A38]), (''odot;'', [0x2299]),
      (''odsold;'', [0x29BC]), (''oelig;'', [0x0153]), (''ofcir;'', [0x29BF]),
      (''ofr;'', [0xD835, 0xDD2C]), (''ogon;'', [0x02DB]), (''ograve'', [0x00F2]),
      (''ograve;'', [0x00F2]), (''ogt;'', [0x29C1]), (''ohbar;'', [0x29B5]),
      (''ohm;'', [0x03A9]), (''oint;'', [0x222E]), (''olarr;'', [0x21BA]),
      (''olcir;'', [0x29BE]), (''olcross;'', [0x29BB]), (''oline;'', [0x203E]),
      (''olt;'', [0x29C0]), (''omacr;'', [0x014D]), (''omega;'', [0x03C9]),
      (''omicron;'', [0x03BF]), (''omid;'', [0x29B6]), (''ominus;'', [0x2296]),
      (''oopf;'', [0xD835, 0xDD60]), (''opar;'', [0x29B7]), (''operp;'', [0x29B9]),
      (''oplus;'', [0x2295]), (''or;'', [0x2228]), (''orarr;'', [0x21BB]),
      (''ord;'', [0x2A5D]), (''order;'', [0x2134]), (''orderof;'', [0x2134]),
      (''ordf'', [0x00AA]), (''ordf;'', [0x00AA]), (''ordm'', [0x00BA]), (''ordm;'', [0x00BA]),
      (''origof;'', [0x22B6]), (''oror;'', [0x2A56]), (''orslope;'', [0x2A57]),
      (''orv;'', [0x2A5B]), (''oscr;'', [0x2134]), (''oslash'', [0x00F8]),
      (''oslash;'', [0x00F8]), (''osol;'', [0x2298]), (''otilde'', [0x00F5]),
      (''otilde;'', [0x00F5]), (''otimes;'', [0x2297]), (''otimesas;'', [0x2A36]),
      (''ouml'', [0x00F6]), (''ouml;'', [0x00F6]), (''ovbar;'', [0x233D])]"

definition names_P :: "(string \<times> jsstring) list" where
  "names_P =
     [(''PartialD;'', [0x2202]), (''Pcy;'', [0x041F]), (''Pfr;'', [0xD835, 0xDD13]),
      (''Phi;'', [0x03A6]), (''Pi;'', [0x03A0]), (''PlusMinus;'', [0x00B1]),
      (''Poincareplane;'', [0x210C]), (''Popf;'', [0x2119]), (''Pr;'', [0x2ABB]),
      (''Precedes;'', [0x227A]), (''PrecedesEqual;'', [0x2AAF]),
      (''PrecedesSlantEqual;'', [0x227C]), (''PrecedesTilde;'', [0x227E]),
      (''Prime;'', [0x2033]), (''Product;'', [0x220F]), (''Proportion;'', [0x2237]),
      (''Proportional;'', [0x221D]), (''Pscr;'', [0xD835, 0xDCAB]), (''Psi;'', [0x03A8])]"

definition names_p :: "(string \<times> jsstring) list" where
  "names_p =
     [(''par;'', [0x2225]), (''para'', [0x00B6]), (''para;'', [0x00B6]),
      (''parallel;'', [0x2225]), (''parsim;'', [0x2AF3]), (''parsl;'', [0x2AFD]),
      (''part;'', [0x2202]), (''pcy;'', [0x043F]), (''percnt;'', [0x0025]),
      (''period;'', [0x002E]), (''permil;'', [0x2030]), (''perp;'', [0x22A5]),
      (''pertenk;'', [0x2031]), (''pfr;'', [0xD835, 0xDD2D]), (''phi;'', [0x03C6]),
      (''phiv;'', [0x03D5]), (''phmmat;'', [0x2133]), (''phone;'', [0x260E]),
      (''pi;'', [0x03C0]), (''pitchfork;'', [0x22D4]), (''piv;'', [0x03D6]),
      (''planck;'', [0x210F]), (''planckh;'', [0x210E]), (''plankv;'', [0x210F]),
      (''plus;'', [0x002B]), (''plusacir;'', [0x2A23]), (''plusb;'', [0x229E]),
      (''pluscir;'', [0x2A22]), (''plusdo;'', [0x2214]), (''plusdu;'', [0x2A25]),
      (''pluse;'', [0x2A72]), (''plusmn'', [0x00B1]), (''plusmn;'', [0x00B1]),
      (''plussim;'', [0x2A26]), (''plustwo;'', [0x2A27]), (''pm;'', [0x00B1]),
      (''pointint;'', [0x2A15]), (''popf;'', [0xD835, 0xDD61]), (''pound'', [0x00A3]),
      (''pound;'', [0x00A3]), (''pr;'', [0x227A]), (''prE;'', [0x2AB3]), (''prap;'', [0x2AB7]),
      (''prcue;'', [0x227C]), (''pre;'', [0x2AAF]), (''prec;'', [0x227A]),
      (''precapprox;'', [0x2AB7]), (''preccurlyeq;'', [0x227C]), (''preceq;'', [0x2AAF]),
      (''precnapprox;'', [0x2AB9]), (''precneqq;'', [0x2AB5]), (''precnsim;'', [0x22E8]),
      (''precsim;'', [0x227E]), (''prime;'', [0x2032]), (''primes;'', [0x2119]),
      (''prnE;'', [0x2AB5]), (''prnap;'', [0x2AB9]), (''prnsim;'', [0x22E8]),
      (''prod;'', [0x220F]), (''profalar;'', [0x232E]), (''profline;'', [0x2312]),
      (''profsurf;'', [0x2313]), (''prop;'', [0x221D]), (''propto;'', [0x221D]),
      (''prsim;'', [0x227E]), (''prurel;'', [0x22B0]), (''pscr;'', [0xD835, 0xDCC5]),
      (''psi;'', [0x03C8]), (''puncsp;'', [0x2008])]"

definition names_Q :: "(string \<times> jsstring) list" where
  "names_Q =
     [(''QUOT'', [0x0022]), (''QUOT;'', [0x0022]), (''Qfr;'', [0xD835, 0xDD14]),
      (''Qopf;'', [0x211A]), (''Qscr;'', [0xD835, 0xDCAC])]"

definition names_q :: "(string \<times> jsstring) list" where
  "names_q =
     [(''qfr;'', [0xD835, 0xDD2E]), (''qint;'', [0x2A0C]), (''qopf;'', [0xD835, 0xDD62]),
      (''qprime;'', [0x2057]), (''qscr;'', [0xD835, 0xDCC6]), (''quaternions;'', [0x210D]),
      (''quatint;'', [0x2A16]), (''quest;'', [0x003F]), (''questeq;'', [0x225F]),
      (''quot'', [0x0022]), (''quot;'', [0x0022])]"

definition names_R :: "(string \<times> jsstring) list" where
  "names_R =
     [(''RBarr;'', [0x2910]), (''REG'', [0x00AE]), (''REG;'', [0x00AE]),
      (''Racute;'', [0x0154]), (''Rang;'', [0x27EB]), (''Rarr;'', [0x21A0]),
      (''Rarrtl;'', [0x2916]), (''Rcaron;'', [0x0158]), (''Rcedil;'', [0x0156]),
      (''Rcy;'', [0x0420]), (''Re;'', [0x211C]), (''ReverseElement;'', [0x220B]),
      (''ReverseEquilibrium;'', [0x21CB]), (''ReverseUpEquilibrium;'', [0x296F]),
      (''Rfr;'', [0x211C]), (''Rho;'', [0x03A1]), (''RightAngleBracket;'', [0x27E9]),
      (''RightArrow;'', [0x2192]), (''RightArrowBar;'', [0x21E5]),
      (''RightArrowLeftArrow;'', [0x21C4]), (''RightCeiling;'', [0x2309]),
      (''RightDoubleBracket;'', [0x27E7]), (''RightDownTeeVector;'', [0x295D]),
      (''RightDownVector;'', [0x21C2]), (''RightDownVectorBar;'', [0x2955]),
      (''RightFloor;'', [0x230B]), (''RightTee;'', [0x22A2]), (''RightTeeArrow;'', [0x21A6]),
      (''RightTeeVector;'', [0x295B]), (''RightTriangle;'', [0x22B3]),
      (''RightTriangleBar;'', [0x29D0]), (''RightTriangleEqual;'', [0x22B5]),
      (''RightUpDownVector;'', [0x294F]), (''RightUpTeeVector;'', [0x295C]),
      (''RightUpVector;'', [0x21BE]), (''RightUpVectorBar;'', [0x2954]),
      (''RightVector;'', [0x21C0]), (''RightVectorBar;'', [0x2953]),
      (''Rightarrow;'', [0x21D2]), (''Ropf;'', [0x211D]), (''RoundImplies;'', [0x2970]),
      (''Rrightarrow;'', [0x21DB]), (''Rscr;'', [0x211B]), (''Rsh;'', [0x21B1]),
      (''RuleDelayed;'', [0x29F4])]"

definition names_r :: "(string \<times> jsstring) list" where
  "names_r =
     [(''rAarr;'', [0x21DB]), (''rArr;'', [0x21D2]), (''rAtail;'', [0x291C]),
      (''rBarr;'', [0x290F]), (''rHar;'', [0x2964]), (''race;'', [0x223D, 0x0331]),
      (''racute;'', [0x0155]), (''radic;'', [0x221A]), (''raemptyv;'', [0x29B3]),
      (''rang;'', [0x27E9]), (''rangd;'', [0x2992]), (''range;'', [0x29A5]),
      (''rangle;'', [0x27E9]), (''raquo'', [0x00BB]), (''raquo;'', [0x00BB]),
      (''rarr;'', [0x2192]), (''rarrap;'', [0x2975]), (''rarrb;'', [0x21E5]),
      (''rarrbfs;'', [0x2920]), (''rarrc;'', [0x2933]), (''rarrfs;'', [0x291E]),
      (''rarrhk;'', [0x21AA]), (''rarrlp;'', [0x21AC]), (''rarrpl;'', [0x2945]),
      (''rarrsim;'', [0x2974]), (''rarrtl;'', [0x21A3]), (''rarrw;'', [0x219D]),
      (''ratail;'', [0x291A]), (''ratio;'', [0x2236]), (''rationals;'', [0x211A]),
      (''rbarr;'', [0x290D]), (''rbbrk;'', [0x2773]), (''rbrace;'', [0x007D]),
      (''rbrack;'', [0x005D]), (''rbrke;'', [0x298C]), (''rbrksld;'', [0x298E]),
      (''rbrkslu;'', [0x2990]), (''rcaron;'', [0x0159]), (''rcedil;'', [0x0157]),
      (''rceil;'', [0x2309]), (''rcub;'', [0x007D]), (''rcy;'', [0x0440]),
      (''rdca;'', [0x2937]), (''rdldhar;'', [0x2969]), (''rdquo;'', [0x201D]),
      (''rdquor;'', [0x201D]), (''rdsh;'', [0x21B3]), (''real;'', [0x211C]),
      (''realine;'', [0x211B]), (''realpart;'', [0x211C]), (''reals;'', [0x211D]),
      (''rect;'', [0x25AD]), (''reg'', [0x00AE]), (''reg;'', [0x00AE]),
      (''rfisht;'', [0x297D]), (''rfloor;'', [0x230B]), (''rfr;'', [0xD835, 0xDD2F]),
      (''rhard;'', [0x21C1]), (''rharu;'', [0x21C0]), (''rharul;'', [0x296C]),
      (''rho;'', [0x03C1]), (''rhov;'', [0x03F1]), (''rightarrow;'', [0x2192]),
      (''rightarrowtail;'', [0x21A3]), (''rightharpoondown;'', [0x21C1]),
      (''rightharpoonup;'', [0x21C0]), (''rightleftarrows;'', [0x21C4]),
      (''rightleftharpoons;'', [0x21CC]), (''rightrightarrows;'', [0x21C9]),
      (''rightsquigarrow;'', [0x219D]), (''rightthreetimes;'', [0x22CC]),
      (''ring;'', [0x02DA]), (''risingdotseq;'', [0x2253]), (''rlarr;'', [0x21C4]),
      (''rlhar;'', [0x21CC]), (''rlm;'', [0x200F]), (''rmoust;'', [0x23B1]),
      (''rmoustache;'', [0x23B1]), (''rnmid;'', [0x2AEE]), (''roang;'', [0x27ED]),
      (''roarr;'', [0x21FE]), (''robrk;'', [0x27E7]), (''ropar;'', [0x2986]),
      (''ropf;'', [0xD835, 0xDD63]), (''roplus;'', [0x2A2E]), (''rotimes;'', [0x2A35]),
      (''rpar;'', [0x0029]), (''rpargt;'', [0x2994]), (''rppolint;'', [0x2A12]),
      (''rrarr;'', [0x21C9]), (''rsaquo;'', [0x203A]), (''rscr;'', [0xD835, 0xDCC7]),
      (''rsh;'', [0x21B1]), (''rsqb;'', [0x005D]), (''rsquo;'', [0x2019]),
      (''rsquor;'', [0x2019]), (''rthree;'', [0x22CC]), (''rtimes;'', [0x22CA]),
      (''rtri;'', [0x25B9]), (''rtrie;'', [0x22B5]), (''rtrif;'', [0x25B8]),
      (''rtriltri;'', [0x29CE]), (''ruluhar;'', [0x2968]), (''rx;'', [0x211E])]"

definition names_S :: "(string \<times> jsstring) list" where
  "names_S =
     [(''SHCHcy;'', [0x0429]), (''SHcy;'', [0x0428]), (''SOFTcy;'', [0x042C]),
      (''Sacute;'', [0x015A]), (''Sc;'', [0x2ABC]), (''Scaron;'', [0x0160]),
      (''Scedil;'', [0x015E]), (''Scirc;'', [0x015C]), (''Scy;'', [0x0421]),
      (''Sfr;'', [0xD835, 0xDD16]), (''ShortDownArrow;'', [0x2193]),
      (''ShortLeftArrow;'', [0x2190]), (''ShortRightArrow;'', [0x2192]),
      (''ShortUpArrow;'', [0x2191]), (''Sigma;'', [0x03A3]), (''SmallCircle;'', [0x2218]),
      (''Sopf;'', [0xD835, 0xDD4A]), (''Sqrt;'', [0x221A]), (''Square;'', [0x25A1]),
      (''SquareIntersection;'', [0x2293]), (''SquareSubset;'', [0x228F]),
      (''SquareSubsetEqual;'', [0x2291]), (''SquareSuperset;'', [0x2290]),
      (''SquareSupersetEqual;'', [0x2292]), (''SquareUnion;'', [0x2294]),
      (''Sscr;'', [0xD835, 0xDCAE]), (''Star;'', [0x22C6]), (''Sub;'', [0x22D0]),
      (''Subset;'', [0x22D0]), (''SubsetEqual;'', [0x2286]), (''Succeeds;'', [0x227B]),
      (''SucceedsEqual;'', [0x2AB0]), (''SucceedsSlantEqual;'', [0x227D]),
      (''SucceedsTilde;'', [0x227F]), (''SuchThat;'', [0x220B]), (''Sum;'', [0x2211]),
      (''Sup;'', [0x22D1]), (''Superset;'', [0x2283]), (''SupersetEqual;'', [0x2287]),
      (''Supset;'', [0x22D1])]"

definition names_s :: "(string \<times> jsstring) list" where
  "names_s =
     [(''sacute;'', [0x015B]), (''sbquo;'', [0x201A]), (''sc;'', [0x227B]),
      (''scE;'', [0x2AB4]), (''scap;'', [0x2AB8]), (''scaron;'', [0x0161]),
      (''sccue;'', [0x227D]), (''sce;'', [0x2AB0]), (''scedil;'', [0x015F]),
      (''scirc;'', [0x015D]), (''scnE;'', [0x2AB6]), (''scnap;'', [0x2ABA]),
      (''scnsim;'', [0x22E9]), (''scpolint;'', [0x2A13]), (''scsim;'', [0x227F]),
      (''scy;'', [0x0441]), (''sdot;'', [0x22C5]), (''sdotb;'', [0x22A1]),
      (''sdote;'', [0x2A66]), (''seArr;'', [0x21D8]), (''searhk;'', [0x2925]),
      (''searr;'', [0x2198]), (''searrow;'', [0x2198]), (''sect'', [0x00A7]),
      (''sect;'', [0x00A7]), (''semi;'', [0x003B]), (''seswar;'', [0x2929]),
      (''setminus;'', [0x2216]), (''setmn;'', [0x2216]), (''sext;'', [0x2736]),
      (''sfr;'', [0xD835, 0xDD30]), (''sfrown;'', [0x2322]), (''sharp;'', [0x266F]),
      (''shchcy;'', [0x0449]), (''shcy;'', [0x0448]), (''shortmid;'', [0x2223]),
      (''shortparallel;'', [0x2225]), (''shy'', [0x00AD]), (''shy;'', [0x00AD]),
      (''sigma;'', [0x03C3]), (''sigmaf;'', [0x03C2]), (''sigmav;'', [0x03C2]),
      (''sim;'', [0x223C]), (''simdot;'', [0x2A6A]), (''sime;'', [0x2243]),
      (''simeq;'', [0x2243]), (''simg;'', [0x2A9E]), (''simgE;'', [0x2AA0]),
      (''siml;'', [0x2A9D]), (''simlE;'', [0x2A9F]), (''simne;'', [0x2246]),
      (''simplus;'', [0x2A24]), (''simrarr;'', [0x2972]), (''slarr;'', [0x2190]),
      (''smallsetminus;'', [0x2216]), (''smashp;'', [0x2A33]), (''smeparsl;'', [0x29E4]),
      (''smid;'', [0x2223]), (''smile;'', [0x2323]), (''smt;'', [0x2AAA]),
      (''smte;'', [0x2AAC]), (''smtes;'', [0x2AAC, 0xFE00]), (''softcy;'', [0x044C]),
      (''sol;'', [0x002F]), (''solb;'', [0x29C4]), (''solbar;'', [0x233F]),
      (''sopf;'', [0xD835, 0xDD64]), (''spades;'', [0x2660]), (''spadesuit;'', [0x2660]),
      (''spar;'', [0x2225]), (''sqcap;'', [0x2293]), (''sqcaps;'', [0x2293, 0xFE00]),
      (''sqcup;'', [0x2294]), (''sqcups;'', [0x2294, 0xFE00]), (''sqsub;'', [0x228F]),
      (''sqsube;'', [0x2291]), (''sqsubset;'', [0x228F]), (''sqsubseteq;'', [0x2291]),
      (''sqsup;'', [0x2290]), (''sqsupe;'', [0x2292]), (''sqsupset;'', [0x2290]),
      (''sqsupseteq;'', [0x2292]), (''squ;'', [0x25A1]), (''square;'', [0x25A1]),
      (''squarf;'', [0x25AA]), (''squf;'', [0x25AA]), (''srarr;'', [0x2192]),
      (''sscr;'', [0xD835, 0xDCC8]), (''ssetmn;'', [0x2216]), (''ssmile;'', [0x2323]),
      (''sstarf;'', [0x22C6]), (''star;'', [0x2606]), (''starf;'', [0x2605]),
      (''straightepsilon;'', [0x03F5]), (''straightphi;'', [0x03D5]), (''strns;'', [0x00AF]),
      (''sub;'', [0x2282]), (''subE;'', [0x2AC5]), (''subdot;'', [0x2ABD]),
      (''sube;'', [0x2286]), (''subedot;'', [0x2AC3]), (''submult;'', [0x2AC1]),
      (''subnE;'', [0x2ACB]), (''subne;'', [0x228A]), (''subplus;'', [0x2ABF]),
      (''subrarr;'', [0x2979]), (''subset;'', [0x2282]), (''subseteq;'', [0x2286]),
      (''subseteqq;'', [0x2AC5]), (''subsetneq;'', [0x228A]), (''subsetneqq;'', [0x2ACB]),
      (''subsim;'', [0x2AC7]), (''subsub;'', [0x2AD5]), (''subsup;'', [0x2AD3]),
      (''succ;'', [0x227B]), (''succapprox;'', [0x2AB8]), (''succcurlyeq;'', [0x227D]),
      (''succeq;'', [0x2AB0]), (''succnapprox;'', [0x2ABA]), (''succneqq;'', [0x2AB6]),
      (''succnsim;'', [0x22E9]), (''succsim;'', [0x227F]), (''sum;'', [0x2211]),
      (''sung;'', [0x266A]), (''sup1'', [0x00B9]), (''sup1;'', [0x00B9]), (''sup2'', [0x00B2]),
      (''sup2;'', [0x00B2]), (''sup3'', [0x00B3]), (''sup3;'', [0x00B3]), (''sup;'', [0x2283]),
      (''supE;'', [0x2AC6]), (''supdot;'', [0x2ABE]), (''supdsub;'', [0x2AD8]),
      (''supe;'', [0x2287]), (''supedot;'', [0x2AC4]), (''suphsol;'', [0x27C9]),
      (''suphsub;'', [0x2AD7]), (''suplarr;'', [0x297B]), (''supmult;'', [0x2AC2]),
      (''supnE;'', [0x2ACC]), (''supne;'', [0x228B]), (''supplus;'', [0x2AC0]),
      (''supset;'', [0x2283]), (''supseteq;'', [0x2287]), (''supseteqq;'', [0x2AC6]),
      (''supsetneq;'', [0x228B]), (''supsetneqq;'', [0x2ACC]), (''supsim;'', [0x2AC8]),
      (''supsub;'', [0x2AD4]), (''supsup;'', [0x2AD6]), (''swArr;'', [0x21D9]),
      (''swarhk;'', [0x2926]), (''swarr;'', [0x2199]), (''swarrow;'', [0x2199]),
      (''swnwar;'', [0x292A]), (''szlig'', [0x00DF]), (''szlig;'', [0x00DF])]"

definition names_T :: "(string \<times> jsstring) list" where
  "names_T =
     [(''THORN'', [0x00DE]), (''THORN;'', [0x00DE]), (''TRADE;'', [0x2122]),
      (''TSHcy;'', [0x040B]), (''TScy;'', [0x0426]), (''Tab;'', [0x0009]),
      (''Tau;'', [0x03A4]), (''Tcaron;'', [0x0164]), (''Tcedil;'', [0x0162]),
      (''Tcy;'', [0x0422]), (''Tfr;'', [0xD835, 0xDD17]), (''Therefore;'', [0x2234]),
      (''Theta;'', [0x0398]), (''ThickSpace;'', [0x205F, 0x200A]), (''ThinSpace;'', [0x2009]),
      (''Tilde;'', [0x223C]), (''TildeEqual;'', [0x2243]), (''TildeFullEqual;'', [0x2245]),
      (''TildeTilde;'', [0x2248]), (''Topf;'', [0xD835, 0xDD4B]), (''TripleDot;'', [0x20DB]),
      (''Tscr;'', [0xD835, 0xDCAF]), (''Tstrok;'', [0x0166])]"

definition names_t :: "(string \<times> jsstring) list" where
  "names_t =
     [(''target;'', [0x2316]), (''tau;'', [0x03C4]), (''tbrk;'', [0x23B4]),
      (''tcaron;'', [0x0165]), (''tcedil;'', [0x0163]), (''tcy;'', [0x0442]),
      (''tdot;'', [0x20DB]), (''telrec;'', [0x2315]), (''tfr;'', [0xD835, 0xDD31]),
      (''there4;'', [0x2234]), (''therefore;'', [0x2234]), (''theta;'', [0x03B8]),
      (''thetasym;'', [0x03D1]), (''thetav;'', [0x03D1]), (''thickapprox;'', [0x2248]),
      (''thicksim;'', [0x223C]), (''thinsp;'', [0x2009]), (''thkap;'', [0x2248]),
      (''thksim;'', [0x223C]), (''thorn'', [0x00FE]), (''thorn;'', [0x00FE]),
      (''tilde;'', [0x02DC]), (''times'', [0x00D7]), (''times;'', [0x00D7]),
      (''timesb;'', [0x22A0]), (''timesbar;'', [0x2A31]), (''timesd;'', [0x2A30]),
      (''tint;'', [0x222D]), (''toea;'', [0x2928]), (''top;'', [0x22A4]),
      (''topbot;'', [0x2336]), (''topcir;'', [0x2AF1]), (''topf;'', [0xD835, 0xDD65]),
      (''topfork;'', [0x2ADA]), (''tosa;'', [0x2929]), (''tprime;'', [0x2034]),
      (''trade;'', [0x2122]), (''triangle;'', [0x25B5]), (''triangledown;'', [0x25BF]),
      (''triangleleft;'', [0x25C3]), (''trianglelefteq;'', [0x22B4]),
      (''triangleq;'', [0x225C]), (''triangleright;'', [0x25B9]),
      (''trianglerighteq;'', [0x22B5]), (''tridot;'', [0x25EC]), (''trie;'', [0x225C]),
      (''triminus;'', [0x2A3A]), (''triplus;'', [0x2A39]), (''trisb;'', [0x29CD]),
      (''tritime;'', [0x2A3B]), (''trpezium;'', [0x23E2]), (''tscr;'', [0xD835, 0xDCC9]),
      (''tscy;'', [0x0446]), (''tshcy;'', [0x045B]), (''tstrok;'', [0x0167]),
      (''twixt;'', [0x226C]), (''twoheadleftarrow;'', [0x219E]),
      (''twoheadrightarrow;'', [0x21A0])]"

definition names_U :: "(string \<times> jsstring) list" where
  "names_U =
     [(''Uacute'', [0x00DA]), (''Uacute;'', [0x00DA]), (''Uarr;'', [0x219F]),
      (''Uarrocir;'', [0x2949]), (''Ubrcy;'', [0x040E]), (''Ubreve;'', [0x016C]),
      (''Ucirc'', [0x00DB]), (''Ucirc;'', [0x00DB]), (''Ucy;'', [0x0423]),
      (''Udblac;'', [0x0170]), (''Ufr;'', [0xD835, 0xDD18]), (''Ugrave'', [0x00D9]),
      (''Ugrave;'', [0x00D9]), (''Umacr;'', [0x016A]), (''UnderBar;'', [0x005F]),
      (''UnderBrace;'', [0x23DF]), (''UnderBracket;'', [0x23B5]),
      (''UnderParenthesis;'', [0x23DD]), (''Union;'', [0x22C3]), (''UnionPlus;'', [0x228E]),
      (''Uogon;'', [0x0172]), (''Uopf;'', [0xD835, 0xDD4C]), (''UpArrow;'', [0x2191]),
      (''UpArrowBar;'', [0x2912]), (''UpArrowDownArrow;'', [0x21C5]),
      (''UpDownArrow;'', [0x2195]), (''UpEquilibrium;'', [0x296E]), (''UpTee;'', [0x22A5]),
      (''UpTeeArrow;'', [0x21A5]), (''Uparrow;'', [0x21D1]), (''Updownarrow;'', [0x21D5]),
      (''UpperLeftArrow;'', [0x2196]), (''UpperRightArrow;'', [0x2197]), (''Upsi;'', [0x03D2]),
      (''Upsilon;'', [0x03A5]), (''Uring;'', [0x016E]), (''Uscr;'', [0xD835, 0xDCB0]),
      (''Utilde;'', [0x0168]), (''Uuml'', [0x00DC]), (''Uuml;'', [0x00DC])]"

definition names_u :: "(string \<times> jsstring) list" where
  "names_u =
     [(''uArr;'', [0x21D1]), (''uHar;'', [0x2963]), (''uacute'', [0x00FA]),
      (''uacute;'', [0x00FA]), (''uarr;'', [0x2191]), (''ubrcy;'', [0x045E]),
      (''ubreve;'', [0x016D]), (''ucirc'', [0x00FB]), (''ucirc;'', [0x00FB]),
      (''ucy;'', [0x0443]), (''udarr;'', [0x21C5]), (''udblac;'', [0x0171]),
      (''udhar;'', [0x296E]), (''ufisht;'', [0x297E]), (''ufr;'', [0xD835, 0xDD32]),
      (''ugrave'', [0x00F9]), (''ugrave;'', [0x00F9]), (''uharl;'', [0x21BF]),
      (''uharr;'', [0x21BE]), (''uhblk;'', [0x2580]), (''ulcorn;'', [0x231C]),
      (''ulcorner;'', [0x231C]), (''ulcrop;'', [0x230F]), (''ultri;'', [0x25F8]),
      (''umacr;'', [0x016B]), (''uml'', [0x00A8]), (''uml;'', [0x00A8]),
      (''uogon;'', [0x0173]), (''uopf;'', [0xD835, 0xDD66]), (''uparrow;'', [0x2191]),
      (''updownarrow;'', [0x2195]), (''upharpoonleft;'', [0x21BF]),
      (''upharpoonright;'', [0x21BE]), (''uplus;'', [0x228E]), (''upsi;'', [0x03C5]),
      (''upsih;'', [0x03D2]), (''upsilon;'', [0x03C5]), (''upuparrows;'', [0x21C8]),
      (''urcorn;'', [0x231D]), (''urcorner;'', [0x231D]), (''urcrop;'', [0x230E]),
      (''uring;'', [0x016F]), (''urtri;'', [0x25F9]), (''uscr;'', [0xD835, 0xDCCA]),
      (''utdot;'', [0x22F0]), (''utilde;'', [0x0169]), (''utri;'', [0x25B5]),
      (''utrif;'', [0x25B4]), (''uuarr;'', [0x21C8]), (''uuml'', [0x00FC]),
      (''uuml;'', [0x00FC]), (''uwangle;'', [0x29A7])]"

definition names_V :: "(string \<times> jsstring) list" where
  "names_V =
     [(''VDash;'', [0x22AB]), (''Vbar;'', [0x2AEB]), (''Vcy;'', [0x0412]),
      (''Vdash;'', [0x22A9]), (''Vdashl;'', [0x2AE6]), (''Vee;'', [0x22C1]),
      (''Verbar;'', [0x2016]), (''Vert;'', [0x2016]), (''VerticalBar;'', [0x2223]),
      (''VerticalLine;'', [0x007C]), (''VerticalSeparator;'', [0x2758]),
      (''VerticalTilde;'', [0x2240]), (''VeryThinSpace;'', [0x200A]),
      (''Vfr;'', [0xD835, 0xDD19]), (''Vopf;'', [0xD835, 0xDD4D]),
      (''Vscr;'', [0xD835, 0xDCB1]), (''Vvdash;'', [0x22AA])]"

definition names_v :: "(string \<times> jsstring) list" where
  "names_v =
     [(''vArr;'', [0x21D5]), (''vBar;'', [0x2AE8]), (''vBarv;'', [0x2AE9]),
      (''vDash;'', [0x22A8]), (''vangrt;'', [0x299C]), (''varepsilon;'', [0x03F5]),
      (''varkappa;'', [0x03F0]), (''varnothing;'', [0x2205]), (''varphi;'', [0x03D5]),
      (''varpi;'', [0x03D6]), (''varpropto;'', [0x221D]), (''varr;'', [0x2195]),
      (''varrho;'', [0x03F1]), (''varsigma;'', [0x03C2]),
      (''varsubsetneq;'', [0x228A, 0xFE00]), (''varsubsetneqq;'', [0x2ACB, 0xFE00]),
      (''varsupsetneq;'', [0x228B, 0xFE00]), (''varsupsetneqq;'', [0x2ACC, 0xFE00]),
      (''vartheta;'', [0x03D1]), (''vartriangleleft;'', [0x22B2]),
      (''vartriangleright;'', [0x22B3]), (''vcy;'', [0x0432]), (''vdash;'', [0x22A2]),
      (''vee;'', [0x2228]), (''veebar;'', [0x22BB]), (''veeeq;'', [0x225A]),
      (''vellip;'', [0x22EE]), (''verbar;'', [0x007C]), (''vert;'', [0x007C]),
      (''vfr;'', [0xD835, 0xDD33]), (''vltri;'', [0x22B2]), (''vnsub;'', [0x2282, 0x20D2]),
      (''vnsup;'', [0x2283, 0x20D2]), (''vopf;'', [0xD835, 0xDD67]), (''vprop;'', [0x221D]),
      (''vrtri;'', [0x22B3]), (''vscr;'', [0xD835, 0xDCCB]), (''vsubnE;'', [0x2ACB, 0xFE00]),
      (''vsubne;'', [0x228A, 0xFE00]), (''vsupnE;'', [0x2ACC, 0xFE00]),
      (''vsupne;'', [0x228B, 0xFE00]), (''vzigzag;'', [0x299A])]"

definition names_W :: "(string \<times> jsstring) list" where
  "names_W =
     [(''Wcirc;'', [0x0174]), (''Wedge;'', [0x22C0]), (''Wfr;'', [0xD835, 0xDD1A]),
      (''Wopf;'', [0xD835, 0xDD4E]), (''Wscr;'', [0xD835, 0xDCB2])]"

definition names_w :: "(string \<times> jsstring) list" where
  "names_w =
     [(''wcirc;'', [0x0175]), (''wedbar;'', [0x2A5F]), (''wedge;'', [0x2227]),
      (''wedgeq;'', [0x2259]), (''weierp;'', [0x2118]), (''wfr;'', [0xD835, 0xDD34]),
      (''wopf;'', [0xD835, 0xDD68]), (''wp;'', [0x2118]), (''wr;'', [0x2240]),
      (''wreath;'', [0x2240]), (''wscr;'', [0xD835, 0xDCCC])]"

definition names_X :: "(string \<times> jsstring) list" where
  "names_X =
     [(''Xfr;'', [0xD835, 0xDD1B]), (''Xi;'', [0x039E]), (''Xopf;'', [0xD835, 0xDD4F]),
      (''Xscr;'', [0xD835, 0xDCB3])]"

definition names_x :: "(string \<times> jsstring) list" where
  "names_x =
     [(''xcap;'', [0x22C2]), (''xcirc;'', [0x25EF]), (''xcup;'', [0x22C3]),
      (''xdtri;'', [0x25BD]), (''xfr;'', [0xD835, 0xDD35]), (''xhArr;'', [0x27FA]),
      (''xharr;'', [0x27F7]), (''xi;'', [0x03BE]), (''xlArr;'', [0x27F8]),
      (''xlarr;'', [0x27F5]), (''xmap;'', [0x27FC]), (''xnis;'', [0x22FB]),
      (''xodot;'', [0x2A00]), (''xopf;'', [0xD835, 0xDD69]), (''xoplus;'', [0x2A01]),
      (''xotime;'', [0x2A02]), (''xrArr;'', [0x27F9]), (''xrarr;'', [0x27F6]),
      (''xscr;'', [0xD835, 0xDCCD]), (''xsqcup;'', [0x2A06]), (''xuplus;'', [0x2A04]),
      (''xutri;'', [0x25B3]), (''xvee;'', [0x22C1]), (''xwedge;'', [0x22C0])]"

definition names_Y :: "(string \<times> jsstring) list" where
  "names_Y =
     [(''YAcy;'', [0x042F]), (''YIcy;'', [0x0407]), (''YUcy;'', [0x042E]),
      (''Yacute'', [0x00DD]), (''Yacute;'', [0x00DD]), (''Ycirc;'', [0x0176]),
      (''Ycy;'', [0x042B]), (''Yfr;'', [0xD835, 0xDD1C]), (''Yopf;'', [0xD835, 0xDD50]),
      (''Yscr;'', [0xD835, 0xDCB4]), (''Yuml;'', [0x0178])]"

definition names_y :: "(string \<times> jsstring) list" where
  "names_y =
     [(''yacute'', [0x00FD]), (''yacute;'', [0x00FD]), (''yacy;'', [0x044F]),
      (''ycirc;'', [0x0177]), (''ycy;'', [0x044B]), (''yen'', [0x00A5]), (''yen;'', [0x00A5]),
      (''yfr;'', [0xD835, 0xDD36]), (''yicy;'', [0x0457]), (''yopf;'', [0xD835, 0xDD6A]),
      (''yscr;'', [0xD835, 0xDCCE]), (''yucy;'', [0x044E]), (''yuml'', [0x00FF]),
      (''yuml;'', [0x00FF])]"

definition names_Z :: "(string \<times> jsstring) list" where
  "names_Z =
     [(''ZHcy;'', [0x0416]), (''Zacute;'', [0x0179]), (''Zcaron;'', [0x017D]),
      (''Zcy;'', [0x0417]), (''Zdot;'', [0x017B]), (''ZeroWidthSpace;'', [0x200B]),
      (''Zeta;'', [0x0396]), (''Zfr;'', [0x2128]), (''Zopf;'', [0x2124]),
      (''Zscr;'', [0xD835, 0xDCB5])]"

definition names_z :: "(string \<times> jsstring) list" where
  "names_z =
     [(''zacute;'', [0x017A]), (''zcaron;'', [0x017E]), (''zcy;'', [0x0437]),
      (''zdot;'', [0x017C]), (''zeetrf;'', [0x2128]), (''zeta;'', [0x03B6]),
      (''zfr;'', [0xD835, 0xDD37]), (''zhcy;'', [0x0436]), (''zigrarr;'', [0x21DD]),
      (''zopf;'', [0xD835, 0xDD6B]), (''zscr;'', [0xD835, 0xDCCF]), (''zwj;'', [0x200D]),
      (''zwnj;'', [0x200C])]"

definition namedCharacterReferences :: "(string \<times> jsstring) list" where
  "namedCharacterReferences =
     concat
      [names_A, names_a, names_B, names_b, names_C, names_c, names_D, names_d, names_E,
       names_e, names_F, names_f, names_G, names_g, names_H, names_h, names_I, names_i,
       names_J, names_j, names_K, names_k, names_L, names_l, names_M, names_m, names_N,
       names_n, names_O, names_o, names_P, names_p, names_Q, names_q, names_R, names_r,
       names_S, names_s, names_T, names_t, names_U, names_u, names_V, names_v, names_W,
       names_w, names_X, names_x, names_Y, names_y, names_Z, names_z]"

definition namesStartingWith :: "16 word \<Rightarrow> (string \<times> jsstring) list" where
  "namesStartingWith c =
     (if c = 0x41 then names_A
      else if c = 0x61 then names_a
      else if c = 0x42 then names_B
      else if c = 0x62 then names_b
      else if c = 0x43 then names_C
      else if c = 0x63 then names_c
      else if c = 0x44 then names_D
      else if c = 0x64 then names_d
      else if c = 0x45 then names_E
      else if c = 0x65 then names_e
      else if c = 0x46 then names_F
      else if c = 0x66 then names_f
      else if c = 0x47 then names_G
      else if c = 0x67 then names_g
      else if c = 0x48 then names_H
      else if c = 0x68 then names_h
      else if c = 0x49 then names_I
      else if c = 0x69 then names_i
      else if c = 0x4A then names_J
      else if c = 0x6A then names_j
      else if c = 0x4B then names_K
      else if c = 0x6B then names_k
      else if c = 0x4C then names_L
      else if c = 0x6C then names_l
      else if c = 0x4D then names_M
      else if c = 0x6D then names_m
      else if c = 0x4E then names_N
      else if c = 0x6E then names_n
      else if c = 0x4F then names_O
      else if c = 0x6F then names_o
      else if c = 0x50 then names_P
      else if c = 0x70 then names_p
      else if c = 0x51 then names_Q
      else if c = 0x71 then names_q
      else if c = 0x52 then names_R
      else if c = 0x72 then names_r
      else if c = 0x53 then names_S
      else if c = 0x73 then names_s
      else if c = 0x54 then names_T
      else if c = 0x74 then names_t
      else if c = 0x55 then names_U
      else if c = 0x75 then names_u
      else if c = 0x56 then names_V
      else if c = 0x76 then names_v
      else if c = 0x57 then names_W
      else if c = 0x77 then names_w
      else if c = 0x58 then names_X
      else if c = 0x78 then names_x
      else if c = 0x59 then names_Y
      else if c = 0x79 then names_y
      else if c = 0x5A then names_Z
      else if c = 0x7A then names_z
      else [])"

text \<open>\<open>matches name cs\<close>: the text \<open>cs\<close> starts with \<open>name\<close>.\<close>

fun matches :: "string \<Rightarrow> jsstring \<Rightarrow> bool" where
  "matches [] cs = True"
| "matches (k # ks) [] = False"
| "matches (k # ks) (c # cs) = (if of_char k = c then matches ks cs else False)"

definition longer :: "string \<times> jsstring \<Rightarrow> string \<times> jsstring \<Rightarrow> string \<times> jsstring" where
  "longer m m' = (if length (fst m) < length (fst m') then m' else m)"

text \<open>
  The named character reference state: the longest name of the table that the input
  starts with wins. Every name starts with a letter, so only the names with the first
  letter of the input are searched. The result is the replacement and the number of code
  units consumed.
\<close>

definition namedCharacterReference :: "jsstring \<Rightarrow> (jsstring \<times> nat) option" where
  "namedCharacterReference cs =
     (case cs of
        [] \<Rightarrow> None
      | c # rest \<Rightarrow>
          (case filter (\<lambda>m. matches (fst m) cs) (namesStartingWith c) of
             [] \<Rightarrow> None
           | m # ms \<Rightarrow> (let best = foldl longer m ms in Some (snd best, length (fst best)))))"

text \<open>
  The character reference state, entered after an ampersand: \<open>cs\<close> is the text after it.
  \<open>None\<close> means that the ampersand is flushed as text.
\<close>

definition characterReference :: "jsstring \<Rightarrow> (jsstring \<times> nat) option" where
  "characterReference cs =
     (case cs of
        [] \<Rightarrow> None
      | c # rest \<Rightarrow>
          if c = 0x23 then
            (case numericCharacterReference rest of
               None \<Rightarrow> None
             | Some (r, n) \<Rightarrow> Some (r, Suc n))
          else if isAlphanumeric c then namedCharacterReference cs
          else None)"

fun decodeReferences :: "jsstring \<Rightarrow> jsstring" where
  "decodeReferences [] = []"
| "decodeReferences (c # cs) =
     (if c = 0x26 then
        (case characterReference cs of
           None \<Rightarrow> c # decodeReferences cs
         | Some (r, n) \<Rightarrow> r @ decodeReferences (drop n cs))
      else c # decodeReferences cs)"

text \<open>
  \<open>textarea.innerHTML = html\<close> tokenizes in the RCDATA state, where U+0000 becomes U+FFFD;
  \<open>textarea.value\<close> is the resulting text with its newlines normalised.
\<close>

definition textareaInnerHTML :: "jsstring \<Rightarrow> jsstring" where
  "textareaInnerHTML html =
     map (\<lambda>c. if c = 0 then 0xFFFD else c) (decodeReferences (normalizeNewlines html))"

definition textareaValue :: "jsstring \<Rightarrow> jsstring" where
  "textareaValue t = normalizeNewlines t"

text \<open>
  Assigning a fragment without markup to the \<open>innerHTML\<close> of a button or div tokenizes
  it in the data state and inserts the characters "in body", where U+0000 is ignored: the
  element gets one text node. Reading \<open>innerHTML\<close> back serialises the text node,
  escaping \<open>&\<close>, U+00A0, \<open><\<close> and \<open>>\<close>.
\<close>

definition parseText :: "jsstring \<Rightarrow> jsstring" where
  "parseText html = filter (\<lambda>c. c \<noteq> 0) (decodeReferences (normalizeNewlines html))"

definition escapeCharacter :: "16 word \<Rightarrow> jsstring" where
  "escapeCharacter c =
     (if c = 0x26 then js ''&amp;''
      else if c = 0xA0 then js ''&nbsp;''
      else if c = 0x3C then js ''&lt;''
      else if c = 0x3E then js ''&gt;''
      else [c])"

definition escapeText :: "jsstring \<Rightarrow> jsstring" where
  "escapeText t = concat (map escapeCharacter t)"

text \<open>
  \<open>hasMarkup html\<close>: somewhere in \<open>html\<close> the tokenizer leaves the data state through
  the tag open state, that is, a \<open><\<close> is followed by a letter, \<open>/\<close>, \<open>!\<close> or \<open>?\<close>.
\<close>

fun hasMarkup :: "jsstring \<Rightarrow> bool" where
  "hasMarkup [] = False"
| "hasMarkup [c] = False"
| "hasMarkup (c # d # cs) =
     (if c = 0x3C \<and> (isAlpha d \<or> d = 0x2F \<or> d = 0x21 \<or> d = 0x3F) then True
      else hasMarkup (d # cs))"

text \<open>
  The children of an element after an assignment to its \<open>innerHTML\<close>: one text node, or
  the nodes that the tree construction builds from a fragment with markup. Of the latter
  only the text content and the serialisation are kept. \<open>tree_builder\<close> is the type of the
  parameter that stands for the browser's tree construction: it maps a fragment with
  markup to the text content and to the serialisation of the nodes built from it.
\<close>

datatype children = Text jsstring | Elements jsstring jsstring

type_synonym tree_builder = "jsstring \<Rightarrow> jsstring \<times> jsstring"

fun textContent :: "children \<Rightarrow> jsstring" where
  "textContent (Text t) = t"
| "textContent (Elements t h) = t"

fun serialise :: "children \<Rightarrow> jsstring" where
  "serialise (Text t) = escapeText t"
| "serialise (Elements t h) = h"

definition setInnerHTML :: "tree_builder \<Rightarrow> jsstring \<Rightarrow> children" where
  "setInnerHTML build html =
     (if hasMarkup html then (case build html of (t, h) \<Rightarrow> Elements t h)
      else Text (parseText html))"

section \<open>decodeHTML (lines 227-231)\<close>

definition decodeHTML :: "jsstring \<Rightarrow> jsstring" where
  "decodeHTML html = textareaValue (textareaInnerHTML html)"

section \<open>Scoring (selectAnswer, lines 132-133)\<close>

definition baseScorePerQuestion :: int where
  "baseScorePerQuestion = 1000"

definition penaltyPerSecond :: int where
  "penaltyPerSecond = 10"

text \<open>
  \<open>Date.now()\<close> is an integer number of milliseconds; \<open>timeTaken\<close> is the elapsed time in
  seconds, \<open>(Date.now() - questionStartTime) / 1000\<close>, as an exact rational.
\<close>

definition timeTaken :: "int \<Rightarrow> int \<Rightarrow> rat" where
  "timeTaken now questionStartTime = of_int (now - questionStartTime) / 1000"

definition scoreForThisQuestion :: "rat \<Rightarrow> int" where
  "scoreForThisQuestion t = max (baseScorePerQuestion - \<lfloor>t\<rfloor> * penaltyPerSecond) 0"


section \<open>The page state\<close>

text \<open>
  An API question record and an API category record, with the field names of the JSON
  (\<open>category.id\<close> and \<open>category.name\<close> carry the record's name as a prefix).
\<close>

record quiz_question =
  question :: jsstring
  correct_answer :: jsstring
  incorrect_answers :: "jsstring list"

record category =
  category_id :: int
  category_name :: jsstring

text \<open>
  A click listener is a closure; \<open>SelectAnswer\<close> holds the two values the listener of
  line 119 captures, \<open>question.correct_answer\<close> and the shuffled \<open>answers\<close> array.
\<close>

datatype listener = SelectAnswer jsstring "jsstring list" | RestartQuiz

record button =
  contents :: children
  classList :: "jsstring list"
  disabled :: bool
  onClick :: "listener option"

record option_element =
  option_value :: jsstring
  option_textContent :: jsstring

text \<open>
  The variables of the script (lines 15-19) and the parts of the document it writes. A
  container holds its text content; \<open>answersContainer\<close> holds its child buttons.
  \<open>localStorage\<close> is the item \<open>HighScoreTrivia\<close>, \<open>alerts\<close> the messages passed to
  \<open>alert\<close>, \<open>timeouts\<close> the number of pending callbacks of line 154.
\<close>

record page =
  currentQuestions :: "quiz_question list"
  score :: int
  questionIndex :: nat
  highScore :: int
  questionStartTime :: int
  questionContainer :: jsstring
  answersContainer :: "button list"
  resultContainer :: jsstring
  progressContainer :: jsstring
  currentScoreDisplay :: jsstring
  highScoreDisplay :: jsstring
  gameSetupDiv :: jsstring
  quizDiv :: jsstring
  categorySelect :: "option_element list"
  localStorage :: "jsstring option"
  alerts :: "jsstring list"
  timeouts :: nat

text \<open>The settled value of a \<open>fetch(...).then(response => response.json())\<close> chain.\<close>

datatype 'a response = Fulfilled 'a | Rejected jsstring

definition createElement :: button where
  "createElement = \<lparr>contents = Text [], classList = [], disabled = False, onClick = None\<rparr>"

definition innerHTML :: "button \<Rightarrow> jsstring" where
  "innerHTML b = serialise (contents b)"

definition classList_add :: "jsstring \<Rightarrow> button \<Rightarrow> button" where
  "classList_add c b = (if c \<in> set (classList b) then b else b\<lparr>classList := classList b @ [c]\<rparr>)"

section \<open>fetchCategories (lines 35-44)\<close>

definition categoryOption :: "category \<Rightarrow> option_element" where
  "categoryOption c = \<lparr>option_value = toString (category_id c), option_textContent = category_name c\<rparr>"

definition appendOption :: "page \<Rightarrow> category \<Rightarrow> page" where
  "appendOption s c = s\<lparr>categorySelect := categorySelect s @ [categoryOption c]\<rparr>"

text \<open>The chain has no \<open>catch\<close>: a rejected fetch runs no callback.\<close>

definition fetchCategories :: "category list response \<Rightarrow> page \<Rightarrow> page" where
  "fetchCategories r s =
     (case r of
        Fulfilled trivia_categories \<Rightarrow> foldl appendOption s trivia_categories
      | Rejected e \<Rightarrow> s)"

section \<open>shuffleArray (lines 220-225)\<close>

text \<open>
  \<open>rnd i\<close> is the value \<open>Math.random()\<close> returns in the iteration with loop variable
  \<open>i\<close>. The swap reads both elements before it writes them. \<open>Math.random()\<close> lies in
  \<open>[0, 1)\<close>, so \<open>j \<le> i\<close>; the swap is written for that range only.
\<close>

definition swap :: "nat \<Rightarrow> nat \<Rightarrow> 'a list \<Rightarrow> 'a list" where
  "swap i j array = (if i < length array \<and> j < length array
                     then array[i := array ! j, j := array ! i] else array)"

fun shuffleFrom :: "(nat \<Rightarrow> rat) \<Rightarrow> nat \<Rightarrow> 'a list \<Rightarrow> 'a list" where
  "shuffleFrom rnd 0 array = array"
| "shuffleFrom rnd (Suc k) array =
     (let i = Suc k; j = nat \<lfloor>rnd i * (of_nat i + 1)\<rfloor>
      in shuffleFrom rnd k (swap i j array))"

definition shuffleArray :: "(nat \<Rightarrow> rat) \<Rightarrow> 'a list \<Rightarrow> 'a list" where
  "shuffleArray rnd array = shuffleFrom rnd (length array - 1) array"

section \<open>Rendering (lines 88-122, 161-213)\<close>

text \<open>
  The functions that assign to an \<open>innerHTML\<close> take the browser's tree construction
  \<open>build\<close> as their first argument.
\<close>

definition updateHighScoreDisplay :: "page \<Rightarrow> page" where
  "updateHighScoreDisplay s = s\<lparr>highScoreDisplay := js ''High Score: '' @ toString (highScore s)\<rparr>"

definition updateHighScore :: "page \<Rightarrow> page" where
  "updateHighScore s =
     (if highScore s < score s
      then updateHighScoreDisplay
             (s\<lparr>highScore := score s, localStorage := Some (toString (score s))\<rparr>)
      else s)"

definition updateProgress :: "page \<Rightarrow> page" where
  "updateProgress s =
     s\<lparr>progressContainer := js ''Question '' @ toString (int (questionIndex s) + 1) @ js ''/''
          @ toString (int (length (currentQuestions s)))\<rparr>"

definition updateCurrentScore :: "page \<Rightarrow> page" where
  "updateCurrentScore s = s\<lparr>currentScoreDisplay := js ''Current Score: '' @ toString (score s)\<rparr>"

definition disableButtons :: "page \<Rightarrow> page" where
  "disableButtons s =
     s\<lparr>answersContainer :=
          map (\<lambda>b. if js ''answer-btn'' \<in> set (classList b) then b\<lparr>disabled := True\<rparr> else b)
              (answersContainer s)\<rparr>"

definition answerButton :: "tree_builder \<Rightarrow> jsstring \<Rightarrow> jsstring list \<Rightarrow> jsstring \<Rightarrow> button" where
  "answerButton build correctAnswer answers answer =
     createElement\<lparr>contents := setInnerHTML build (decodeHTML answer),
                   classList := [js ''answer-btn''],
                   onClick := Some (SelectAnswer correctAnswer answers)\<rparr>"

definition appendChild :: "button \<Rightarrow> page \<Rightarrow> page" where
  "appendChild b s = s\<lparr>answersContainer := answersContainer s @ [b]\<rparr>"

definition displayAnswers :: "tree_builder \<Rightarrow> (nat \<Rightarrow> rat) \<Rightarrow> quiz_question \<Rightarrow> page \<Rightarrow> page" where
  "displayAnswers build rnd q s =
     (let answers = shuffleArray rnd (incorrect_answers q @ [correct_answer q])
      in foldl (\<lambda>s' answer. appendChild (answerButton build (correct_answer q) answers answer) s')
               (s\<lparr>answersContainer := []\<rparr>) answers)"

definition restartButton :: button where
  "restartButton =
     createElement\<lparr>contents := Text (js ''Restart Quiz''), onClick := Some RestartQuiz\<rparr>"

definition showResults :: "page \<Rightarrow> page" where
  "showResults s =
     appendChild restartButton
       ((updateHighScoreDisplay
          (s\<lparr>questionContainer := js ''Quiz Finished!'',
             answersContainer := [],
             resultContainer := js ''Your final score is '' @ toString (score s)\<rparr>))
        \<lparr>progressContainer := []\<rparr>)"

text \<open>\<open>now\<close> is the value of \<open>Date.now()\<close> at line 94.\<close>

definition displayQuestion :: "tree_builder \<Rightarrow> int \<Rightarrow> (nat \<Rightarrow> rat) \<Rightarrow> page \<Rightarrow> page" where
  "displayQuestion build now rnd s =
     (if questionIndex s < length (currentQuestions s) then
        (let currentQuestion = currentQuestions s ! questionIndex s;
             s1 = s\<lparr>questionContainer :=
                      textContent (setInnerHTML build (decodeHTML (question currentQuestion)))\<rparr>;
             s2 = displayAnswers build rnd currentQuestion s1;
             s3 = updateProgress s2
         in s3\<lparr>questionStartTime := now\<rparr>)
      else showResults (updateHighScore s))"

section \<open>fetchQuestions and startGame (lines 50-79)\<close>

definition requestUrl :: "jsstring \<Rightarrow> jsstring \<Rightarrow> jsstring \<Rightarrow> jsstring" where
  "requestUrl amount category difficulty =
     js ''https://opentdb.com/api.php?amount='' @ amount
     @ (if category \<noteq> [] then js ''&category='' @ category else [])
     @ (if difficulty \<noteq> [] then js ''&difficulty='' @ difficulty else [])
     @ js ''&type=multiple''"

text \<open>
  \<open>net\<close> is the network: the settled response for a request URL. The callbacks of lines
  73-78 run on the page as it is when the response arrives.
\<close>

definition fetchQuestions ::
  "tree_builder \<Rightarrow> jsstring \<Rightarrow> jsstring \<Rightarrow> jsstring \<Rightarrow> (jsstring \<Rightarrow> quiz_question list response)
     \<Rightarrow> int \<Rightarrow> (nat \<Rightarrow> rat) \<Rightarrow> page \<Rightarrow> page" where
  "fetchQuestions build amount category difficulty net now rnd s =
     (case net (requestUrl amount category difficulty) of
        Fulfilled results \<Rightarrow>
          displayQuestion build now rnd
            (s\<lparr>currentQuestions := results, questionIndex := 0, score := 0\<rparr>)
      | Rejected error \<Rightarrow> s\<lparr>alerts := alerts s @ [js ''Error:'' @ error]\<rparr>)"

definition startGame ::
  "tree_builder \<Rightarrow> jsstring \<Rightarrow> jsstring \<Rightarrow> jsstring \<Rightarrow> (jsstring \<Rightarrow> quiz_question list response)
     \<Rightarrow> int \<Rightarrow> (nat \<Rightarrow> rat) \<Rightarrow> page \<Rightarrow> page" where
  "startGame build category amount difficulty net now rnd s =
     fetchQuestions build amount category difficulty net now rnd
       (s\<lparr>gameSetupDiv := js ''none'', quizDiv := js ''block''\<rparr>)"

section \<open>selectAnswer (lines 131-159)\<close>

text \<open>
  A handler either returns or throws; the page keeps what was written before the throw.
\<close>

datatype outcome = Returned page | TypeError page

fun pageOf :: "outcome \<Rightarrow> page" where
  "pageOf (Returned s) = s"
| "pageOf (TypeError s) = s"

text \<open>\<open>Array.prototype.find\<close>, as the position of the element found.\<close>

fun findIndex :: "('a \<Rightarrow> bool) \<Rightarrow> 'a list \<Rightarrow> nat option" where
  "findIndex P [] = None"
| "findIndex P (x # xs) = (if P x then Some 0 else map_option Suc (findIndex P xs))"

definition updateButton :: "nat \<Rightarrow> (button \<Rightarrow> button) \<Rightarrow> page \<Rightarrow> page" where
  "updateButton i f s = s\<lparr>answersContainer := (answersContainer s)[i := f (answersContainer s ! i)]\<rparr>"

definition setTimeout :: "page \<Rightarrow> page" where
  "setTimeout s = s\<lparr>timeouts := Suc (timeouts s)\<rparr>"

text \<open>The loop of lines 136-141, run on the children of \<open>answersContainer\<close>.\<close>

definition findCorrectButton :: "jsstring \<Rightarrow> jsstring list \<Rightarrow> button list \<Rightarrow> nat option" where
  "findCorrectButton correctAnswer answers childNodes =
     foldl (\<lambda>correctButton answer.
              if decodeHTML answer = decodeHTML correctAnswer
              then findIndex (\<lambda>button. innerHTML button = decodeHTML correctAnswer) childNodes
              else correctButton)
           None answers"

text \<open>The test of line 143 on the selected button.\<close>

definition isCorrectSelection :: "button \<Rightarrow> jsstring \<Rightarrow> bool" where
  "isCorrectSelection selectedButton correctAnswer =
     (decodeHTML (innerHTML selectedButton) = decodeHTML correctAnswer)"

text \<open>
  \<open>selectedButton\<close> is the child of \<open>answersContainer\<close> at position \<open>i\<close>; \<open>now\<close> is the
  value of \<open>Date.now()\<close> at line 132. Reading \<open>classList\<close> of an undefined
  \<open>correctButton\<close> at line 149 throws a TypeError.
\<close>

definition selectAnswer :: "int \<Rightarrow> nat \<Rightarrow> jsstring \<Rightarrow> jsstring list \<Rightarrow> page \<Rightarrow> outcome" where
  "selectAnswer now i correctAnswer answers s =
     (let scoreForThis = scoreForThisQuestion (timeTaken now (questionStartTime s));
          s1 = disableButtons s;
          correctButton = findCorrectButton correctAnswer answers (answersContainer s1)
      in if isCorrectSelection (answersContainer s1 ! i) correctAnswer then
           Returned (setTimeout (updateCurrentScore
             ((updateButton i (classList_add (js ''correct'')) (s1\<lparr>score := score s1 + scoreForThis\<rparr>))
              \<lparr>resultContainer := js ''Correct! + '' @ toString scoreForThis @ js '' Points''\<rparr>)))
         else
           (let s2 = updateButton i (classList_add (js ''incorrect'')) s1
            in case correctButton of
                 None \<Rightarrow> TypeError s2
               | Some j \<Rightarrow>
                   Returned (setTimeout (updateCurrentScore
                     ((updateButton j (classList_add (js ''correct'')) s2)
                      \<lparr>resultContainer :=
                         js ''Wrong! The correct answer was: '' @ decodeHTML correctAnswer\<rparr>)))))"

text \<open>The callback of lines 154-158.\<close>

definition timeoutCallback :: "tree_builder \<Rightarrow> int \<Rightarrow> (nat \<Rightarrow> rat) \<Rightarrow> page \<Rightarrow> page" where
  "timeoutCallback build now rnd s =
     (displayQuestion build now rnd (s\<lparr>questionIndex := Suc (questionIndex s)\<rparr>))
       \<lparr>resultContainer := []\<rparr>"

text \<open>The listener of the restart button (lines 187-191).\<close>

definition restartQuiz :: "category list response \<Rightarrow> page \<Rightarrow> page" where
  "restartQuiz r s = fetchCategories r (s\<lparr>quizDiv := js ''none'', gameSetupDiv := js ''block''\<rparr>)"

section \<open>The event loop\<close>

text \<open>
  The events the page reacts to once a game has started: \<open>Click i now\<close> is a click at
  time \<open>now\<close> on the answer choice at position \<open>i\<close>, \<open>Timeout now rnd\<close> the expiry
  of the delay of line 158, and \<open>Restart r\<close> a click on the restart button, where \<open>r\<close>
  is the settled response of the category request it sends. The browser delivers a click
  to the listener of an enabled button only, and runs a timeout callback once for each
  pending \<open>setTimeout\<close>. An uncaught exception ends the handler; the page stays as the
  handler left it.
\<close>

datatype event = Click nat int | Timeout int "nat \<Rightarrow> rat" | Restart "category list response"

text \<open>
  The results view: the only child of \<open>answersContainer\<close> is the restart button. A
  rendered question has at least one answer button instead.
\<close>

definition finished :: "page \<Rightarrow> bool" where
  "finished s = (answersContainer s = [restartButton])"

definition click :: "int \<Rightarrow> nat \<Rightarrow> page \<Rightarrow> outcome" where
  "click now i s =
     (if i < length (answersContainer s) \<and> \<not> disabled (answersContainer s ! i) then
        (case onClick (answersContainer s ! i) of
           Some (SelectAnswer correctAnswer answers) \<Rightarrow> selectAnswer now i correctAnswer answers s
         | _ \<Rightarrow> Returned s)
      else Returned s)"

fun step :: "tree_builder \<Rightarrow> page \<Rightarrow> event \<Rightarrow> page" where
  "step build s (Click i now) = pageOf (click now i s)"
| "step build s (Timeout now rnd) =
     (if timeouts s = 0 then s
      else timeoutCallback build now rnd (s\<lparr>timeouts := timeouts s - 1\<rparr>))"
| "step build s (Restart r) = (if finished s then restartQuiz r s else s)"

definition run :: "tree_builder \<Rightarrow> page \<Rightarrow> event list \<Rightarrow> page" where
  "run build s es = foldl (step build) s es"

text \<open>
  The page when the script has run (lines 15-23) and no high score is stored:
  \<open>parseInt(null) || 0\<close> is \<open>0\<close>. \<open>questionStartTime\<close> is read only after
  \<open>displayQuestion\<close> has assigned it.
\<close>

definition loadedPage :: page where
  "loadedPage =
     \<lparr>currentQuestions = [], score = 0, questionIndex = 0, highScore = 0,
      questionStartTime = 0, questionContainer = [], answersContainer = [],
      resultContainer = [], progressContainer = [], currentScoreDisplay = [],
      highScoreDisplay = js ''High Score: 0'', gameSetupDiv = [], quizDiv = [],
      categorySelect = [], localStorage = None, alerts = [], timeouts = 0\<rparr>"

section \<open>Notions used in the statements\<close>

text \<open>
  Text that the serialiser of \<open>innerHTML\<close> writes as it is: no \<open>&\<close>, U+00A0, \<open><\<close>
  or \<open>>\<close>.
\<close>

definition plainText :: "jsstring \<Rightarrow> bool" where
  "plainText t = (\<forall>c \<in> set t. c \<noteq> 0x26 \<and> c \<noteq> 0xA0 \<and> c \<noteq> 0x3C \<and> c \<noteq> 0x3E)"

text \<open>What a button displays: the text content of its children.\<close>

definition displayed :: "button \<Rightarrow> jsstring" where
  "displayed b = textContent (contents b)"

fun threw :: "outcome \<Rightarrow> bool" where
  "threw (TypeError s) = True"
| "threw (Returned s) = False"

text \<open>
  The points an event adds to the score in the code: those of the question when a click
  reaches the listener of an answer button and the button passes the test of line 143.
\<close>

fun added :: "page \<Rightarrow> event \<Rightarrow> int" where
  "added s (Click i now) =
     (if i < length (answersContainer s) \<and> \<not> disabled (answersContainer s ! i) then
        (case onClick (answersContainer s ! i) of
           Some (SelectAnswer correctAnswer answers) \<Rightarrow>
             if isCorrectSelection (answersContainer s ! i) correctAnswer
             then scoreForThisQuestion (timeTaken now (questionStartTime s))
             else 0
         | _ \<Rightarrow> 0)
      else 0)"
| "added s (Timeout now rnd) = 0"
| "added s (Restart r) = 0"

fun totalAdded :: "tree_builder \<Rightarrow> page \<Rightarrow> event list \<Rightarrow> int" where
  "totalAdded build s [] = 0"
| "totalAdded build s (e # es) = added s e + totalAdded build (step build s e) es"

text \<open>
  The points a submission is worth in the words of the specification: those of the
  question when the selected choice equals the correct answer after decoding, nothing
  otherwise. The choice selected by a click on the button at position \<open>i\<close> is the answer
  that button was made from, the element at position \<open>i\<close> of the shuffled \<open>answers\<close>.
\<close>

fun awarded :: "page \<Rightarrow> event \<Rightarrow> int" where
  "awarded s (Click i now) =
     (if i < length (answersContainer s) \<and> \<not> disabled (answersContainer s ! i) then
        (case onClick (answersContainer s ! i) of
           Some (SelectAnswer correctAnswer answers) \<Rightarrow>
             if i < length answers \<and> decodeHTML (answers ! i) = decodeHTML correctAnswer
             then scoreForThisQuestion (timeTaken now (questionStartTime s))
             else 0
         | _ \<Rightarrow> 0)
      else 0)"
| "awarded s (Timeout now rnd) = 0"
| "awarded s (Restart r) = 0"

text \<open>
  One round of a session: a click on the choice at position \<open>i\<close> at time \<open>t\<close>, then the
  delay, after which a pending timeout runs at time \<open>t'\<close> with random source \<open>rnd\<close>.
\<close>

fun submit :: "tree_builder \<Rightarrow> page \<Rightarrow> nat \<times> int \<times> int \<times> (nat \<Rightarrow> rat) \<Rightarrow> page" where
  "submit build s (i, t, t', rnd) = step build (step build s (Click i t)) (Timeout t' rnd)"

text \<open>
  Question \<open>k\<close> of the list \<open>qs\<close> is awaiting its answer: it is the current question, its
  choices are rendered in some order and enabled, and no timeout is pending.
\<close>

definition awaiting :: "tree_builder \<Rightarrow> quiz_question list \<Rightarrow> nat \<Rightarrow> page \<Rightarrow> bool" where
  "awaiting build qs k s =
     (currentQuestions s = qs \<and> questionIndex s = k \<and> k < length qs \<and> timeouts s = 0
      \<and> (\<exists>A. mset A = mset (incorrect_answers (qs ! k) @ [correct_answer (qs ! k)])
             \<and> answersContainer s = map (answerButton build (correct_answer (qs ! k)) A) A))"

text \<open>The session over \<open>qs\<close> is over: the index is the length of \<open>qs\<close> and the results are shown.\<close>

definition over :: "quiz_question list \<Rightarrow> page \<Rightarrow> bool" where
  "over qs s =
     (currentQuestions s = qs \<and> questionIndex s = length qs \<and> timeouts s = 0 \<and> finished s)"

section \<open>Inputs used in the examples\<close>

text \<open>The question of the specification's end-to-end scenario.\<close>

definition sumQuestion :: quiz_question where
  "sumQuestion =
     \<lparr>question = js ''2+2=?'', correct_answer = js ''4'',
      incorrect_answers = [js ''3'', js ''5'', js ''22'']\<rparr>"

text \<open>A question whose correct answer contains an encoded ampersand.\<close>

definition ampersandQuestion :: quiz_question where
  "ampersandQuestion =
     \<lparr>question = js ''Which company was nicknamed Ma Bell?'', correct_answer = js ''AT&amp;T'',
      incorrect_answers = [js ''Verizon'', js ''Sprint'', js ''T-Mobile'']\<rparr>"

text \<open>
  A question about HTML, whose answers are character references as plain text: the API
  encodes the answer \<open>&lt;\<close> as \<open>&amp;lt;\<close>.
\<close>

definition entityQuestion :: quiz_question where
  "entityQuestion =
     \<lparr>question = js ''Which character reference stands for the less-than sign?'',
      correct_answer = js ''&amp;lt;'',
      incorrect_answers = [js ''&amp;gt;'', js ''&amp;amp;'', js ''&amp;quot;'']\<rparr>"

definition generalKnowledge :: category where
  "generalKnowledge = \<lparr>category_id = 9, category_name = js ''General Knowledge''\<rparr>"

text \<open>A network that answers every request with the same settled response.\<close>

definition always :: "'a response \<Rightarrow> jsstring \<Rightarrow> 'a response" where
  "always r url = r"

text \<open>A random source that returns 0 at every call.\<close>

definition zeros :: "nat \<Rightarrow> rat" where
  "zeros i = 0"

text \<open>
  A tree construction that builds nothing. The examples contain no markup, so that it
  is never applied in them.
\<close>

definition noElements :: tree_builder where
  "noElements html = ([], [])"

text \<open>
  The page that shows the given question as the only question of a session started at
  time 5000 on the freshly loaded page.
\<close>

definition bellPage :: "tree_builder \<Rightarrow> page" where
  "bellPage build =
     fetchQuestions build (js ''1'') [] [] (always (Fulfilled [ampersandQuestion])) 5000 zeros
       loadedPage"

definition sumPage :: "tree_builder \<Rightarrow> page" where
  "sumPage build =
     fetchQuestions build (js ''1'') [] [] (always (Fulfilled [sumQuestion])) 5000 zeros
       loadedPage"

definition entityPage :: "tree_builder \<Rightarrow> page" where
  "entityPage build =
     fetchQuestions build (js ''1'') [] [] (always (Fulfilled [entityQuestion])) 5000 zeros
       loadedPage"

section \<open>Facts about the HTML functions\<close>

lemmas names_defs =
  names_A_def names_a_def names_B_def names_b_def names_C_def names_c_def names_D_def
  names_d_def names_E_def names_e_def names_F_def names_f_def names_G_def names_g_def
  names_H_def names_h_def names_I_def names_i_def names_J_def names_j_def names_K_def
  names_k_def names_L_def names_l_def names_M_def names_m_def names_N_def names_n_def
  names_O_def names_o_def names_P_def names_p_def names_Q_def names_q_def names_R_def
  names_r_def names_S_def names_s_def names_T_def names_t_def names_U_def names_u_def
  names_V_def names_v_def names_W_def names_w_def names_X_def names_x_def names_Y_def
  names_y_def names_Z_def names_z_def

lemmas html_defs = decodeHTML_def js_def textareaValue_def textareaInnerHTML_def
  characterReference_def numericCharacterReference_def isDigit_def semicolonAt_def
  codeUnits_def characterReferenceCode_def digitValue_def c1Replacements_def
  isAlphanumeric_def isAlpha_def namedCharacterReference_def namesStartingWith_def names_defs
  longer_def parseText_def escapeText_def escapeCharacter_def
  isHexDigit_def isUpperHex_def isLowerHex_def setInnerHTML_def

text \<open>The table holds the 2231 names of the standard.\<close>

lemma length_namedCharacterReferences: "length namedCharacterReferences = 2231"
  by (simp add: namedCharacterReferences_def names_defs)

lemma names_first_letter:
  "list_all (\<lambda>m. \<exists>ks. fst m = CHR ''A'' # ks) names_A"
  "list_all (\<lambda>m. \<exists>ks. fst m = CHR ''a'' # ks) names_a"
  "list_all (\<lambda>m. \<exists>ks. fst m = CHR ''B'' # ks) names_B"
  "list_all (\<lambda>m. \<exists>ks. fst m = CHR ''b'' # ks) names_b"
  "list_all (\<lambda>m. \<exists>ks. fst m = CHR ''C'' # ks) names_C"
  "list_all (\<lambda>m. \<exists>ks. fst m = CHR ''c'' # ks) names_c"
  "list_all (\<lambda>m. \<exists>ks. fst m = CHR ''D'' # ks) names_D"
  "list_all (\<lambda>m. \<exists>ks. fst m = CHR ''d'' # ks) names_d"
  "list_all (\<lambda>m. \<exists>ks. fst m = CHR ''E'' # ks) names_E"
  "list_all (\<lambda>m. \<exists>ks. fst m = CHR ''e'' # ks) names_e"
  "list_all (\<lambda>m. \<exists>ks. fst m = CHR ''F'' # ks) names_F"
  "list_all (\<lambda>m. \<exists>ks. fst m = CHR ''f'' # ks) names_f"
  "list_all (\<lambda>m. \<exists>ks. fst m = CHR ''G'' # ks) names_G"
  "list_all (\<lambda>m. \<exists>ks. fst m = CHR ''g'' # ks) names_g"
  "list_all (\<lambda>m. \<exists>ks. fst m = CHR ''H'' # ks) names_H"
  "list_all (\<lambda>m. \<exists>ks. fst m = CHR ''h'' # ks) names_h"
  "list_all (\<lambda>m. \<exists>ks. fst m = CHR ''I'' # ks) names_I"
  "list_all (\<lambda>m. \<exists>ks. fst m = CHR ''i'' # ks) names_i"
  "list_all (\<lambda>m. \<exists>ks. fst m = CHR ''J'' # ks) names_J"
  "list_all (\<lambda>m. \<exists>ks. fst m = CHR ''j'' # ks) names_j"
  "list_all (\<lambda>m. \<exists>ks. fst m = CHR ''K'' # ks) names_K"
  "list_all (\<lambda>m. \<exists>ks. fst m = CHR ''k'' # ks) names_k"
  "list_all (\<lambda>m. \<exists>ks. fst m = CHR ''L'' # ks) names_L"
  "list_all (\<lambda>m. \<exists>ks. fst m = CHR ''l'' # ks) names_l"
  "list_all (\<lambda>m. \<exists>ks. fst m = CHR ''M'' # ks) names_M"
  "list_all (\<lambda>m. \<exists>ks. fst m = CHR ''m'' # ks) names_m"
  "list_all (\<lambda>m. \<exists>ks. fst m = CHR ''N'' # ks) names_N"
  "list_all (\<lambda>m. \<exists>ks. fst m = CHR ''n'' # ks) names_n"
  "list_all (\<lambda>m. \<exists>ks. fst m = CHR ''O'' # ks) names_O"
  "list_all (\<lambda>m. \<exists>ks. fst m = CHR ''o'' # ks) names_o"
  "list_all (\<lambda>m. \<exists>ks. fst m = CHR ''P'' # ks) names_P"
  "list_all (\<lambda>m. \<exists>ks. fst m = CHR ''p'' # ks) names_p"
  "list_all (\<lambda>m. \<exists>ks. fst m = CHR ''Q'' # ks) names_Q"
  "list_all (\<lambda>m. \<exists>ks. fst m = CHR ''q'' # ks) names_q"
  "list_all (\<lambda>m. \<exists>ks. fst m = CHR ''R'' # ks) names_R"
  "list_all (\<lambda>m. \<exists>ks. fst m = CHR ''r'' # ks) names_r"
  "list_all (\<lambda>m. \<exists>ks. fst m = CHR ''S'' # ks) names_S"
  "list_all (\<lambda>m. \<exists>ks. fst m = CHR ''s'' # ks) names_s"
  "list_all (\<lambda>m. \<exists>ks. fst m = CHR ''T'' # ks) names_T"
  "list_all (\<lambda>m. \<exists>ks. fst m = CHR ''t'' # ks) names_t"
  "list_all (\<lambda>m. \<exists>ks. fst m = CHR ''U'' # ks) names_U"
  "list_all (\<lambda>m. \<exists>ks. fst m = CHR ''u'' # ks) names_u"
  "list_all (\<lambda>m. \<exists>ks. fst m = CHR ''V'' # ks) names_V"
  "list_all (\<lambda>m. \<exists>ks. fst m = CHR ''v'' # ks) names_v"
  "list_all (\<lambda>m. \<exists>ks. fst m = CHR ''W'' # ks) names_W"
  "list_all (\<lambda>m. \<exists>ks. fst m = CHR ''w'' # ks) names_w"
  "list_all (\<lambda>m. \<exists>ks. fst m = CHR ''X'' # ks) names_X"
  "list_all (\<lambda>m. \<exists>ks. fst m = CHR ''x'' # ks) names_x"
  "list_all (\<lambda>m. \<exists>ks. fst m = CHR ''Y'' # ks) names_Y"
  "list_all (\<lambda>m. \<exists>ks. fst m = CHR ''y'' # ks) names_y"
  "list_all (\<lambda>m. \<exists>ks. fst m = CHR ''Z'' # ks) names_Z"
  "list_all (\<lambda>m. \<exists>ks. fst m = CHR ''z'' # ks) names_z"
  by (simp_all add: names_defs)

lemma filter_other_letter:
  "list_all (\<lambda>m. \<exists>ks. fst m = k # ks) ns \<Longrightarrow> of_char k \<noteq> c \<Longrightarrow>
   filter (\<lambda>m. matches (fst m) (c # cs)) ns = []"
  by (induction ns) auto

lemma filter_names:
  "filter (\<lambda>m. matches (fst m) (c # cs)) names_A
     = (if c = 0x41 then filter (\<lambda>m. matches (fst m) (c # cs)) (namesStartingWith c) else [])"
  "filter (\<lambda>m. matches (fst m) (c # cs)) names_a
     = (if c = 0x61 then filter (\<lambda>m. matches (fst m) (c # cs)) (namesStartingWith c) else [])"
  "filter (\<lambda>m. matches (fst m) (c # cs)) names_B
     = (if c = 0x42 then filter (\<lambda>m. matches (fst m) (c # cs)) (namesStartingWith c) else [])"
  "filter (\<lambda>m. matches (fst m) (c # cs)) names_b
     = (if c = 0x62 then filter (\<lambda>m. matches (fst m) (c # cs)) (namesStartingWith c) else [])"
  "filter (\<lambda>m. matches (fst m) (c # cs)) names_C
     = (if c = 0x43 then filter (\<lambda>m. matches (fst m) (c # cs)) (namesStartingWith c) else [])"
  "filter (\<lambda>m. matches (fst m) (c # cs)) names_c
     = (if c = 0x63 then filter (\<lambda>m. matches (fst m) (c # cs)) (namesStartingWith c) else [])"
  "filter (\<lambda>m. matches (fst m) (c # cs)) names_D
     = (if c = 0x44 then filter (\<lambda>m. matches (fst m) (c # cs)) (namesStartingWith c) else [])"
  "filter (\<lambda>m. matches (fst m) (c # cs)) names_d
     = (if c = 0x64 then filter (\<lambda>m. matches (fst m) (c # cs)) (namesStartingWith c) else [])"
  "filter (\<lambda>m. matches (fst m) (c # cs)) names_E
     = (if c = 0x45 then filter (\<lambda>m. matches (fst m) (c # cs)) (namesStartingWith c) else [])"
  "filter (\<lambda>m. matches (fst m) (c # cs)) names_e
     = (if c = 0x65 then filter (\<lambda>m. matches (fst m) (c # cs)) (namesStartingWith c) else [])"
  "filter (\<lambda>m. matches (fst m) (c # cs)) names_F
     = (if c = 0x46 then filter (\<lambda>m. matches (fst m) (c # cs)) (namesStartingWith c) else [])"
  "filter (\<lambda>m. matches (fst m) (c # cs)) names_f
     = (if c = 0x66 then filter (\<lambda>m. matches (fst m) (c # cs)) (namesStartingWith c) else [])"
  "filter (\<lambda>m. matches (fst m) (c # cs)) names_G
     = (if c = 0x47 then filter (\<lambda>m. matches (fst m) (c # cs)) (namesStartingWith c) else [])"
  "filter (\<lambda>m. matches (fst m) (c # cs)) names_g
     = (if c = 0x67 then filter (\<lambda>m. matches (fst m) (c # cs)) (namesStartingWith c) else [])"
  "filter (\<lambda>m. matches (fst m) (c # cs)) names_H
     = (if c = 0x48 then filter (\<lambda>m. matches (fst m) (c # cs)) (namesStartingWith c) else [])"
  "filter (\<lambda>m. matches (fst m) (c # cs)) names_h
     = (if c = 0x68 then filter (\<lambda>m. matches (fst m) (c # cs)) (namesStartingWith c) else [])"
  "filter (\<lambda>m. matches (fst m) (c # cs)) names_I
     = (if c = 0x49 then filter (\<lambda>m. matches (fst m) (c # cs)) (namesStartingWith c) else [])"
  "filter (\<lambda>m. matches (fst m) (c # cs)) names_i
     = (if c = 0x69 then filter (\<lambda>m. matches (fst m) (c # cs)) (namesStartingWith c) else [])"
  "filter (\<lambda>m. matches (fst m) (c # cs)) names_J
     = (if c = 0x4A then filter (\<lambda>m. matches (fst m) (c # cs)) (namesStartingWith c) else [])"
  "filter (\<lambda>m. matches (fst m) (c # cs)) names_j
     = (if c = 0x6A then filter (\<lambda>m. matches (fst m) (c # cs)) (namesStartingWith c) else [])"
  "filter (\<lambda>m. matches (fst m) (c # cs)) names_K
     = (if c = 0x4B then filter (\<lambda>m. matches (fst m) (c # cs)) (namesStartingWith c) else [])"
  "filter (\<lambda>m. matches (fst m) (c # cs)) names_k
     = (if c = 0x6B then filter (\<lambda>m. matches (fst m) (c # cs)) (namesStartingWith c) else [])"
  "filter (\<lambda>m. matches (fst m) (c # cs)) names_L
     = (if c = 0x4C then filter (\<lambda>m. matches (fst m) (c # cs)) (namesStartingWith c) else [])"
  "filter (\<lambda>m. matches (fst m) (c # cs)) names_l
     = (if c = 0x6C then filter (\<lambda>m. matches (fst m) (c # cs)) (namesStartingWith c) else [])"
  "filter (\<lambda>m. matches (fst m) (c # cs)) names_M
     = (if c = 0x4D then filter (\<lambda>m. matches (fst m) (c # cs)) (namesStartingWith c) else [])"
  "filter (\<lambda>m. matches (fst m) (c # cs)) names_m
     = (if c = 0x6D then filter (\<lambda>m. matches (fst m) (c # cs)) (namesStartingWith c) else [])"
  "filter (\<lambda>m. matches (fst m) (c # cs)) names_N
     = (if c = 0x4E then filter (\<lambda>m. matches (fst m) (c # cs)) (namesStartingWith c) else [])"
  "filter (\<lambda>m. matches (fst m) (c # cs)) names_n
     = (if c = 0x6E then filter (\<lambda>m. matches (fst m) (c # cs)) (namesStartingWith c) else [])"
  "filter (\<lambda>m. matches (fst m) (c # cs)) names_O
     = (if c = 0x4F then filter (\<lambda>m. matches (fst m) (c # cs)) (namesStartingWith c) else [])"
  "filter (\<lambda>m. matches (fst m) (c # cs)) names_o
     = (if c = 0x6F then filter (\<lambda>m. matches (fst m) (c # cs)) (namesStartingWith c) else [])"
  "filter (\<lambda>m. matches (fst m) (c # cs)) names_P
     = (if c = 0x50 then filter (\<lambda>m. matches (fst m) (c # cs)) (namesStartingWith c) else [])"
  "filter (\<lambda>m. matches (fst m) (c # cs)) names_p
     = (if c = 0x70 then filter (\<lambda>m. matches (fst m) (c # cs)) (namesStartingWith c) else [])"
  "filter (\<lambda>m. matches (fst m) (c # cs)) names_Q
     = (if c = 0x51 then filter (\<lambda>m. matches (fst m) (c # cs)) (namesStartingWith c) else [])"
  "filter (\<lambda>m. matches (fst m) (c # cs)) names_q
     = (if c = 0x71 then filter (\<lambda>m. matches (fst m) (c # cs)) (namesStartingWith c) else [])"
  "filter (\<lambda>m. matches (fst m) (c # cs)) names_R
     = (if c = 0x52 then filter (\<lambda>m. matches (fst m) (c # cs)) (namesStartingWith c) else [])"
  "filter (\<lambda>m. matches (fst m) (c # cs)) names_r
     = (if c = 0x72 then filter (\<lambda>m. matches (fst m) (c # cs)) (namesStartingWith c) else [])"
  "filter (\<lambda>m. matches (fst m) (c # cs)) names_S
     = (if c = 0x53 then filter (\<lambda>m. matches (fst m) (c # cs)) (namesStartingWith c) else [])"
  "filter (\<lambda>m. matches (fst m) (c # cs)) names_s
     = (if c = 0x73 then filter (\<lambda>m. matches (fst m) (c # cs)) (namesStartingWith c) else [])"
  "filter (\<lambda>m. matches (fst m) (c # cs)) names_T
     = (if c = 0x54 then filter (\<lambda>m. matches (fst m) (c # cs)) (namesStartingWith c) else [])"
  "filter (\<lambda>m. matches (fst m) (c # cs)) names_t
     = (if c = 0x74 then filter (\<lambda>m. matches (fst m) (c # cs)) (namesStartingWith c) else [])"
  "filter (\<lambda>m. matches (fst m) (c # cs)) names_U
     = (if c = 0x55 then filter (\<lambda>m. matches (fst m) (c # cs)) (namesStartingWith c) else [])"
  "filter (\<lambda>m. matches (fst m) (c # cs)) names_u
     = (if c = 0x75 then filter (\<lambda>m. matches (fst m) (c # cs)) (namesStartingWith c) else [])"
  "filter (\<lambda>m. matches (fst m) (c # cs)) names_V
     = (if c = 0x56 then filter (\<lambda>m. matches (fst m) (c # cs)) (namesStartingWith c) else [])"
  "filter (\<lambda>m. matches (fst m) (c # cs)) names_v
     = (if c = 0x76 then filter (\<lambda>m. matches (fst m) (c # cs)) (namesStartingWith c) else [])"
  "filter (\<lambda>m. matches (fst m) (c # cs)) names_W
     = (if c = 0x57 then filter (\<lambda>m. matches (fst m) (c # cs)) (namesStartingWith c) else [])"
  "filter (\<lambda>m. matches (fst m) (c # cs)) names_w
     = (if c = 0x77 then filter (\<lambda>m. matches (fst m) (c # cs)) (namesStartingWith c) else [])"
  "filter (\<lambda>m. matches (fst m) (c # cs)) names_X
     = (if c = 0x58 then filter (\<lambda>m. matches (fst m) (c # cs)) (namesStartingWith c) else [])"
  "filter (\<lambda>m. matches (fst m) (c # cs)) names_x
     = (if c = 0x78 then filter (\<lambda>m. matches (fst m) (c # cs)) (namesStartingWith c) else [])"
  "filter (\<lambda>m. matches (fst m) (c # cs)) names_Y
     = (if c = 0x59 then filter (\<lambda>m. matches (fst m) (c # cs)) (namesStartingWith c) else [])"
  "filter (\<lambda>m. matches (fst m) (c # cs)) names_y
     = (if c = 0x79 then filter (\<lambda>m. matches (fst m) (c # cs)) (namesStartingWith c) else [])"
  "filter (\<lambda>m. matches (fst m) (c # cs)) names_Z
     = (if c = 0x5A then filter (\<lambda>m. matches (fst m) (c # cs)) (namesStartingWith c) else [])"
  "filter (\<lambda>m. matches (fst m) (c # cs)) names_z
     = (if c = 0x7A then filter (\<lambda>m. matches (fst m) (c # cs)) (namesStartingWith c) else [])"
  subgoal by (simp add: namesStartingWith_def filter_other_letter [OF names_first_letter(1)])
  subgoal by (simp add: namesStartingWith_def filter_other_letter [OF names_first_letter(2)])
  subgoal by (simp add: namesStartingWith_def filter_other_letter [OF names_first_letter(3)])
  subgoal by (simp add: namesStartingWith_def filter_other_letter [OF names_first_letter(4)])
  subgoal by (simp add: namesStartingWith_def filter_other_letter [OF names_first_letter(5)])
  subgoal by (simp add: namesStartingWith_def filter_other_letter [OF names_first_letter(6)])
  subgoal by (simp add: namesStartingWith_def filter_other_letter [OF names_first_letter(7)])
  subgoal by (simp add: namesStartingWith_def filter_other_letter [OF names_first_letter(8)])
  subgoal by (simp add: namesStartingWith_def filter_other_letter [OF names_first_letter(9)])
  subgoal by (simp add: namesStartingWith_def filter_other_letter [OF names_first_letter(10)])
  subgoal by (simp add: namesStartingWith_def filter_other_letter [OF names_first_letter(11)])
  subgoal by (simp add: namesStartingWith_def filter_other_letter [OF names_first_letter(12)])
  subgoal by (simp add: namesStartingWith_def filter_other_letter [OF names_first_letter(13)])
  subgoal by (simp add: namesStartingWith_def filter_other_letter [OF names_first_letter(14)])
  subgoal by (simp add: namesStartingWith_def filter_other_letter [OF names_first_letter(15)])
  subgoal by (simp add: namesStartingWith_def filter_other_letter [OF names_first_letter(16)])
  subgoal by (simp add: namesStartingWith_def filter_other_letter [OF names_first_letter(17)])
  subgoal by (simp add: namesStartingWith_def filter_other_letter [OF names_first_letter(18)])
  subgoal by (simp add: namesStartingWith_def filter_other_letter [OF names_first_letter(19)])
  subgoal by (simp add: namesStartingWith_def filter_other_letter [OF names_first_letter(20)])
  subgoal by (simp add: namesStartingWith_def filter_other_letter [OF names_first_letter(21)])
  subgoal by (simp add: namesStartingWith_def filter_other_letter [OF names_first_letter(22)])
  subgoal by (simp add: namesStartingWith_def filter_other_letter [OF names_first_letter(23)])
  subgoal by (simp add: namesStartingWith_def filter_other_letter [OF names_first_letter(24)])
  subgoal by (simp add: namesStartingWith_def filter_other_letter [OF names_first_letter(25)])
  subgoal by (simp add: namesStartingWith_def filter_other_letter [OF names_first_letter(26)])
  subgoal by (simp add: namesStartingWith_def filter_other_letter [OF names_first_letter(27)])
  subgoal by (simp add: namesStartingWith_def filter_other_letter [OF names_first_letter(28)])
  subgoal by (simp add: namesStartingWith_def filter_other_letter [OF names_first_letter(29)])
  subgoal by (simp add: namesStartingWith_def filter_other_letter [OF names_first_letter(30)])
  subgoal by (simp add: namesStartingWith_def filter_other_letter [OF names_first_letter(31)])
  subgoal by (simp add: namesStartingWith_def filter_other_letter [OF names_first_letter(32)])
  subgoal by (simp add: namesStartingWith_def filter_other_letter [OF names_first_letter(33)])
  subgoal by (simp add: namesStartingWith_def filter_other_letter [OF names_first_letter(34)])
  subgoal by (simp add: namesStartingWith_def filter_other_letter [OF names_first_letter(35)])
  subgoal by (simp add: namesStartingWith_def filter_other_letter [OF names_first_letter(36)])
  subgoal by (simp add: namesStartingWith_def filter_other_letter [OF names_first_letter(37)])
  subgoal by (simp add: namesStartingWith_def filter_other_letter [OF names_first_letter(38)])
  subgoal by (simp add: namesStartingWith_def filter_other_letter [OF names_first_letter(39)])
  subgoal by (simp add: namesStartingWith_def filter_other_letter [OF names_first_letter(40)])
  subgoal by (simp add: namesStartingWith_def filter_other_letter [OF names_first_letter(41)])
  subgoal by (simp add: namesStartingWith_def filter_other_letter [OF names_first_letter(42)])
  subgoal by (simp add: namesStartingWith_def filter_other_letter [OF names_first_letter(43)])
  subgoal by (simp add: namesStartingWith_def filter_other_letter [OF names_first_letter(44)])
  subgoal by (simp add: namesStartingWith_def filter_other_letter [OF names_first_letter(45)])
  subgoal by (simp add: namesStartingWith_def filter_other_letter [OF names_first_letter(46)])
  subgoal by (simp add: namesStartingWith_def filter_other_letter [OF names_first_letter(47)])
  subgoal by (simp add: namesStartingWith_def filter_other_letter [OF names_first_letter(48)])
  subgoal by (simp add: namesStartingWith_def filter_other_letter [OF names_first_letter(49)])
  subgoal by (simp add: namesStartingWith_def filter_other_letter [OF names_first_letter(50)])
  subgoal by (simp add: namesStartingWith_def filter_other_letter [OF names_first_letter(51)])
  subgoal by (simp add: namesStartingWith_def filter_other_letter [OF names_first_letter(52)])
  done

lemma concat_one_letter:
  "distinct Xs \<Longrightarrow>
   concat (map (\<lambda>X. if c = X then F else []) Xs) = (if c \<in> set Xs then F else [])"
  by (induction Xs) auto

text \<open>Searching the names with the first letter of the input is searching the table.\<close>

lemma namesStartingWith_table:
  "filter (\<lambda>m. matches (fst m) (c # cs)) namedCharacterReferences
     = filter (\<lambda>m. matches (fst m) (c # cs)) (namesStartingWith c)"
proof -
  let ?F = "filter (\<lambda>m. matches (fst m) (c # cs)) (namesStartingWith c)"
  let ?Xs = "[0x41, 0x61, 0x42, 0x62, 0x43, 0x63, 0x44, 0x64, 0x45, 0x65, 0x46, 0x66, 0x47, 0x67, 0x48, 0x68, 0x49, 0x69, 0x4A, 0x6A, 0x4B, 0x6B, 0x4C, 0x6C, 0x4D, 0x6D, 0x4E, 0x6E, 0x4F, 0x6F, 0x50, 0x70, 0x51, 0x71, 0x52, 0x72, 0x53, 0x73, 0x54, 0x74, 0x55, 0x75, 0x56, 0x76, 0x57, 0x77, 0x58, 0x78, 0x59, 0x79, 0x5A, 0x7A] :: 16 word list"
  have "filter (\<lambda>m. matches (fst m) (c # cs)) namedCharacterReferences
          = concat (map (\<lambda>X. if c = X then ?F else []) ?Xs)"
    by (simp only: namedCharacterReferences_def filter_concat list.map filter_names)
  also have "\<dots> = (if c \<in> set ?Xs then ?F else [])"
    by (rule concat_one_letter) simp
  also have "\<dots> = ?F"
    by (simp add: namesStartingWith_def)
  finally show ?thesis .
qed

lemma normalizeNewlines_id: "0x0D \<notin> set t \<Longrightarrow> normalizeNewlines t = t"
  by (induction t) auto

lemma normalizeNewlines_no_CR: "0x0D \<notin> set (normalizeNewlines t)"
  apply (induction t rule: normalizeNewlines.induct)
   apply simp
  apply (simp split: list.split)
  done

lemma normalizeNewlines_subset:
  "c \<in> set (normalizeNewlines t) \<Longrightarrow> c = 0x0A \<or> c \<in> set t"
proof (induction t rule: normalizeNewlines.induct)
  case 1
  then show ?case by simp
next
  case (2 x cs)
  show ?case
  proof (cases "x = 0x0D")
    case False
    then show ?thesis using 2 by auto
  next
    case True
    note cr = this
    show ?thesis
    proof (cases cs)
      case Nil
      then show ?thesis using 2(4) cr by simp
    next
      case (Cons d ds)
      show ?thesis
      proof (cases "d = 0x0A")
        case True
        then show ?thesis using 2(1) [OF cr Cons True] 2(4) cr Cons by auto
      next
        case False
        then show ?thesis using 2(2) [OF cr Cons False] 2(4) cr Cons by auto
      qed
    qed
  qed
qed

lemma decodeReferences_id: "0x26 \<notin> set t \<Longrightarrow> decodeReferences t = t"
  by (induction t) auto

lemma replace_NUL_id:
  "0 \<notin> set t \<Longrightarrow> map (\<lambda>c. if c = 0 then 0xFFFD else c) t = (t :: jsstring)"
  by (induction t) auto

lemma decodeReferences_amp: "decodeReferences (js ''&amp;'' @ r) = 0x26 # decodeReferences r"
  by (simp add: html_defs)

lemma decodeReferences_nbsp: "decodeReferences (js ''&nbsp;'' @ r) = 0xA0 # decodeReferences r"
  by (simp add: html_defs)

lemma decodeReferences_lt: "decodeReferences (js ''&lt;'' @ r) = 0x3C # decodeReferences r"
  by (simp add: html_defs)

lemma decodeReferences_gt: "decodeReferences (js ''&gt;'' @ r) = 0x3E # decodeReferences r"
  by (simp add: html_defs)

lemma decodeReferences_escapeText: "decodeReferences (escapeText t) = t"
proof (induction t)
  case Nil
  show ?case by (simp add: escapeText_def)
next
  case (Cons c cs)
  have "decodeReferences (escapeCharacter c @ escapeText cs) = c # cs"
    using Cons.IH decodeReferences_amp [of "escapeText cs"]
      decodeReferences_nbsp [of "escapeText cs"] decodeReferences_lt [of "escapeText cs"]
      decodeReferences_gt [of "escapeText cs"]
    by (simp add: escapeCharacter_def)
  thus ?case by (simp add: escapeText_def)
qed

lemma escapeCharacter_no_CR: "c \<noteq> 0x0D \<Longrightarrow> 0x0D \<notin> set (escapeCharacter c)"
  by (simp add: escapeCharacter_def js_def)

lemma escapeText_no_CR: "0x0D \<notin> set t \<Longrightarrow> 0x0D \<notin> set (escapeText t)"
  by (induction t) (simp_all add: escapeText_def escapeCharacter_no_CR)

text \<open>Decoding undoes the serialiser's escaping.\<close>

lemma decodeHTML_escapeText:
  assumes "0x0D \<notin> set t" and "0 \<notin> set t"
  shows "decodeHTML (escapeText t) = t"
proof -
  have "normalizeNewlines (escapeText t) = escapeText t"
    using assms(1) by (simp add: normalizeNewlines_id escapeText_no_CR)
  thus ?thesis
    using assms by (simp add: decodeHTML_def textareaValue_def textareaInnerHTML_def
        decodeReferences_escapeText normalizeNewlines_id replace_NUL_id)
qed

lemma decodeHTML_no_CR: "0x0D \<notin> set (decodeHTML x)"
  by (simp add: decodeHTML_def textareaValue_def normalizeNewlines_no_CR)

lemma decodeHTML_no_NUL: "0 \<notin> set (decodeHTML x)"
proof
  assume "0 \<in> set (decodeHTML x)"
  hence "(0 :: 16 word) = 0x0A \<or> 0 \<in> set (textareaInnerHTML x)"
    unfolding decodeHTML_def textareaValue_def by (rule normalizeNewlines_subset)
  thus False by (auto simp: textareaInnerHTML_def split: if_splits)
qed

text \<open>Text without an ampersand, a carriage return or U+0000 decodes to itself.\<close>

lemma decodeHTML_id:
  assumes "0x26 \<notin> set t" and "0x0D \<notin> set t" and "0 \<notin> set t"
  shows "decodeHTML t = t"
  using assms by (simp add: decodeHTML_def textareaValue_def textareaInnerHTML_def
      normalizeNewlines_id decodeReferences_id replace_NUL_id)

lemma parseText_id:
  assumes "0x26 \<notin> set t" and "0x0D \<notin> set t" and "0 \<notin> set t"
  shows "parseText t = t"
proof -
  have "filter (\<lambda>c. c \<noteq> 0) t = t"
    using assms(3) by (induction t) auto
  thus ?thesis
    using assms by (simp add: parseText_def normalizeNewlines_id decodeReferences_id)
qed

lemma escapeText_id: "plainText t \<Longrightarrow> escapeText t = t"
  by (induction t) (simp_all add: plainText_def escapeText_def escapeCharacter_def)

text \<open>What a button shows for an answer whose decoded text has no ampersand.\<close>

lemma parseText_decodeHTML:
  "0x26 \<notin> set (decodeHTML a) \<Longrightarrow> parseText (decodeHTML a) = decodeHTML a"
  by (simp add: parseText_id decodeHTML_no_CR decodeHTML_no_NUL)

lemma hasMarkup_no_lt: "0x3C \<notin> set t \<Longrightarrow> \<not> hasMarkup t"
  by (induction t rule: hasMarkup.induct) simp_all

text \<open>What a button gets for an answer whose decoded text has no ampersand and no \<open><\<close>.\<close>

lemma setInnerHTML_decodeHTML:
  "0x26 \<notin> set (decodeHTML a) \<Longrightarrow> 0x3C \<notin> set (decodeHTML a) \<Longrightarrow>
   setInnerHTML build (decodeHTML a) = Text (decodeHTML a)"
  by (simp add: setInnerHTML_def hasMarkup_no_lt parseText_decodeHTML)

section \<open>Facts about rendering\<close>

lemma foldl_appendOption:
  "foldl appendOption s cs = s\<lparr>categorySelect := categorySelect s @ map categoryOption cs\<rparr>"
  by (induction cs arbitrary: s) (simp_all add: appendOption_def)

lemma foldl_appendChild:
  "foldl (\<lambda>s' a. appendChild (f a) s') s xs
     = s\<lparr>answersContainer := answersContainer s @ map f xs\<rparr>"
  by (induction xs arbitrary: s) (simp_all add: appendChild_def)

lemma displayAnswers_eq:
  "displayAnswers build rnd q s =
     s\<lparr>answersContainer :=
         map (answerButton build (correct_answer q)
                (shuffleArray rnd (incorrect_answers q @ [correct_answer q])))
             (shuffleArray rnd (incorrect_answers q @ [correct_answer q]))\<rparr>"
  by (simp add: displayAnswers_def Let_def foldl_appendChild)

lemma mset_swap_array: "mset (swap i j xs) = mset xs"
  by (simp add: swap_def mset_swap)

lemma mset_shuffleFrom: "mset (shuffleFrom rnd k xs) = mset xs"
  by (induction k arbitrary: xs) (simp_all add: Let_def mset_swap_array)

lemma mset_shuffleArray: "mset (shuffleArray rnd xs) = mset xs"
  by (simp add: shuffleArray_def mset_shuffleFrom)

lemma displayQuestion_session:
  "currentQuestions (displayQuestion build now rnd s) = currentQuestions s
   \<and> questionIndex (displayQuestion build now rnd s) = questionIndex s
   \<and> score (displayQuestion build now rnd s) = score s"
  by (simp add: displayQuestion_def displayAnswers_eq Let_def updateProgress_def
      showResults_def updateHighScore_def updateHighScoreDisplay_def appendChild_def)

section \<open>Facts used to evaluate examples\<close>

lemma floor_milliseconds: "\<lfloor>(of_int a :: rat) / 1000\<rfloor> = a div 1000"
  using floor_divide_of_int_eq [of a 1000, where ?'a = rat] by simp

lemma score_of_elapsed:
  "scoreForThisQuestion (timeTaken now start) = max (1000 - 10 * ((now - start) div 1000)) 0"
  by (simp add: scoreForThisQuestion_def baseScorePerQuestion_def penaltyPerSecond_def
      timeTaken_def floor_milliseconds del: of_int_diff)

lemma shuffleFrom_numeral:
  "shuffleFrom rnd (numeral n) array =
     (let i = numeral n; j = nat \<lfloor>rnd i * (of_nat i + 1)\<rfloor>
      in shuffleFrom rnd (pred_numeral n) (swap i j array))"
  by (simp add: numeral_eq_Suc)

lemma list_update_Cons_numeral: "(x # xs)[numeral n := y] = x # xs[pred_numeral n := y]"
  by (simp add: numeral_eq_Suc)

lemmas page_defs = fetchQuestions_def always_def zeros_def displayQuestion_def displayAnswers_eq
  shuffleArray_def shuffleFrom_numeral list_update_Cons_numeral
  swap_def answerButton_def createElement_def updateProgress_def loadedPage_def
  click_def selectAnswer_def disableButtons_def findCorrectButton_def isCorrectSelection_def
  innerHTML_def updateButton_def classList_add_def setTimeout_def updateCurrentScore_def
  score_of_elapsed
  toString_def digits.simps digit_def Let_def

lemma shuffleArray_zeros4: "shuffleArray zeros [a, b, c, d] = [b, c, d, a]"
  by (simp add: shuffleArray_def shuffleFrom_numeral swap_def zeros_def Let_def
      list_update_Cons_numeral)

lemma of_char_word_inject: "(of_char c :: 16 word) = of_char d \<longleftrightarrow> c = d"
proof
  assume "(of_char c :: 16 word) = of_char d"
  hence "(of_nat (of_char c) :: 16 word) = of_nat (of_char d)"
    by (simp only: of_nat_of_char)
  hence "take_bit 16 (of_char c :: nat) = take_bit 16 (of_char d :: nat)"
    by (simp add: word_of_nat_eq_iff)
  moreover have "take_bit 16 (of_char e :: nat) = of_char e" for e
  proof -
    have "(of_char e :: nat) < 256" by (cases e) simp
    hence "(of_char e :: nat) < 65536" by linarith
    thus ?thesis by (simp add: take_bit_nat_eq_self)
  qed
  ultimately show "c = d" by simp
qed simp

lemma js_inject: "js s = js t \<longleftrightarrow> s = t"
  unfolding js_def
  by (rule inj_map_eq_map) (simp add: inj_on_def of_char_word_inject)

lemma example_decodeHTML:
  "decodeHTML (js ''Which company was nicknamed Ma Bell?'') = js ''Which company was nicknamed Ma Bell?''"
  "decodeHTML (js ''Verizon'') = js ''Verizon''"
  "decodeHTML (js ''Sprint'') = js ''Sprint''"
  "decodeHTML (js ''T-Mobile'') = js ''T-Mobile''"
  "decodeHTML (js ''AT&amp;T'') = js ''AT&T''"
  "decodeHTML (js ''2+2=?'') = js ''2+2=?''"
  "decodeHTML (js ''3'') = js ''3''"
  "decodeHTML (js ''5'') = js ''5''"
  "decodeHTML (js ''22'') = js ''22''"
  "decodeHTML (js ''4'') = js ''4''"
  "decodeHTML (js ''Which character reference stands for the less-than sign?'') = js ''Which character reference stands for the less-than sign?''"
  "decodeHTML (js ''&amp;gt;'') = js ''&gt;''"
  "decodeHTML (js ''&gt;'') = js ''>''"
  "decodeHTML (js ''&amp;amp;'') = js ''&amp;''"
  "decodeHTML (js ''&amp;'') = js ''&''"
  "decodeHTML (js ''&amp;quot;'') = js ''&quot;''"
  "decodeHTML (js [CHR 0x22]) = js [CHR 0x22]"
  "decodeHTML (js ''&amp;lt;'') = js ''&lt;''"
  "decodeHTML (js ''&lt;'') = js ''<''"
  by (simp_all add: html_defs)

lemma example_setInnerHTML:
  "setInnerHTML build (js ''Which company was nicknamed Ma Bell?'') = Text (js ''Which company was nicknamed Ma Bell?'')"
  "setInnerHTML build (js ''Verizon'') = Text (js ''Verizon'')"
  "setInnerHTML build (js ''Sprint'') = Text (js ''Sprint'')"
  "setInnerHTML build (js ''T-Mobile'') = Text (js ''T-Mobile'')"
  "setInnerHTML build (js ''AT&T'') = Text (js ''AT&T'')"
  "setInnerHTML build (js ''2+2=?'') = Text (js ''2+2=?'')"
  "setInnerHTML build (js ''3'') = Text (js ''3'')"
  "setInnerHTML build (js ''5'') = Text (js ''5'')"
  "setInnerHTML build (js ''22'') = Text (js ''22'')"
  "setInnerHTML build (js ''4'') = Text (js ''4'')"
  "setInnerHTML build (js ''Which character reference stands for the less-than sign?'') = Text (js ''Which character reference stands for the less-than sign?'')"
  "setInnerHTML build (js ''&gt;'') = Text (js ''>'')"
  "setInnerHTML build (js ''&amp;'') = Text (js ''&'')"
  "setInnerHTML build (js ''&quot;'') = Text (js [CHR 0x22])"
  "setInnerHTML build (js ''&lt;'') = Text (js ''<'')"
  by (simp_all add: html_defs)

lemma example_escapeText:
  "escapeText (js ''Which company was nicknamed Ma Bell?'') = js ''Which company was nicknamed Ma Bell?''"
  "escapeText (js ''Verizon'') = js ''Verizon''"
  "escapeText (js ''Sprint'') = js ''Sprint''"
  "escapeText (js ''T-Mobile'') = js ''T-Mobile''"
  "escapeText (js ''AT&T'') = js ''AT&amp;T''"
  "escapeText (js ''2+2=?'') = js ''2+2=?''"
  "escapeText (js ''3'') = js ''3''"
  "escapeText (js ''5'') = js ''5''"
  "escapeText (js ''22'') = js ''22''"
  "escapeText (js ''4'') = js ''4''"
  "escapeText (js ''Which character reference stands for the less-than sign?'') = js ''Which character reference stands for the less-than sign?''"
  "escapeText (js ''>'') = js ''&gt;''"
  "escapeText (js ''&'') = js ''&amp;''"
  "escapeText (js [CHR 0x22]) = js [CHR 0x22]"
  "escapeText (js ''<'') = js ''&lt;''"
  by (simp_all add: html_defs)

lemmas example_texts = example_decodeHTML example_setInnerHTML example_escapeText js_inject

section \<open>Facts about a submission\<close>

lemma contents_disableButtons:
  "i < length (answersContainer s) \<Longrightarrow>
   contents (answersContainer (disableButtons s) ! i) = contents (answersContainer s ! i)"
  by (simp add: disableButtons_def)

lemma isCorrectSelection_disableButtons:
  "i < length (answersContainer s) \<Longrightarrow>
   isCorrectSelection (answersContainer (disableButtons s) ! i) c
     = isCorrectSelection (answersContainer s ! i) c"
  by (simp add: isCorrectSelection_def innerHTML_def contents_disableButtons)

lemma score_disableButtons: "score (disableButtons s) = score s"
  by (simp add: disableButtons_def)

lemma score_selectAnswer:
  "i < length (answersContainer s) \<Longrightarrow>
   score (pageOf (selectAnswer now i c A s))
     = score s + (if isCorrectSelection (answersContainer s ! i) c
                  then scoreForThisQuestion (timeTaken now (questionStartTime s)) else 0)"
  by (simp add: selectAnswer_def Let_def isCorrectSelection_disableButtons setTimeout_def
      updateCurrentScore_def updateButton_def score_disableButtons split: option.split)

lemma resultContainer_selectAnswer:
  "i < length (answersContainer s) \<Longrightarrow> isCorrectSelection (answersContainer s ! i) c \<Longrightarrow>
   selectAnswer now i c A s
     = Returned (setTimeout (updateCurrentScore
         ((updateButton i (classList_add (js ''correct''))
            ((disableButtons s)\<lparr>score := score s
               + scoreForThisQuestion (timeTaken now (questionStartTime s))\<rparr>))
          \<lparr>resultContainer := js ''Correct! + ''
             @ toString (scoreForThisQuestion (timeTaken now (questionStartTime s)))
             @ js '' Points''\<rparr>)))"
  by (simp add: selectAnswer_def Let_def isCorrectSelection_disableButtons score_disableButtons)

lemma score_step: "score (step build s e) = score s + added s e"
proof (cases e)
  case (Click i now)
  then show ?thesis
    by (simp add: click_def score_selectAnswer split: option.split listener.split)
next
  case (Timeout now rnd)
  then show ?thesis
    by (simp add: timeoutCallback_def displayQuestion_session)
next
  case (Restart r)
  then show ?thesis
    by (cases r) (simp_all add: restartQuiz_def fetchCategories_def foldl_appendOption)
qed

text \<open>Nothing but the passing branch of line 143 changes the score.\<close>

lemma score_run: "score (run build s es) = score s + totalAdded build s es"
  unfolding run_def by (induction es arbitrary: s) (simp_all add: score_step)

section \<open>The score of one question\<close>

text \<open>
  C1. A submission is a call of \<open>selectAnswer\<close> for the button at position \<open>i\<close>, at time
  \<open>now\<close>; the elapsed time \<open>t\<close> is \<open>timeTaken now (questionStartTime s)\<close> seconds. When
  the selection passes the test of line 143, the points awarded, the growth of the score,
  are \<open>max (1000 - 10 * floor t) 0\<close>, where \<open>floor t\<close> is the quotient of the elapsed
  milliseconds by 1000, and they are shown in the feedback line. They are 1000 at 0
  seconds and 0 at 100 and at 150 seconds. No submission awards a negative number of
  points.
\<close>

theorem selectAnswer_awards:
  "i < length (answersContainer s) \<Longrightarrow>
   (isCorrectSelection (answersContainer s ! i) c \<longrightarrow>
      score (pageOf (selectAnswer now i c A s))
        = score s + max (1000 - 10 * \<lfloor>timeTaken now (questionStartTime s)\<rfloor>) 0
      \<and> resultContainer (pageOf (selectAnswer now i c A s))
          = js ''Correct! + ''
            @ toString (max (1000 - 10 * \<lfloor>timeTaken now (questionStartTime s)\<rfloor>) 0)
            @ js '' Points''
      \<and> (now = questionStartTime s \<longrightarrow>
           score (pageOf (selectAnswer now i c A s)) = score s + 1000)
      \<and> (now = questionStartTime s + 100000 \<longrightarrow>
           score (pageOf (selectAnswer now i c A s)) = score s)
      \<and> (now = questionStartTime s + 150000 \<longrightarrow>
           score (pageOf (selectAnswer now i c A s)) = score s))
   \<and> \<lfloor>timeTaken now (questionStartTime s)\<rfloor> = (now - questionStartTime s) div 1000
   \<and> score s \<le> score (pageOf (selectAnswer now i c A s))"
proof -
  assume i: "i < length (answersContainer s)"
  let ?t = "timeTaken now (questionStartTime s)"
  have formula: "scoreForThisQuestion ?t = max (1000 - 10 * \<lfloor>?t\<rfloor>) 0"
    by (simp add: scoreForThisQuestion_def baseScorePerQuestion_def penaltyPerSecond_def)
  have elapsed: "\<lfloor>?t\<rfloor> = (now - questionStartTime s) div 1000"
    unfolding timeTaken_def by (rule floor_milliseconds)
  have sc: "score (pageOf (selectAnswer now i c A s))
              = score s + (if isCorrectSelection (answersContainer s ! i) c
                           then max (1000 - 10 * \<lfloor>?t\<rfloor>) 0 else 0)"
    using score_selectAnswer [OF i, of now c A] formula by simp
  have rc: "resultContainer (pageOf (selectAnswer now i c A s))
              = js ''Correct! + '' @ toString (max (1000 - 10 * \<lfloor>?t\<rfloor>) 0) @ js '' Points''"
    if "isCorrectSelection (answersContainer s ! i) c"
    using resultContainer_selectAnswer [OF i that, of now A] formula
    by (simp add: setTimeout_def updateCurrentScore_def)
  show ?thesis
    using sc rc elapsed by auto
qed

theorem selectAnswer_awards_witness:
  "score (pageOf (selectAnswer 7300 2 (js ''4'') [js ''5'', js ''22'', js ''4'', js ''3'']
             (sumPage noElements))) = 980
   \<and> resultContainer (pageOf (selectAnswer 7300 2 (js ''4'') [js ''5'', js ''22'', js ''4'', js ''3'']
             (sumPage noElements))) = js ''Correct! + 980 Points''
   \<and> score (pageOf (selectAnswer 5000 2 (js ''4'') [js ''5'', js ''22'', js ''4'', js ''3'']
             (sumPage noElements))) = 1000
   \<and> score (pageOf (selectAnswer 105000 2 (js ''4'') [js ''5'', js ''22'', js ''4'', js ''3'']
             (sumPage noElements))) = 0
   \<and> score (pageOf (selectAnswer 155000 2 (js ''4'') [js ''5'', js ''22'', js ''4'', js ''3'']
             (sumPage noElements))) = 0"
proof -
  let ?A = "[js ''5'', js ''22'', js ''4'', js ''3'']"
  let ?s = "sumPage noElements"
  have buttons: "map displayed (answersContainer ?s) = ?A"
    by (simp add: sumPage_def sumQuestion_def fetchQuestions_def always_def displayQuestion_def
        displayAnswers_eq updateProgress_def Let_def shuffleArray_zeros4 answerButton_def
        createElement_def displayed_def html_defs)
  have i: "2 < length (answersContainer ?s)"
    using arg_cong [OF buttons, of length] by simp
  have ok: "isCorrectSelection (answersContainer ?s ! 2) (js ''4'')"
    by (simp add: sumPage_def sumQuestion_def fetchQuestions_def always_def displayQuestion_def
        displayAnswers_eq updateProgress_def Let_def shuffleArray_zeros4 answerButton_def
        createElement_def isCorrectSelection_def innerHTML_def html_defs)
  have start: "questionStartTime ?s = 5000" and zero: "score ?s = 0"
    by (simp_all add: sumPage_def sumQuestion_def fetchQuestions_def always_def
        displayQuestion_def displayAnswers_eq updateProgress_def Let_def loadedPage_def)
  have fl: "\<lfloor>timeTaken 7300 5000\<rfloor> = 2"
    unfolding timeTaken_def floor_milliseconds by simp
  have t: "toString 980 = js ''980''"
    by (simp add: toString_def digits.simps digit_def js_def)
  show ?thesis
    using selectAnswer_awards [OF i, of "js ''4''" 7300 ?A]
      selectAnswer_awards [OF i, of "js ''4''" 5000 ?A]
      selectAnswer_awards [OF i, of "js ''4''" 105000 ?A]
      selectAnswer_awards [OF i, of "js ''4''" 155000 ?A]
      ok start zero fl t
    by (simp add: js_def)
qed

section \<open>The high score\<close>

text \<open>
  C2. After \<open>updateHighScore\<close> the high score is the maximum of the previous high score
  and the session's score. A score that does not exceed the high score (a tie included)
  leaves the page, and with it the stored item, as it was; a greater score is assigned and
  written to storage. The high score never decreases.
\<close>

theorem updateHighScore_max:
  "highScore (updateHighScore s) = max (highScore s) (score s)
   \<and> (score s \<le> highScore s \<longrightarrow> updateHighScore s = s)
   \<and> (highScore s < score s \<longrightarrow>
        highScore (updateHighScore s) = score s
        \<and> localStorage (updateHighScore s) = Some (toString (score s)))
   \<and> highScore s \<le> highScore (updateHighScore s)"
  by (simp add: updateHighScore_def updateHighScoreDisplay_def)

theorem updateHighScore_max_witness:
  "highScore (updateHighScore (loadedPage\<lparr>highScore := 500, score := 500\<rparr>)) = 500
   \<and> updateHighScore (loadedPage\<lparr>highScore := 500, score := 500\<rparr>)
       = loadedPage\<lparr>highScore := 500, score := 500\<rparr>
   \<and> highScore (updateHighScore (loadedPage\<lparr>highScore := 500, score := 501\<rparr>)) = 501
   \<and> localStorage (updateHighScore (loadedPage\<lparr>highScore := 500, score := 501\<rparr>))
       = Some (js ''501'')"
proof -
  have d: "toString 501 = js ''501''"
    by (simp add: toString_def digits.simps digit_def js_def)
  show ?thesis
    using updateHighScore_max [of "loadedPage\<lparr>highScore := 500, score := 500\<rparr>"]
      updateHighScore_max [of "loadedPage\<lparr>highScore := 500, score := 501\<rparr>"] d
    by simp
qed

section \<open>The session\<close>

lemma findIndex_found: "\<exists>x \<in> set xs. P x \<Longrightarrow> findIndex P xs \<noteq> None"
  by (induction xs) auto

lemma findIndex_less: "findIndex P xs = Some j \<Longrightarrow> j < length xs"
  by (induction xs arbitrary: j) (auto split: if_splits)

lemma findCorrectButton_eq:
  "findCorrectButton c A bs =
     (if \<exists>a \<in> set A. decodeHTML a = decodeHTML c
      then findIndex (\<lambda>b. innerHTML b = decodeHTML c) bs else None)"
proof -
  have "foldl (\<lambda>cb a. if decodeHTML a = decodeHTML c then F else cb) acc A
          = (if \<exists>a \<in> set A. decodeHTML a = decodeHTML c then F else acc)"
    for F acc :: "nat option"
    by (induction A arbitrary: acc) auto
  from this [of "findIndex (\<lambda>b. innerHTML b = decodeHTML c) bs" None]
  show ?thesis unfolding findCorrectButton_def .
qed

lemma innerHTML_answerButton:
  assumes "plainText (decodeHTML a)"
  shows "innerHTML (answerButton build c A a) = decodeHTML a"
proof -
  have "0x26 \<notin> set (decodeHTML a)" and "0x3C \<notin> set (decodeHTML a)"
    using assms by (auto simp: plainText_def)
  hence "setInnerHTML build (decodeHTML a) = Text (decodeHTML a)"
    by (rule setInnerHTML_decodeHTML)
  thus ?thesis
    using assms by (simp add: innerHTML_def answerButton_def createElement_def escapeText_id)
qed

lemma innerHTML_disabled: "innerHTML (b\<lparr>disabled := True\<rparr>) = innerHTML b"
  by (simp add: innerHTML_def)

text \<open>
  The lookup of lines 136-141 finds a button when the decoded correct answer is text that
  the serialiser leaves as it is.
\<close>

lemma findCorrectButton_found:
  assumes "answersContainer s = map (answerButton build c A) A" and "c \<in> set A"
    and "plainText (decodeHTML c)"
  shows "findCorrectButton c A (answersContainer (disableButtons s)) \<noteq> None"
proof -
  have "answerButton build c A c\<lparr>disabled := True\<rparr> \<in> set (answersContainer (disableButtons s))"
    using assms(1,2) by (auto simp: disableButtons_def answerButton_def createElement_def)
  moreover have "innerHTML (answerButton build c A c\<lparr>disabled := True\<rparr>) = decodeHTML c"
    using assms(3) by (simp add: innerHTML_disabled innerHTML_answerButton)
  ultimately have "findIndex (\<lambda>b. innerHTML b = decodeHTML c)
                     (answersContainer (disableButtons s)) \<noteq> None"
    by (intro findIndex_found) blast
  thus ?thesis
    using assms(2) by (auto simp: findCorrectButton_eq)
qed

lemma selectAnswer_returns:
  assumes "answersContainer s = map (answerButton build c A) A" and "c \<in> set A"
    and "plainText (decodeHTML c)"
  shows "\<exists>s'. selectAnswer t i c A s = Returned s' \<and> timeouts s' = Suc (timeouts s)
            \<and> currentQuestions s' = currentQuestions s \<and> questionIndex s' = questionIndex s"
proof -
  have "findCorrectButton c A (answersContainer (disableButtons s)) \<noteq> None"
    using assms by (rule findCorrectButton_found)
  then obtain j where "findCorrectButton c A (answersContainer (disableButtons s)) = Some j"
    by auto
  thus ?thesis
    by (simp add: selectAnswer_def Let_def setTimeout_def updateCurrentScore_def
        updateButton_def disableButtons_def)
qed

lemma displayQuestion_awaiting:
  assumes "questionIndex s < length (currentQuestions s)" and "timeouts s = 0"
  shows "awaiting build (currentQuestions s) (questionIndex s) (displayQuestion build now rnd s)"
  using assms
  by (auto simp: awaiting_def displayQuestion_def Let_def displayAnswers_eq updateProgress_def
      intro!: exI [of _ "shuffleArray rnd (incorrect_answers (currentQuestions s ! questionIndex s)
                            @ [correct_answer (currentQuestions s ! questionIndex s)])"]
      simp: mset_shuffleArray)

lemma displayQuestion_over:
  assumes "questionIndex s = length (currentQuestions s)" and "timeouts s = 0"
  shows "over (currentQuestions s) (displayQuestion build now rnd s)"
  using assms
  by (simp add: over_def finished_def displayQuestion_def showResults_def appendChild_def
      updateHighScore_def updateHighScoreDisplay_def)

lemma awaiting_not_finished: "awaiting build qs k s \<Longrightarrow> \<not> finished s"
proof
  assume a: "awaiting build qs k s" and f: "finished s"
  then obtain A where m: "mset A = mset (incorrect_answers (qs ! k) @ [correct_answer (qs ! k)])"
    and b: "answersContainer s = map (answerButton build (correct_answer (qs ! k)) A) A"
    by (auto simp: awaiting_def)
  from m have "A \<noteq> []" by auto
  then obtain a as where "A = a # as" by (cases A) auto
  with b f show False
    by (auto simp: finished_def restartButton_def answerButton_def createElement_def)
qed

text \<open>
  One round on a question that awaits its answer, when the decoded correct answer is
  plain text: the index advances by one, and the next question awaits its answer or,
  after the last question, the session is over.
\<close>

lemma submit_advances:
  assumes "awaiting build qs k s" and "plainText (decodeHTML (correct_answer (qs ! k)))"
    and "i \<le> length (incorrect_answers (qs ! k))"
  shows "if Suc k < length qs then awaiting build qs (Suc k) (submit build s (i, t, t', rnd))
         else over qs (submit build s (i, t, t', rnd))"
proof -
  let ?c = "correct_answer (qs ! k)"
  from assms(1) obtain A where m: "mset A = mset (incorrect_answers (qs ! k) @ [?c])"
    and b: "answersContainer s = map (answerButton build ?c A) A"
    and s: "currentQuestions s = qs" "questionIndex s = k" "k < length qs" "timeouts s = 0"
    by (auto simp: awaiting_def)
  from m have "set A = set (incorrect_answers (qs ! k) @ [?c])" by (rule mset_eq_setD)
  hence cA: "?c \<in> set A" by simp
  from m have "length A = length (incorrect_answers (qs ! k) @ [?c])" by (rule mset_eq_length)
  hence iA: "i < length A" using assms(3) by simp
  obtain s' where r: "selectAnswer t i ?c A s = Returned s'" and s': "timeouts s' = Suc 0"
    "currentQuestions s' = qs" "questionIndex s' = k"
    using selectAnswer_returns [OF b cA assms(2), of t i] s by auto
  have "click t i s = Returned s'"
    using b iA r by (simp add: click_def answerButton_def createElement_def)
  hence sub: "submit build s (i, t, t', rnd)
                = (displayQuestion build t' rnd (s'\<lparr>timeouts := 0, questionIndex := Suc k\<rparr>))
                    \<lparr>resultContainer := []\<rparr>"
    using s' by (simp add: timeoutCallback_def)
  let ?s = "s'\<lparr>timeouts := 0, questionIndex := Suc k\<rparr>"
  show ?thesis
  proof (cases "Suc k < length qs")
    case True
    have "awaiting build (currentQuestions ?s) (questionIndex ?s) (displayQuestion build t' rnd ?s)"
      using True s' by (intro displayQuestion_awaiting) simp_all
    thus ?thesis using True s' sub by (simp add: awaiting_def)
  next
    case False
    hence "Suc k = length qs" using s(3) by simp
    hence "over (currentQuestions ?s) (displayQuestion build t' rnd ?s)"
      using s' by (intro displayQuestion_over) simp_all
    thus ?thesis using False s' sub by (simp add: over_def finished_def)
  qed
qed
lemma rounds_advance:
  assumes "\<forall>q \<in> set qs. plainText (decodeHTML (correct_answer q))"
    and "awaiting build qs k s"
    and "k + length rs \<le> length qs"
    and "\<forall>m < length rs. fst (rs ! m) \<le> length (incorrect_answers (qs ! (k + m)))"
  shows "if k + length rs < length qs
         then awaiting build qs (k + length rs) (foldl (submit build) s rs)
         else over qs (foldl (submit build) s rs)"
  using assms(2-4)
proof (induction rs arbitrary: k s)
  case Nil
  then show ?case by (simp add: awaiting_def)
next
  case (Cons r rs)
  obtain i t t' rnd where r: "r = (i, t, t', rnd)" by (cases r) auto
  have k: "k < length qs" using Cons.prems(1) by (simp add: awaiting_def)
  have plain: "plainText (decodeHTML (correct_answer (qs ! k)))"
    using assms(1) k by simp
  have i: "i \<le> length (incorrect_answers (qs ! k))"
    using Cons.prems(3) r by force
  note adv = submit_advances [OF Cons.prems(1) plain i, of t t' rnd]
  show ?case
  proof (cases "Suc k < length qs")
    case True
    hence a: "awaiting build qs (Suc k) (submit build s r)" using adv r by (auto split: if_splits)
    have l: "Suc k + length rs \<le> length qs" using Cons.prems(2) by simp
    have v: "\<forall>m < length rs. fst (rs ! m) \<le> length (incorrect_answers (qs ! (Suc k + m)))"
    proof (intro allI impI)
      fix m assume "m < length rs"
      hence "fst ((r # rs) ! Suc m) \<le> length (incorrect_answers (qs ! (k + Suc m)))"
        using Cons.prems(3) by (metis Suc_less_eq length_Cons)
      thus "fst (rs ! m) \<le> length (incorrect_answers (qs ! (Suc k + m)))" by simp
    qed
    from Cons.IH [OF a l v] show ?thesis by (auto split: if_splits)
  next
    case False
    moreover have "k + Suc (length rs) \<le> length qs" using Cons.prems(2) by simp
    ultimately have "length rs = 0" by linarith
    hence "rs = []" by simp
    thus ?thesis using adv r False by (auto split: if_splits)
  qed
qed

text \<open>
  A session over questions whose decoded correct answers are plain text: after \<open>n\<close>
  rounds the index is \<open>n\<close>, and the results are shown after the last round and not
  before. Every round clicks one of the choices of the question on display.
\<close>

lemma session_progress:
  assumes "net (requestUrl amount category difficulty) = Fulfilled qs"
    and "timeouts s = 0"
    and "\<forall>q \<in> set qs. plainText (decodeHTML (correct_answer q))"
    and "length rs \<le> length qs"
    and "\<forall>m < length rs. fst (rs ! m) \<le> length (incorrect_answers (qs ! m))"
  shows "questionIndex
           (foldl (submit build) (fetchQuestions build amount category difficulty net now rnd s) rs)
           = length rs
         \<and> (finished
              (foldl (submit build) (fetchQuestions build amount category difficulty net now rnd s) rs)
              \<longleftrightarrow> length rs = length qs)"
proof (cases "qs = []")
  case True
  hence "rs = []" using assms(4) by simp
  thus ?thesis
    using True assms(1)
    by (simp add: fetchQuestions_def displayQuestion_def showResults_def appendChild_def
        updateHighScore_def updateHighScoreDisplay_def finished_def)
next
  case False
  let ?s0 = "s\<lparr>currentQuestions := qs, questionIndex := 0, score := 0\<rparr>"
  have "awaiting build (currentQuestions ?s0) (questionIndex ?s0) (displayQuestion build now rnd ?s0)"
    using False assms(2) by (intro displayQuestion_awaiting) simp_all
  hence a: "awaiting build qs 0 (fetchQuestions build amount category difficulty net now rnd s)"
    using assms(1) by (simp add: fetchQuestions_def)
  have v: "\<forall>m < length rs. fst (rs ! m) \<le> length (incorrect_answers (qs ! (0 + m)))"
    using assms(5) by simp
  have l: "0 + length rs \<le> length qs" using assms(4) by simp
  note adv = rounds_advance [OF assms(3) a l v]
  show ?thesis
  proof (cases "length rs < length qs")
    case True
    hence a: "awaiting build qs (length rs)
             (foldl (submit build) (fetchQuestions build amount category difficulty net now rnd s) rs)"
      using adv by (auto split: if_splits)
    have "questionIndex
            (foldl (submit build) (fetchQuestions build amount category difficulty net now rnd s) rs)
            = length rs"
      using a by (simp add: awaiting_def)
    thus ?thesis
      using True awaiting_not_finished [OF a] by simp
  next
    case False
    hence "over qs
             (foldl (submit build) (fetchQuestions build amount category difficulty net now rnd s) rs)"
      using adv by (auto split: if_splits)
    thus ?thesis
      using False assms(4) by (auto simp: over_def)
  qed
qed

text \<open>A page without pending timeout and without enabled button does not change any more.\<close>

lemma step_stuck:
  "timeouts s = 0 \<Longrightarrow> list_all disabled (answersContainer s) \<Longrightarrow> step build s e = s"
  by (cases e)
    (auto simp: click_def list_all_length finished_def restartButton_def createElement_def)

lemma run_stuck:
  "timeouts s = 0 \<Longrightarrow> list_all disabled (answersContainer s) \<Longrightarrow> run build s es = s"
  unfolding run_def by (induction es) (simp_all add: step_stuck)

text \<open>
  C3 at a session over the one question \<open>ampersandQuestion\<close>. The submission of the
  wrong answer \<open>Sprint\<close> throws before the timeout is set: after it and the delay, and
  after any further clicks and timeouts, the index is still 0, not 1, every answer
  button is disabled and the results are not shown.
\<close>

theorem session_stuck:
  "questionIndex (run build (bellPage build) (Click 0 7300 # Timeout 10300 zeros # es)) = 0
   \<and> \<not> finished (run build (bellPage build) (Click 0 7300 # Timeout 10300 zeros # es))
   \<and> list_all disabled
        (answersContainer (run build (bellPage build) (Click 0 7300 # Timeout 10300 zeros # es)))
   \<and> timeouts (run build (bellPage build) (Click 0 7300 # Timeout 10300 zeros # es)) = 0
   \<and> length (currentQuestions
                (run build (bellPage build) (Click 0 7300 # Timeout 10300 zeros # es))) = 1"
proof -
  let ?s = "pageOf (click 7300 0 (bellPage build))"
  have t: "timeouts ?s = 0"
    by (simp add: bellPage_def ampersandQuestion_def page_defs example_texts)
  have d: "list_all disabled (answersContainer ?s)"
    by (simp add: bellPage_def ampersandQuestion_def page_defs example_texts)
  have i: "questionIndex ?s = 0"
    by (simp add: bellPage_def ampersandQuestion_def page_defs example_texts)
  have k: "length (currentQuestions ?s) = 1"
    by (simp add: bellPage_def ampersandQuestion_def page_defs example_texts)
  have f: "\<not> finished ?s"
    by (simp add: finished_def restartButton_def bellPage_def ampersandQuestion_def page_defs
        example_texts)
  have "run build (bellPage build) (Click 0 7300 # Timeout 10300 zeros # es)
          = run build (step build ?s (Timeout 10300 zeros)) es"
    by (simp add: run_def)
  also have "\<dots> = run build ?s es"
    using t by simp
  also have "\<dots> = ?s"
    using t d by (rule run_stuck)
  finally show ?thesis
    using t d i k f by simp
qed

section \<open>The displayed choices\<close>

lemma count_shuffled:
  "length (filter P (map g (shuffleArray rnd xs))) = length (filter (\<lambda>a. P (g a)) xs)"
proof -
  have "length (filter P (map g (shuffleArray rnd xs)))
          = size (filter_mset (\<lambda>a. P (g a)) (mset (shuffleArray rnd xs)))"
    by (simp add: filter_map comp_def flip: mset_filter)
  also have "\<dots> = length (filter (\<lambda>a. P (g a)) xs)"
    by (simp add: mset_shuffleArray flip: mset_filter)
  finally show ?thesis .
qed

lemma isCorrectSelection_answerButton:
  assumes "0x26 \<notin> set (decodeHTML a)" and "0x3C \<notin> set (decodeHTML a)"
  shows "isCorrectSelection (answerButton build c A a) c' \<longleftrightarrow> decodeHTML a = decodeHTML c'"
  using assms
  by (simp add: isCorrectSelection_def innerHTML_def answerButton_def createElement_def
      setInnerHTML_decodeHTML decodeHTML_escapeText decodeHTML_no_CR decodeHTML_no_NUL)

text \<open>
  The shuffle is a permutation. When no decoded answer contains an ampersand or a \<open><\<close>,
  the displayed choices are the decoded answers, whatever the random choices, and if in
  addition no incorrect answer decodes to the text of the correct one, exactly one
  displayed choice passes the test of line 143.
\<close>

lemma displayAnswers_plain:
  assumes "\<forall>a \<in> set (incorrect_answers q @ [correct_answer q]).
             0x26 \<notin> set (decodeHTML a) \<and> 0x3C \<notin> set (decodeHTML a)"
  shows "mset (map displayed (answersContainer (displayAnswers build rnd q s)))
           = mset (map decodeHTML (incorrect_answers q @ [correct_answer q]))"
    and "\<forall>a \<in> set (incorrect_answers q). decodeHTML a \<noteq> decodeHTML (correct_answer q) \<Longrightarrow>
         length (filter (\<lambda>b. isCorrectSelection b (correct_answer q))
                   (answersContainer (displayAnswers build rnd q s))) = 1"
proof -
  let ?xs = "incorrect_answers q @ [correct_answer q]"
  let ?A = "shuffleArray rnd ?xs"
  let ?c = "correct_answer q"
  have ac: "answersContainer (displayAnswers build rnd q s) = map (answerButton build ?c ?A) ?A"
    by (simp add: displayAnswers_eq)
  have shown: "map displayed (answersContainer (displayAnswers build rnd q s))
                 = map (\<lambda>a. textContent (setInnerHTML build (decodeHTML a))) ?A"
    by (simp add: ac displayed_def answerButton_def createElement_def comp_def)
  have "mset (map (\<lambda>a. textContent (setInnerHTML build (decodeHTML a))) ?A)
          = image_mset (\<lambda>a. textContent (setInnerHTML build (decodeHTML a))) (mset ?A)"
    by (rule mset_map)
  also have "\<dots> = image_mset (\<lambda>a. textContent (setInnerHTML build (decodeHTML a))) (mset ?xs)"
    by (simp only: mset_shuffleArray)
  also have "\<dots> = mset (map (\<lambda>a. textContent (setInnerHTML build (decodeHTML a))) ?xs)"
    by (rule mset_map [symmetric])
  also have "map (\<lambda>a. textContent (setInnerHTML build (decodeHTML a))) ?xs = map decodeHTML ?xs"
    using assms by (intro map_cong refl) (auto simp: setInnerHTML_decodeHTML)
  finally show "mset (map displayed (answersContainer (displayAnswers build rnd q s)))
                  = mset (map decodeHTML ?xs)"
    by (simp only: shown)
  assume differ: "\<forall>a \<in> set (incorrect_answers q). decodeHTML a \<noteq> decodeHTML ?c"
  have "length (filter (\<lambda>b. isCorrectSelection b ?c) (answersContainer (displayAnswers build rnd q s)))
          = length (filter (\<lambda>a. isCorrectSelection (answerButton build ?c ?A a) ?c) ?xs)"
    unfolding ac by (rule count_shuffled)
  also have "filter (\<lambda>a. isCorrectSelection (answerButton build ?c ?A a) ?c) ?xs
               = filter (\<lambda>a. decodeHTML a = decodeHTML ?c) ?xs"
    using assms by (intro filter_cong refl) (auto simp: isCorrectSelection_answerButton)
  also have "\<dots> = [?c]"
    using differ by (simp add: filter_empty_conv)
  finally show "length (filter (\<lambda>b. isCorrectSelection b ?c)
                  (answersContainer (displayAnswers build rnd q s))) = 1"
    by simp
qed

text \<open>
  C4 at the question \<open>entityQuestion\<close>, whose four answers are different and decode to
  \<open>&gt;\<close>, \<open>&amp;\<close>, \<open>&quot;\<close> and \<open>&lt;\<close>. Line 117 assigns the decoded text to
  \<open>innerHTML\<close>, which decodes it once more: the buttons display \<open>&\<close>, the quotation
  mark, \<open><\<close> and \<open>>\<close>. The displayed choices are not the decoded answers, and no
  displayed choice passes the test of a correct selection, not even the one made from
  the correct answer.
\<close>

theorem displayAnswers_decodes_twice:
  "map decodeHTML (incorrect_answers entityQuestion @ [correct_answer entityQuestion])
     = [js ''&gt;'', js ''&amp;'', js ''&quot;'', js ''&lt;'']
   \<and> map displayed (answersContainer (displayAnswers build zeros entityQuestion s))
       = [js ''&'', js [CHR 0x22], js ''<'', js ''>'']
   \<and> mset (map displayed (answersContainer (displayAnswers build zeros entityQuestion s)))
       \<noteq> mset (map decodeHTML
                  (incorrect_answers entityQuestion @ [correct_answer entityQuestion]))
   \<and> length (filter (\<lambda>b. isCorrectSelection b (correct_answer entityQuestion))
               (answersContainer (displayAnswers build zeros entityQuestion s))) = 0"
proof -
  have decoded: "map decodeHTML (incorrect_answers entityQuestion @ [correct_answer entityQuestion])
                   = [js ''&gt;'', js ''&amp;'', js ''&quot;'', js ''&lt;'']"
    by (simp add: entityQuestion_def example_texts)
  have shown: "map displayed (answersContainer (displayAnswers build zeros entityQuestion s))
                 = [js ''&'', js [CHR 0x22], js ''<'', js ''>'']"
    by (simp add: entityQuestion_def displayAnswers_eq shuffleArray_zeros4 answerButton_def
        createElement_def displayed_def example_texts)
  have "js ''<'' \<in> set (map displayed (answersContainer (displayAnswers build zeros entityQuestion s)))"
    unfolding shown by simp
  moreover have "js ''<'' \<notin> set (map decodeHTML
                  (incorrect_answers entityQuestion @ [correct_answer entityQuestion]))"
    unfolding decoded by (simp add: js_inject)
  ultimately have differ:
    "mset (map displayed (answersContainer (displayAnswers build zeros entityQuestion s)))
       \<noteq> mset (map decodeHTML
                  (incorrect_answers entityQuestion @ [correct_answer entityQuestion]))"
    by (metis mset_eq_setD)
  have none: "length (filter (\<lambda>b. isCorrectSelection b (correct_answer entityQuestion))
               (answersContainer (displayAnswers build zeros entityQuestion s))) = 0"
    by (simp add: entityQuestion_def displayAnswers_eq shuffleArray_zeros4 answerButton_def
        createElement_def isCorrectSelection_def innerHTML_def example_texts)
  show ?thesis using decoded shown differ none by simp
qed

section \<open>The score of a session\<close>

text \<open>
  Where no decoded answer of the question on display contains an ampersand or a \<open><\<close>,
  the code adds what the specification awards.
\<close>

lemma added_awarded:
  assumes "answersContainer s = map (answerButton build c A) A"
    and "\<forall>a \<in> set A. 0x26 \<notin> set (decodeHTML a) \<and> 0x3C \<notin> set (decodeHTML a)"
  shows "added s (Click i now) = awarded s (Click i now)"
proof (cases "i < length A")
  case True
  hence "isCorrectSelection (answerButton build c A (A ! i)) c
           \<longleftrightarrow> decodeHTML (A ! i) = decodeHTML c"
    using assms(2) by (intro isCorrectSelection_answerButton) auto
  thus ?thesis
    using True assms(1) by (simp add: answerButton_def createElement_def)
next
  case False
  thus ?thesis using assms(1) by simp
qed

text \<open>
  C5 at a session over the one question \<open>entityQuestion\<close>. The button at position 2 is
  made from the correct answer \<open>&amp;lt;\<close>, so the specification awards the 980 points of
  a submission after 2.3 seconds to a click on it. The code tests the content of the
  button, which line 117 has decoded twice: the click adds nothing, the feedback line
  reads "Wrong!", and the session ends with the final score 0.
\<close>

theorem correct_choice_scores_nothing:
  "onClick (answersContainer (entityPage build) ! 2)
     = Some (SelectAnswer (js ''&amp;lt;'')
               [js ''&amp;amp;'', js ''&amp;quot;'', js ''&amp;lt;'', js ''&amp;gt;''])
   \<and> awarded (entityPage build) (Click 2 7300) = 980
   \<and> added (entityPage build) (Click 2 7300) = 0
   \<and> score (step build (entityPage build) (Click 2 7300)) = 0
   \<and> resultContainer (step build (entityPage build) (Click 2 7300))
       = js ''Wrong! The correct answer was: &lt;''
   \<and> score (run build (entityPage build) [Click 2 7300, Timeout 10300 zeros]) = 0
   \<and> finished (run build (entityPage build) [Click 2 7300, Timeout 10300 zeros])
   \<and> resultContainer (run build (entityPage build) [Click 2 7300, Timeout 10300 zeros]) = []"
proof -
  have listener: "onClick (answersContainer (entityPage build) ! 2)
     = Some (SelectAnswer (js ''&amp;lt;'')
               [js ''&amp;amp;'', js ''&amp;quot;'', js ''&amp;lt;'', js ''&amp;gt;''])"
    by (simp add: entityPage_def entityQuestion_def page_defs shuffleArray_zeros4)
  have spec: "awarded (entityPage build) (Click 2 7300) = 980"
    by (simp add: entityPage_def entityQuestion_def page_defs example_texts)
  have code: "added (entityPage build) (Click 2 7300) = 0"
    by (simp add: entityPage_def entityQuestion_def page_defs example_texts)
  have zero: "score (entityPage build) = 0"
    by (simp add: entityPage_def fetchQuestions_def always_def displayQuestion_session)
  have one: "score (step build (entityPage build) (Click 2 7300)) = 0"
    using score_step [of build "entityPage build" "Click 2 7300"] code zero by simp
  have two: "score (run build (entityPage build) [Click 2 7300, Timeout 10300 zeros]) = 0"
    using score_run [of build "entityPage build" "[Click 2 7300, Timeout 10300 zeros]"] code zero
    by simp
  have wrong: "resultContainer (step build (entityPage build) (Click 2 7300))
                 = js ''Wrong! The correct answer was: &lt;''"
    by (simp add: entityPage_def entityQuestion_def page_defs example_texts)
      (simp add: js_def)
  have fin: "finished (run build (entityPage build) [Click 2 7300, Timeout 10300 zeros])
             \<and> resultContainer (run build (entityPage build) [Click 2 7300, Timeout 10300 zeros]) = []"
    by (simp add: run_def timeoutCallback_def showResults_def updateHighScore_def
        updateHighScoreDisplay_def appendChild_def finished_def
        entityPage_def entityQuestion_def page_defs example_texts)
  show ?thesis
    using listener spec code one two wrong fin by simp
qed

section \<open>Decoding\<close>

lemma ampersand_free_decodeHTML:
  assumes "0x26 \<notin> set x"
  shows "0x26 \<notin> set (decodeHTML x)"
proof -
  have n: "0x26 \<notin> set (normalizeNewlines x)"
    using assms normalizeNewlines_subset [of "0x26" x] by auto
  hence "decodeReferences (normalizeNewlines x) = normalizeNewlines x"
    by (rule decodeReferences_id)
  hence "0x26 \<notin> set (textareaInnerHTML x)"
    using n by (auto simp: textareaInnerHTML_def split: if_splits)
  thus ?thesis
    using normalizeNewlines_subset [of "0x26" "textareaInnerHTML x"]
    by (auto simp: decodeHTML_def textareaValue_def)
qed

text \<open>
  C6 (as amended). Decoding is idempotent on already-plain text, that is, on text that
  decoding leaves unchanged, and also on every text without an ampersand; the encoded
  apostrophe decodes to the apostrophe. The comparisons of lines 138 and 143 decode both
  sides: two escaped forms of one string \<open>y\<close> (both decode to \<open>y\<close>) always compare
  equal, and an escaped form compares equal to \<open>y\<close> itself, on either side, whenever
  decoding leaves \<open>y\<close> unchanged.
\<close>

theorem decodeHTML_comparison:
  "(decodeHTML x = x \<longrightarrow> decodeHTML (decodeHTML x) = decodeHTML x)
   \<and> (0x26 \<notin> set x \<longrightarrow> decodeHTML (decodeHTML x) = decodeHTML x)
   \<and> decodeHTML (js ''&#039;'') = [0x27]
   \<and> (decodeHTML (innerHTML b) = y \<and> decodeHTML c = y \<longrightarrow> isCorrectSelection b c)
   \<and> (decodeHTML (innerHTML b) = y \<and> decodeHTML y = y \<longrightarrow> isCorrectSelection b y)
   \<and> (innerHTML b = y \<and> decodeHTML c = y \<and> decodeHTML y = y \<longrightarrow> isCorrectSelection b c)
   \<and> (a \<in> set A \<and> decodeHTML a = y \<and> (decodeHTML c = y \<or> c = y \<and> decodeHTML y = y) \<longrightarrow>
        findCorrectButton c A bs = findIndex (\<lambda>b. innerHTML b = decodeHTML c) bs)"
proof -
  have fixed: "decodeHTML (decodeHTML z) = decodeHTML z" if "0x26 \<notin> set z" for z
    using ampersand_free_decodeHTML [OF that]
    by (simp add: decodeHTML_id decodeHTML_no_CR decodeHTML_no_NUL)
  have apostrophe: "decodeHTML (js ''&#039;'') = [0x27]"
    by (simp add: html_defs)
  have guard: "findCorrectButton c A bs = findIndex (\<lambda>b. innerHTML b = decodeHTML c) bs"
    if "a \<in> set A" and "decodeHTML a = decodeHTML c"
    using that by (auto simp: findCorrectButton_eq)
  show ?thesis
    using fixed [of x] apostrophe guard by (auto simp: isCorrectSelection_def)
qed

theorem decodeHTML_comparison_witness:
  "decodeHTML (decodeHTML (js ''AT&T'')) = decodeHTML (js ''AT&T'')
   \<and> decodeHTML (decodeHTML (js ''2+2=?'')) = decodeHTML (js ''2+2=?'')
   \<and> isCorrectSelection (createElement\<lparr>contents := Text (js ''AT&T'')\<rparr>) (js ''AT&amp;T'')
   \<and> isCorrectSelection (createElement\<lparr>contents := Text (js ''AT&T'')\<rparr>) (js ''AT&T'')
   \<and> isCorrectSelection (createElement\<lparr>contents := Text (js ''4'')\<rparr>) (js ''&#52;'')
   \<and> findCorrectButton (js ''AT&T'') [js ''Sprint'', js ''AT&amp;T'']
         [createElement\<lparr>contents := Text (js ''Sprint'')\<rparr>,
          createElement\<lparr>contents := Text (js ''AT&T'')\<rparr>]
       = findIndex (\<lambda>b. innerHTML b = decodeHTML (js ''AT&T''))
           [createElement\<lparr>contents := Text (js ''Sprint'')\<rparr>,
            createElement\<lparr>contents := Text (js ''AT&T'')\<rparr>]"
proof -
  let ?b = "createElement\<lparr>contents := Text (js ''AT&T'')\<rparr>"
  let ?four = "createElement\<lparr>contents := Text (js ''4'')\<rparr>"
  have plain: "decodeHTML (js ''AT&T'') = js ''AT&T''"
    by (simp add: html_defs)
  have esc: "decodeHTML (js ''AT&amp;T'') = js ''AT&T''"
    by (rule example_decodeHTML)
  have inner: "decodeHTML (innerHTML ?b) = js ''AT&T''"
    by (simp add: innerHTML_def createElement_def example_texts)
  have sum: "0x26 \<notin> set (js ''2+2=?'')"
    by (simp add: js_def)
  have four: "innerHTML ?four = js ''4''" "decodeHTML (js ''&#52;'') = js ''4''"
    "decodeHTML (js ''4'') = js ''4''"
    by (simp_all add: innerHTML_def createElement_def html_defs)
  show ?thesis
    using decodeHTML_comparison [of "js ''AT&T''" ?b "js ''AT&T''" "js ''AT&amp;T''"
        "js ''AT&amp;T''" "[js ''Sprint'', js ''AT&amp;T'']" "[]"]
      decodeHTML_comparison [of "js ''2+2=?''" ?four "js ''4''" "js ''&#52;''"
        "js ''AT&amp;T''" "[js ''Sprint'', js ''AT&amp;T'']" "[]"]
      decodeHTML_comparison [of "js ''AT&T''" ?b "js ''AT&T''" "js ''AT&T''"
        "js ''AT&amp;T''" "[js ''Sprint'', js ''AT&amp;T'']"
        "[createElement\<lparr>contents := Text (js ''Sprint'')\<rparr>, ?b]"]
      plain esc inner sum four
    by simp
qed

text \<open>
  The claim as stated fails when decoding changes the unescaped form: \<open>&amp;lt;\<close> is
  the escaped form of the four characters \<open>&lt;\<close>, the content of the button serialises
  to it, and the test of line 143 against the unescaped answer \<open>&lt;\<close> fails, because
  that side is decoded once more.
\<close>

theorem isCorrectSelection_counterexample:
  "innerHTML (createElement\<lparr>contents := Text (js ''&lt;'')\<rparr>) = js ''&amp;lt;''
   \<and> decodeHTML (js ''&amp;lt;'') = js ''&lt;''
   \<and> \<not> isCorrectSelection (createElement\<lparr>contents := Text (js ''&lt;'')\<rparr>) (js ''&lt;'')"
proof -
  have e: "escapeText (js ''&lt;'') = js ''&amp;lt;''"
    by (simp add: html_defs)
  show ?thesis
    by (simp add: isCorrectSelection_def innerHTML_def createElement_def e example_texts)
qed

section \<open>The category selector\<close>

text \<open>What a category load does to the selector: it appends, and it never clears.\<close>

lemma fetchCategories_appends:
  "categorySelect (fetchCategories (Fulfilled cs) s) = categorySelect s @ map categoryOption cs"
  "categorySelect (restartQuiz (Fulfilled cs) s) = categorySelect s @ map categoryOption cs"
  "fetchCategories (Rejected e) s = s"
  by (simp_all add: fetchCategories_def restartQuiz_def foldl_appendOption)

text \<open>
  C7 at a restart. The load at startup gives the selector one entry per fetched category
  (value = id, label = name), in the order of the response. The restart listener
  loads the categories again without clearing the selector, unlike
  \<open>displayAnswers\<close> and \<open>showResults\<close>, which empty their container before they fill
  it: after one game (here one for which the API returns no question) and a restart, the
  selector holds the category twice.
\<close>

theorem fetchCategories_duplicates:
  "categorySelect (fetchCategories (Fulfilled [generalKnowledge]) loadedPage)
     = [\<lparr>option_value = js ''9'', option_textContent = js ''General Knowledge''\<rparr>]
   \<and> categorySelect
       (run build
         (startGame build [] (js ''1'') [] (always (Fulfilled [])) 5000 zeros
           (fetchCategories (Fulfilled [generalKnowledge]) loadedPage))
         [Restart (Fulfilled [generalKnowledge])])
     = [\<lparr>option_value = js ''9'', option_textContent = js ''General Knowledge''\<rparr>,
        \<lparr>option_value = js ''9'', option_textContent = js ''General Knowledge''\<rparr>]
   \<and> categorySelect
       (run build
         (startGame build [] (js ''1'') [] (always (Fulfilled [])) 5000 zeros
           (fetchCategories (Fulfilled [generalKnowledge]) loadedPage))
         [Restart (Fulfilled [generalKnowledge])])
     \<noteq> map categoryOption [generalKnowledge]
   \<and> \<not> distinct
        (categorySelect
          (run build
            (startGame build [] (js ''1'') [] (always (Fulfilled [])) 5000 zeros
              (fetchCategories (Fulfilled [generalKnowledge]) loadedPage))
            [Restart (Fulfilled [generalKnowledge])]))"
proof -
  have nine: "toString 9 = js ''9''"
    by (simp add: toString_def digits.simps digit_def js_def)
  show ?thesis
    by (simp add: run_def finished_def restartQuiz_def startGame_def fetchQuestions_def
        always_def displayQuestion_def showResults_def appendChild_def updateHighScore_def
        updateHighScoreDisplay_def fetchCategories_def appendOption_def loadedPage_def
        categoryOption_def generalKnowledge_def nine)
qed

section \<open>The question request\<close>

text \<open>
  C8. When the request is fulfilled, \<open>fetchQuestions\<close> installs the returned list and the
  session starts at index 0 with score 0. When it is rejected, the only effect is an alert
  whose message contains the error: question list, index and score stay as they were.
\<close>

theorem fetchQuestions_settled:
  "(net (requestUrl amount category difficulty) = Fulfilled results \<longrightarrow>
      currentQuestions (fetchQuestions build amount category difficulty net now rnd s) = results
      \<and> questionIndex (fetchQuestions build amount category difficulty net now rnd s) = 0
      \<and> score (fetchQuestions build amount category difficulty net now rnd s) = 0)
   \<and> (net (requestUrl amount category difficulty) = Rejected error \<longrightarrow>
      fetchQuestions build amount category difficulty net now rnd s
        = s\<lparr>alerts := alerts s @ [js ''Error:'' @ error]\<rparr>
      \<and> currentQuestions (fetchQuestions build amount category difficulty net now rnd s)
          = currentQuestions s
      \<and> questionIndex (fetchQuestions build amount category difficulty net now rnd s)
          = questionIndex s
      \<and> score (fetchQuestions build amount category difficulty net now rnd s) = score s)"
  by (simp add: fetchQuestions_def displayQuestion_session)

theorem fetchQuestions_settled_witness:
  "currentQuestions
     (fetchQuestions noElements (js ''1'') [] [] (always (Fulfilled [sumQuestion])) 5000 zeros
        (loadedPage\<lparr>score := 980, questionIndex := 1\<rparr>)) = [sumQuestion]
   \<and> questionIndex
     (fetchQuestions noElements (js ''1'') [] [] (always (Fulfilled [sumQuestion])) 5000 zeros
        (loadedPage\<lparr>score := 980, questionIndex := 1\<rparr>)) = 0
   \<and> score
     (fetchQuestions noElements (js ''1'') [] [] (always (Fulfilled [sumQuestion])) 5000 zeros
        (loadedPage\<lparr>score := 980, questionIndex := 1\<rparr>)) = 0
   \<and> fetchQuestions noElements (js ''1'') [] []
        (always (Rejected (js ''TypeError: Failed to fetch''))) 5000
        zeros (loadedPage\<lparr>score := 980, questionIndex := 1\<rparr>)
      = loadedPage\<lparr>score := 980, questionIndex := 1,
                    alerts := [js ''Error:'' @ js ''TypeError: Failed to fetch'']\<rparr>"
proof -
  have a: "alerts loadedPage = []"
    by (simp add: loadedPage_def)
  show ?thesis
    using fetchQuestions_settled [of "always (Fulfilled [sumQuestion])" "js ''1''" "[]" "[]"
        "[sumQuestion]" noElements 5000 zeros "loadedPage\<lparr>score := 980, questionIndex := 1\<rparr>"]
      fetchQuestions_settled [of "always (Rejected (js ''TypeError: Failed to fetch''))"
        "js ''1''" "[]" "[]" _ noElements 5000 zeros
        "loadedPage\<lparr>score := 980, questionIndex := 1\<rparr>"
        "js ''TypeError: Failed to fetch''"] a
    by (simp add: always_def)
qed

text \<open>
  C9. When the fulfilled response holds no question, \<open>fetchQuestions\<close> goes straight to
  the results: the high-score check runs on score 0 and the results view is shown (the
  finished message, the final score 0, the restart button as only child). No answer
  button is created, no question start time is taken and no timeout is pending.
\<close>

theorem fetchQuestions_empty:
  "net (requestUrl amount category difficulty) = Fulfilled [] \<Longrightarrow>
   score (fetchQuestions build amount category difficulty net now rnd s) = 0
   \<and> highScore (fetchQuestions build amount category difficulty net now rnd s)
       = max (highScore s) 0
   \<and> questionContainer (fetchQuestions build amount category difficulty net now rnd s)
       = js ''Quiz Finished!''
   \<and> resultContainer (fetchQuestions build amount category difficulty net now rnd s)
       = js ''Your final score is 0''
   \<and> finished (fetchQuestions build amount category difficulty net now rnd s)
   \<and> progressContainer (fetchQuestions build amount category difficulty net now rnd s) = []
   \<and> questionStartTime (fetchQuestions build amount category difficulty net now rnd s)
       = questionStartTime s
   \<and> timeouts (fetchQuestions build amount category difficulty net now rnd s) = timeouts s"
  by (simp add: fetchQuestions_def displayQuestion_def showResults_def appendChild_def
      updateHighScore_def updateHighScoreDisplay_def toString_def digits.simps digit_def
      js_def finished_def)

theorem fetchQuestions_empty_witness:
  "score (fetchQuestions noElements (js ''10'') [] [] (always (Fulfilled [])) 5000 zeros loadedPage)
     = 0
   \<and> highScore
       (fetchQuestions noElements (js ''10'') [] [] (always (Fulfilled [])) 5000 zeros loadedPage)
     = 0
   \<and> finished
       (fetchQuestions noElements (js ''10'') [] [] (always (Fulfilled [])) 5000 zeros loadedPage)
   \<and> resultContainer
       (fetchQuestions noElements (js ''10'') [] [] (always (Fulfilled [])) 5000 zeros loadedPage)
       = js ''Your final score is 0''"
proof -
  have hs: "highScore loadedPage = 0"
    by (simp add: loadedPage_def)
  show ?thesis
    using fetchQuestions_empty [of "always (Fulfilled [])" "js ''10''" "[]" "[]" noElements 5000
        zeros loadedPage] hs
    by (simp add: always_def)
qed

section \<open>The button of the correct answer\<close>

lemma bellPage_buttons:
  "map innerHTML (answersContainer (bellPage build))
     = [js ''Sprint'', js ''T-Mobile'', js ''AT&amp;T'', js ''Verizon'']"
  by (simp add: bellPage_def ampersandQuestion_def fetchQuestions_def always_def
      displayQuestion_def displayAnswers_eq updateProgress_def Let_def shuffleArray_zeros4
      answerButton_def createElement_def innerHTML_def example_texts)

text \<open>
  C10 at the question \<open>ampersandQuestion\<close>. The button of the correct answer shows
  \<open>AT&T\<close>, its \<open>innerHTML\<close> reads \<open>AT&amp;T\<close>, and line 139 compares that with the
  decoded answer \<open>AT&T\<close>: no button is found. Selecting the wrong answer \<open>Sprint\<close> then
  throws at line 149, before the score display is updated and before the timeout is set.
\<close>

theorem correctButton_undefined:
  "decodeHTML (correct_answer ampersandQuestion) = js ''AT&T''
   \<and> map innerHTML (answersContainer (bellPage build))
       = [js ''Sprint'', js ''T-Mobile'', js ''AT&amp;T'', js ''Verizon'']
   \<and> findCorrectButton (correct_answer ampersandQuestion)
         [js ''Sprint'', js ''T-Mobile'', js ''AT&amp;T'', js ''Verizon'']
         (answersContainer (disableButtons (bellPage build))) = None
   \<and> threw (click 7300 0 (bellPage build))
   \<and> timeouts (pageOf (click 7300 0 (bellPage build))) = 0"
proof -
  have "decodeHTML (correct_answer ampersandQuestion) = js ''AT&T''"
    by (simp add: ampersandQuestion_def example_texts)
  moreover have "findCorrectButton (correct_answer ampersandQuestion)
         [js ''Sprint'', js ''T-Mobile'', js ''AT&amp;T'', js ''Verizon'']
         (answersContainer (disableButtons (bellPage build))) = None"
    by (simp add: bellPage_def ampersandQuestion_def page_defs shuffleArray_zeros4 example_texts)
  moreover have "threw (click 7300 0 (bellPage build))"
    by (simp add: bellPage_def ampersandQuestion_def page_defs example_texts)
  moreover have "timeouts (pageOf (click 7300 0 (bellPage build))) = 0"
    by (simp add: bellPage_def ampersandQuestion_def page_defs example_texts)
  ultimately show ?thesis
    using bellPage_buttons by simp
qed

end
